theory Spec2Isabelle
  imports Main "HOL-Library.Word"
begin

unbundle bit_operations_syntax

section \<open>The memory ledger of the EFI emulation in kernel/kexec.c\<close>

text \<open>
  The constants \<open>PAGE_SIZE\<close> and \<open>EFI_DEFAULT_MEM_ATTRIBUTES\<close> come from kernel
  headers that are not part of kexec.c.  Every function that uses them takes them as a
  parameter, collected in one record.
\<close>

record kernel_consts =
  PAGE_SIZE :: "64 word"
  EFI_DEFAULT_MEM_ATTRIBUTES :: "64 word"

text \<open>\<open>efi_status_t\<close>: the status codes the hooks of the ledger return.\<close>

datatype efi_status =
    EFI_SUCCESS
  | EFI_UNSUPPORTED
  | EFI_INVALID_PARAMETER
  | EFI_BUFFER_TOO_SMALL
  | EFI_OUT_OF_RESOURCES

text \<open>
  \<open>EFI_MEMORY_TYPE\<close> is a C enum whose value is stored in the \<open>u32\<close> field \<open>type\<close> of
  a descriptor; the enumerators are numbered from 0 in the order of the source.
\<close>

type_synonym EFI_MEMORY_TYPE = "32 word"

definition EfiReservedMemoryType :: EFI_MEMORY_TYPE where "EfiReservedMemoryType = 0"
definition EfiLoaderCode :: EFI_MEMORY_TYPE where "EfiLoaderCode = 1"
definition EfiLoaderData :: EFI_MEMORY_TYPE where "EfiLoaderData = 2"
definition EfiBootServicesCode :: EFI_MEMORY_TYPE where "EfiBootServicesCode = 3"
definition EfiBootServicesData :: EFI_MEMORY_TYPE where "EfiBootServicesData = 4"
definition EfiRuntimeServicesCode :: EFI_MEMORY_TYPE where "EfiRuntimeServicesCode = 5"
definition EfiRuntimeServicesData :: EFI_MEMORY_TYPE where "EfiRuntimeServicesData = 6"
definition EfiConventionalMemory :: EFI_MEMORY_TYPE where "EfiConventionalMemory = 7"

datatype EFI_ALLOCATE_TYPE =
    AllocateAnyPages
  | AllocateMaxAddress
  | AllocateAddress
  | MaxAllocateType

text \<open>\<open>EFI_MEMORY_DESCRIPTOR\<close>, field by field.\<close>

record EFI_MEMORY_DESCRIPTOR =
  type :: "32 word"
  pad :: "32 word"
  phys_addr :: "64 word"
  virt_addr :: "64 word"
  num_pages :: "64 word"
  attribute :: "64 word"
  pad2 :: "64 word"

text \<open>
  The global list \<open>efi_memory_mappings\<close> (a \<open>list_head\<close> of \<open>MemoryAllocation\<close> nodes,
  appended at the tail) is a list of descriptors in ledger order; \<open>efi_mem_map_epoch\<close>
  is the other global of the ledger.
\<close>

record efi_globals =
  efi_memory_mappings :: "EFI_MEMORY_DESCRIPTOR list"
  efi_mem_map_epoch :: "64 word"

definition initial_globals :: efi_globals where
  "initial_globals = \<lparr>efi_memory_mappings = [], efi_mem_map_epoch = 0\<rparr>"

subsection \<open>\<open>efi_register_mem_allocation\<close>\<close>

text \<open>
  \<open>node_ok\<close> says whether \<open>kmalloc\<close> of the list node succeeded; \<open>phys\<close> is
  \<open>virt_to_phys(allocation)\<close>.  With no node the function returns without registering.
\<close>

definition efi_register_mem_allocation ::
  "kernel_consts \<Rightarrow> bool \<Rightarrow> EFI_MEMORY_TYPE \<Rightarrow> 64 word \<Rightarrow> 64 word \<Rightarrow> efi_globals \<Rightarrow> efi_globals"
where
  "efi_register_mem_allocation K node_ok MemoryType NumberOfPages phys g =
     (if \<not> node_ok then g
      else g\<lparr>efi_memory_mappings := efi_memory_mappings g @
             [\<lparr>type = MemoryType, pad = 0, phys_addr = phys, virt_addr = 0,
               num_pages = NumberOfPages,
               attribute = EFI_DEFAULT_MEM_ATTRIBUTES K, pad2 = 0\<rparr>]\<rparr>)"

subsection \<open>\<open>efi_unregister_allocation\<close> and \<open>efi_hook_FreePages\<close>\<close>

text \<open>
  The \<open>list_for_each_entry\<close> loop: descriptors that do not contain the address are
  skipped; the first one that contains it decides the result.  All arithmetic is on
  64-bit unsigned values, as in the source.
\<close>

fun unregister_scan ::
  "kernel_consts \<Rightarrow> 64 word \<Rightarrow> 64 word \<Rightarrow> EFI_MEMORY_DESCRIPTOR list
     \<Rightarrow> efi_status \<times> EFI_MEMORY_DESCRIPTOR list"
where
  "unregister_scan K PhysicalAddress NumberOfPages [] = (EFI_INVALID_PARAMETER, [])"
| "unregister_scan K PhysicalAddress NumberOfPages (mem_map # rest) =
     (let end_of_region = phys_addr mem_map + num_pages mem_map * PAGE_SIZE K in
      if PhysicalAddress < phys_addr mem_map \<or> PhysicalAddress \<ge> end_of_region
      then (case unregister_scan K PhysicalAddress NumberOfPages rest of
              (st, rest') \<Rightarrow> (st, mem_map # rest'))
      else
        (let offset_in_mapping = PhysicalAddress - phys_addr mem_map in
         if offset_in_mapping \<noteq> 0 \<or> num_pages mem_map \<noteq> NumberOfPages
         then (EFI_INVALID_PARAMETER, mem_map # rest)
         else (EFI_SUCCESS, mem_map\<lparr>type := EfiConventionalMemory\<rparr> # rest)))"

definition efi_unregister_allocation ::
  "kernel_consts \<Rightarrow> 64 word \<Rightarrow> 64 word \<Rightarrow> efi_globals \<Rightarrow> efi_status \<times> efi_globals"
where
  "efi_unregister_allocation K PhysicalAddress NumberOfPages g =
     (case unregister_scan K PhysicalAddress NumberOfPages (efi_memory_mappings g) of
        (st, ms) \<Rightarrow> (st, g\<lparr>efi_memory_mappings := ms\<rparr>))"

definition efi_hook_FreePages ::
  "kernel_consts \<Rightarrow> 64 word \<Rightarrow> 64 word \<Rightarrow> efi_globals \<Rightarrow> efi_status \<times> efi_globals"
where
  "efi_hook_FreePages K PhysicalAddress NumberOfPages g =
     efi_unregister_allocation K PhysicalAddress NumberOfPages g"

subsection \<open>\<open>efi_hook_FreePool\<close>\<close>

definition efi_hook_FreePool :: "64 word \<Rightarrow> efi_globals \<Rightarrow> efi_status \<times> efi_globals" where
  "efi_hook_FreePool buff g = (EFI_SUCCESS, g)"

subsection \<open>\<open>efi_get_mem_map_size\<close> and \<open>efi_hook_GetMemoryMap\<close>\<close>

text \<open>
  \<open>sizeof(EFI_MEMORY_DESCRIPTOR)\<close>: two \<open>u32\<close> and five \<open>u64\<close> fields, 48 bytes with
  no padding.  \<open>memcpy\<close> of a descriptor copies its fields in declaration order, each
  in the byte order of the (little-endian) machine.
\<close>

definition sizeof_EFI_MEMORY_DESCRIPTOR :: nat where
  "sizeof_EFI_MEMORY_DESCRIPTOR = 48"

definition le_bytes :: "nat \<Rightarrow> 'a::len word \<Rightarrow> 8 word list" where
  "le_bytes n w = map (\<lambda>k. ucast (drop_bit (8 * k) w)) [0..<n]"

definition descriptor_bytes :: "EFI_MEMORY_DESCRIPTOR \<Rightarrow> 8 word list" where
  "descriptor_bytes d =
     le_bytes 4 (type d) @ le_bytes 4 (pad d) @ le_bytes 8 (phys_addr d) @
     le_bytes 8 (virt_addr d) @ le_bytes 8 (num_pages d) @ le_bytes 8 (attribute d) @
     le_bytes 8 (pad2 d)"

text \<open>The counting loop of \<open>efi_get_mem_map_size\<close>, on a \<open>u32\<close> counter.\<close>

definition efi_get_mem_map_size :: "efi_globals \<Rightarrow> 64 word" where
  "efi_get_mem_map_size g =
     (let num_mem_allocations = foldl (\<lambda>(n :: 32 word) position. n + 1) 0 (efi_memory_mappings g)
      in ucast num_mem_allocations * of_nat sizeof_EFI_MEMORY_DESCRIPTOR)"

text \<open>
  The variables the caller passes by pointer: their contents before the call go in,
  their contents after the call come out.  \<open>MemoryMap\<close> is the caller's buffer.
\<close>

record getmemmap_vars =
  MemoryMapSize :: "64 word"
  MemoryMap :: "8 word list"
  MapKey :: "64 word"
  DescriptorSize :: "64 word"
  DescriptorVersion :: "32 word"

text \<open>\<open>memcpy( dst + off, src, n )\<close> on a buffer held as a list of bytes.\<close>

definition memcpy_at :: "nat \<Rightarrow> 8 word list \<Rightarrow> 8 word list \<Rightarrow> 8 word list" where
  "memcpy_at off src buf = take off buf @ src @ drop (off + length src) buf"

text \<open>One round of the copy loop: the state is \<open>current_offset\<close> and the buffer.\<close>

definition copy_descriptor ::
  "nat \<times> 8 word list \<Rightarrow> EFI_MEMORY_DESCRIPTOR \<Rightarrow> nat \<times> 8 word list" where
  "copy_descriptor st mem_map =
     (case st of (current_offset, buf) \<Rightarrow>
        (current_offset + sizeof_EFI_MEMORY_DESCRIPTOR,
         memcpy_at current_offset (descriptor_bytes mem_map) buf))"

definition efi_hook_GetMemoryMap ::
  "efi_globals \<Rightarrow> getmemmap_vars \<Rightarrow> efi_status \<times> getmemmap_vars" where
  "efi_hook_GetMemoryMap g v =
     (let current_mapping_size = efi_get_mem_map_size g;
          v1 = v\<lparr>DescriptorVersion := 1,
                 DescriptorSize := of_nat sizeof_EFI_MEMORY_DESCRIPTOR\<rparr>
      in if MemoryMapSize v1 < current_mapping_size
         then (EFI_BUFFER_TOO_SMALL, v1\<lparr>MemoryMapSize := current_mapping_size\<rparr>)
         else (case foldl copy_descriptor (0, MemoryMap v1) (efi_memory_mappings g) of
                 (current_offset, buf) \<Rightarrow>
                   (EFI_SUCCESS,
                    v1\<lparr>MemoryMap := buf,
                       MemoryMapSize := of_nat current_offset,
                       MapKey := efi_mem_map_epoch g\<rparr>)))"

subsection \<open>\<open>efi_hook_AllocatePool\<close> and \<open>efi_hook_AllocatePages\<close>\<close>

text \<open>
  What the kernel answers during one allocation call is an input of the model:
  \<^item> \<open>alloc_phys\<close>: \<open>virt_to_phys\<close> of the block \<open>kmalloc\<close> returned, \<open>None\<close>
    when it returned \<open>NULL\<close>;
  \<^item> \<open>remap_phys\<close>: \<open>virt_to_phys\<close> of what \<open>memremap( *Memory, ... )\<close> returned;
  \<^item> \<open>mapping_ok\<close>: \<open>efi_setup_11_mapping\<close> returns (it changes page tables only, and
    halts the kernel in \<open>BUG_ON\<close> otherwise);
  \<^item> \<open>node_ok\<close>: \<open>kmalloc\<close> of the list node in \<open>efi_register_mem_allocation\<close>
    succeeded.
  A call that halts the kernel has no result: \<open>None\<close>.
\<close>

record host =
  alloc_phys :: "64 word option"
  remap_phys :: "64 word"
  mapping_ok :: bool
  node_ok :: bool

definition NUM_PAGES :: "kernel_consts \<Rightarrow> 64 word \<Rightarrow> 64 word" where
  "NUM_PAGES K sz = (sz - 1) div PAGE_SIZE K + 1"

text \<open>The result carries the status, the contents of \<open>*buffer\<close> and the globals.\<close>

definition efi_hook_AllocatePool ::
  "kernel_consts \<Rightarrow> host \<Rightarrow> EFI_MEMORY_TYPE \<Rightarrow> 64 word \<Rightarrow> 64 word \<Rightarrow> efi_globals
     \<Rightarrow> (efi_status \<times> 64 word \<times> efi_globals) option"
where
  "efi_hook_AllocatePool K h pool_type sz buffer g =
     (case alloc_phys h of
        None \<Rightarrow> Some (EFI_OUT_OF_RESOURCES, buffer, g)
      | Some allocation \<Rightarrow>
          if \<not> mapping_ok h then None
          else Some (EFI_SUCCESS, allocation,
                     efi_register_mem_allocation K (node_ok h) pool_type
                       (NUM_PAGES K sz) allocation g))"

text \<open>The result carries the status, the contents of \<open>*Memory\<close> and the globals.\<close>

definition efi_hook_AllocatePages ::
  "kernel_consts \<Rightarrow> host \<Rightarrow> EFI_ALLOCATE_TYPE \<Rightarrow> EFI_MEMORY_TYPE \<Rightarrow> 64 word \<Rightarrow> 64 word
     \<Rightarrow> efi_globals \<Rightarrow> (efi_status \<times> 64 word \<times> efi_globals) option"
where
  "efi_hook_AllocatePages K h Type MemoryType NumberOfPages Memory g =
     (if MemoryType \<noteq> EfiLoaderData \<and> MemoryType \<noteq> EfiConventionalMemory \<and>
         MemoryType \<noteq> EfiLoaderCode
      then Some (EFI_UNSUPPORTED, Memory, g)
      else if Type = AllocateAddress
      then (if \<not> mapping_ok h then None
            else Some (EFI_SUCCESS, Memory,
                       efi_register_mem_allocation K (node_ok h) MemoryType NumberOfPages
                         (remap_phys h) g))
      else if Type = AllocateAnyPages
      then (case efi_hook_AllocatePool K h MemoryType (NumberOfPages * PAGE_SIZE K) 0 g of
              None \<Rightarrow> None
            | Some (status, phys_allocation, g') \<Rightarrow> Some (status, phys_allocation, g'))
      else Some (EFI_UNSUPPORTED, Memory, g))"

subsection \<open>A session: the guest's calls into the ledger, one after the other\<close>

datatype efi_call =
    Call_AllocatePool host EFI_MEMORY_TYPE "64 word"
  | Call_AllocatePages host EFI_ALLOCATE_TYPE EFI_MEMORY_TYPE "64 word" "64 word"
  | Call_FreePages "64 word" "64 word"
  | Call_FreePool "64 word"
  | Call_GetMemoryMap getmemmap_vars

text \<open>The globals after one call; \<open>None\<close> when the kernel halted in it.\<close>

fun run_call :: "kernel_consts \<Rightarrow> efi_call \<Rightarrow> efi_globals \<Rightarrow> efi_globals option" where
  "run_call K (Call_AllocatePool h t sz) g =
     map_option (\<lambda>r. snd (snd r)) (efi_hook_AllocatePool K h t sz 0 g)"
| "run_call K (Call_AllocatePages h ty t n mem) g =
     map_option (\<lambda>r. snd (snd r)) (efi_hook_AllocatePages K h ty t n mem g)"
| "run_call K (Call_FreePages a n) g = Some (snd (efi_hook_FreePages K a n g))"
| "run_call K (Call_FreePool b) g = Some (snd (efi_hook_FreePool b g))"
| "run_call K (Call_GetMemoryMap v) g = Some g"

fun run_calls :: "kernel_consts \<Rightarrow> efi_call list \<Rightarrow> efi_globals \<Rightarrow> efi_globals option" where
  "run_calls K [] g = Some g"
| "run_calls K (c # cs) g =
     (case run_call K c g of None \<Rightarrow> None | Some g' \<Rightarrow> run_calls K cs g')"

text \<open>
  The map key that a call hands out: a successful \<open>GetMemoryMap\<close> writes one to
  \<open>*MapKey\<close>, no other call does.  \<open>session_map_keys\<close> collects the keys of a session
  in the order of the calls.
\<close>

definition call_map_keys :: "efi_globals \<Rightarrow> efi_call \<Rightarrow> 64 word list" where
  "call_map_keys g c =
     (case c of
        Call_GetMemoryMap v \<Rightarrow>
          (case efi_hook_GetMemoryMap g v of
             (EFI_SUCCESS, v') \<Rightarrow> [MapKey v']
           | _ \<Rightarrow> [])
      | _ \<Rightarrow> [])"

fun session_map_keys :: "kernel_consts \<Rightarrow> efi_call list \<Rightarrow> efi_globals \<Rightarrow> 64 word list" where
  "session_map_keys K [] g = []"
| "session_map_keys K (c # cs) g =
     call_map_keys g c @
     (case run_call K c g of None \<Rightarrow> [] | Some g' \<Rightarrow> session_map_keys K cs g')"

subsection \<open>Predicates on the ledger used to state its properties\<close>

text \<open>
  \<open>in_region\<close> is the test of the scan in \<open>efi_unregister_allocation\<close>, negated: the
  address lies between the start of the descriptor and its \<open>end_of_region\<close>, both as the
  source computes them on 64 bits.
\<close>

definition in_region :: "kernel_consts \<Rightarrow> 64 word \<Rightarrow> EFI_MEMORY_DESCRIPTOR \<Rightarrow> bool" where
  "in_region K a d \<longleftrightarrow>
     phys_addr d \<le> a \<and> a < phys_addr d + num_pages d * PAGE_SIZE K"

text \<open>
  A descriptor is active when its type is not \<open>EfiConventionalMemory\<close>.  Its physical
  range is \<open>[phys_addr, phys_addr + num_pages * PAGE_SIZE)\<close>, here over the natural
  numbers; two ranges overlap when they share an address.
\<close>

definition is_active :: "EFI_MEMORY_DESCRIPTOR \<Rightarrow> bool" where
  "is_active d \<longleftrightarrow> type d \<noteq> EfiConventionalMemory"

definition range_lo :: "EFI_MEMORY_DESCRIPTOR \<Rightarrow> nat" where
  "range_lo d = unat (phys_addr d)"

definition range_hi :: "kernel_consts \<Rightarrow> EFI_MEMORY_DESCRIPTOR \<Rightarrow> nat" where
  "range_hi K d = unat (phys_addr d) + unat (num_pages d) * unat (PAGE_SIZE K)"

definition ranges_overlap ::
  "kernel_consts \<Rightarrow> EFI_MEMORY_DESCRIPTOR \<Rightarrow> EFI_MEMORY_DESCRIPTOR \<Rightarrow> bool" where
  "ranges_overlap K d e \<longleftrightarrow> max (range_lo d) (range_lo e) < min (range_hi K d) (range_hi K e)"

fun active_disjoint :: "kernel_consts \<Rightarrow> EFI_MEMORY_DESCRIPTOR list \<Rightarrow> bool" where
  "active_disjoint K [] = True"
| "active_disjoint K (d # ds) =
     ((is_active d \<longrightarrow> (\<forall>e \<in> set ds. is_active e \<longrightarrow> \<not> ranges_overlap K d e)) \<and>
      active_disjoint K ds)"

text \<open>Constants of a kernel built with 4 KiB pages, and a host that grants every request
  at the physical address \<open>p\<close>.\<close>

definition K_4k :: kernel_consts where
  "K_4k = \<lparr>PAGE_SIZE = 4096, EFI_DEFAULT_MEM_ATTRIBUTES = 15\<rparr>"

definition host_at :: "64 word \<Rightarrow> host" where
  "host_at p = \<lparr>alloc_phys = Some p, remap_phys = p, mapping_ok = True, node_ok = True\<rparr>"

section \<open>The PE loader and relocator of kernel/kexec.c\<close>

subsection \<open>Memory\<close>

text \<open>
  The loader and the relocator read and write through raw pointers: the relocation table
  lies in the buffer of the last segment, the patched values in the image buffer, and
  nothing in the code keeps the two apart.  So memory is one store from 64-bit addresses
  to bytes, the same for both.  Values wider than a byte are little-endian.  An access
  never faults in this model: which addresses are mapped is not part of it.
\<close>

type_synonym memory = "64 word \<Rightarrow> 8 word"

definition read16 :: "memory \<Rightarrow> 64 word \<Rightarrow> 16 word" where
  "read16 m a = word_cat (m (a + 1)) (m a)"

definition read32 :: "memory \<Rightarrow> 64 word \<Rightarrow> 32 word" where
  "read32 m a = word_cat (read16 m (a + 2)) (read16 m a)"

definition read64 :: "memory \<Rightarrow> 64 word \<Rightarrow> 64 word" where
  "read64 m a = word_cat (read32 m (a + 4)) (read32 m a)"

definition write64 :: "memory \<Rightarrow> 64 word \<Rightarrow> 64 word \<Rightarrow> memory" where
  "write64 m a v =
     m(a := ucast v,
       a + 1 := ucast (drop_bit 8 v),
       a + 2 := ucast (drop_bit 16 v),
       a + 3 := ucast (drop_bit 24 v),
       a + 4 := ucast (drop_bit 32 v),
       a + 5 := ucast (drop_bit 40 v),
       a + 6 := ucast (drop_bit 48 v),
       a + 7 := ucast (drop_bit 56 v))"

subsection \<open>Segments and the image\<close>

text \<open>\<open>struct kexec_segment\<close>, and the fields of \<open>struct kimage\<close> that the PE path uses.\<close>

record kexec_segment =
  buf :: "64 word"
  bufsz :: "64 word"
  mem :: "64 word"
  memsz :: "64 word"

record kimage =
  start :: "64 word"
  segment :: "kexec_segment list"
  raw_image :: "64 word"
  raw_image_mem_base :: "64 word"
  raw_image_start :: "64 word"

subsection \<open>\<open>parse_chunk_relocations\<close>\<close>

definition SEGMENTS_OFFSET_FROM_ZERO :: "64 word" where
  "SEGMENTS_OFFSET_FROM_ZERO = 0x1000000"

definition IMAGE_BASE :: "64 word" where
  "IMAGE_BASE = 0x10000000"

definition IMAGE_REL_BASED_DIR64 :: "16 word" where
  "IMAGE_REL_BASED_DIR64 = 10"

text \<open>
  \<open>relocation_chunk_header_t\<close>: \<open>va_offset\<close> at offset 0 and \<open>total_size\<close> at offset 4,
  both \<open>uint32_t\<close>.  \<open>relocation_entry_t\<close>: one \<open>uint16_t\<close> whose low 12 bits are the
  bit-field \<open>offset\<close> and whose high 4 bits are the bit-field \<open>type\<close>.
\<close>

definition va_offset :: "memory \<Rightarrow> 64 word \<Rightarrow> 32 word" where
  "va_offset m chunk = read32 m chunk"

definition total_size :: "memory \<Rightarrow> 64 word \<Rightarrow> 32 word" where
  "total_size m chunk = read32 m (chunk + 4)"

definition entry_offset :: "16 word \<Rightarrow> 16 word" where
  "entry_offset e = e AND 0xFFF"

definition entry_type :: "16 word \<Rightarrow> 16 word" where
  "entry_type e = drop_bit 12 e"

text \<open>
  \<open>relocs[i]\<close> with \<open>relocs = (void*)chunk + sizeof( relocation_chunk_header_t )\<close> and
  \<open>int i\<close>: the index is sign-extended to the width of a pointer.
\<close>

definition relocs_at :: "memory \<Rightarrow> 64 word \<Rightarrow> 32 word \<Rightarrow> 16 word" where
  "relocs_at m chunk i = read16 m (chunk + 8 + 2 * scast i)"

definition raw_image_vs_PE_bias :: "kimage \<Rightarrow> 64 word" where
  "raw_image_vs_PE_bias img =
     (let absolute_image_start = start img - SEGMENTS_OFFSET_FROM_ZERO
      in raw_image_start img - absolute_image_start)"

text \<open>
  The address an entry refers to: \<open>relocs[i].offset + chunk->va_offset\<close> is computed on
  \<open>unsigned int\<close> (32 bits) and then widened to \<open>unsigned long\<close>.
\<close>

definition address_in_image :: "memory \<Rightarrow> 64 word \<Rightarrow> 32 word \<Rightarrow> 64 word" where
  "address_in_image m chunk i =
     ucast (ucast (entry_offset (relocs_at m chunk i)) + va_offset m chunk :: 32 word)"

text \<open>The body of the \<open>for\<close> loop, for the entry of index \<open>i\<close>.\<close>

definition reloc_entry :: "64 word \<Rightarrow> 64 word \<Rightarrow> memory \<Rightarrow> 32 word \<Rightarrow> memory" where
  "reloc_entry chunk bias m i =
     (let raw_image_content = bias + address_in_image m chunk i;
          correct_value = read64 m raw_image_content - IMAGE_BASE + bias;
          should_patch = (entry_type (relocs_at m chunk i) = IMAGE_REL_BASED_DIR64)
      in if should_patch then write64 m raw_image_content correct_value else m)"

text \<open>
  The loop \<open>for( i = 0; i < num_relocs; i++ )\<close>.  The comparison of the \<open>int i\<close> with the
  \<open>uint32_t num_relocs\<close> is unsigned, so \<open>i\<close> is a 32-bit word here.
\<close>

lemma unat_suc_below:
  fixes i n :: "'a::len word"
  assumes "i < n"
  shows "unat (i + 1) = Suc (unat i)"
proof -
  from assms have "unat i < unat n" by (simp add: word_less_nat_alt)
  moreover have "unat n < 2 ^ LENGTH('a)" by simp
  ultimately have "unat i + 1 < 2 ^ LENGTH('a)" by linarith
  then show ?thesis
    by (simp add: unat_word_ariths)
qed

function reloc_loop ::
  "64 word \<Rightarrow> 64 word \<Rightarrow> 32 word \<Rightarrow> 32 word \<Rightarrow> memory \<Rightarrow> memory" where
  "reloc_loop chunk bias num_relocs i m =
     (if i < num_relocs
      then reloc_loop chunk bias num_relocs (i + 1) (reloc_entry chunk bias m i)
      else m)"
  by pat_completeness auto
termination
proof (relation "measure (\<lambda>(chunk, bias, num_relocs, i, m). unat num_relocs - unat i)")
  show "wf (measure (\<lambda>(chunk, bias, num_relocs, i, m). unat num_relocs - unat i))"
    by simp
next
  fix chunk bias :: "64 word" and num_relocs i :: "32 word" and m :: memory
  assume lt: "i < num_relocs"
  then have "unat (i + 1) = Suc (unat i)"
    by (rule unat_suc_below)
  moreover from lt have "unat i < unat num_relocs"
    by (simp add: word_less_nat_alt)
  ultimately show
    "((chunk, bias, num_relocs, i + 1, reloc_entry chunk bias m i),
      (chunk, bias, num_relocs, i, m))
       \<in> measure (\<lambda>(chunk, bias, num_relocs, i, m). unat num_relocs - unat i)"
    by simp
qed

declare reloc_loop.simps [simp del]

text \<open>
  \<open>num_relocs\<close>: the subtraction and the division are on \<open>size_t\<close> (64 bits), the result
  is stored in a \<open>uint32_t\<close>.
\<close>

definition num_relocs_of :: "memory \<Rightarrow> 64 word \<Rightarrow> 32 word" where
  "num_relocs_of m chunk = ucast ((ucast (total_size m chunk) - 8 :: 64 word) div 2)"

definition parse_chunk_relocations :: "64 word \<Rightarrow> kimage \<Rightarrow> memory \<Rightarrow> memory" where
  "parse_chunk_relocations chunk img m =
     reloc_loop chunk (raw_image_vs_PE_bias img) (num_relocs_of m chunk) 0 m"

subsection \<open>\<open>parse_reloc_table\<close>\<close>

text \<open>
  The \<open>while\<close> loop over the chunks.  Besides the memory, the result holds the chunks
  that were handed to \<open>parse_chunk_relocations\<close>, in order, and the value of \<open>chunk\<close> when
  the loop was left.  A loop that never ends has the value \<open>None\<close>.
\<close>

partial_function (option) reloc_walk ::
  "64 word \<Rightarrow> kimage \<Rightarrow> 64 word list \<Rightarrow> 64 word \<Rightarrow> memory
     \<Rightarrow> (64 word list \<times> 64 word \<times> memory) option" where
  "reloc_walk segment_end img processed chunk m =
     (if chunk < segment_end
      then (if total_size m chunk = 0
            then Some (processed, chunk, m)
            else (let m' = parse_chunk_relocations chunk img m
                  in reloc_walk segment_end img (processed @ [chunk])
                       (chunk + ucast (total_size m' chunk)) m'))
      else Some (processed, chunk, m))"

definition parse_reloc_table ::
  "kexec_segment \<Rightarrow> kimage \<Rightarrow> memory \<Rightarrow> (64 word list \<times> 64 word \<times> memory) option" where
  "parse_reloc_table seg img m =
     (let chunk = buf seg;
          segment_end = buf seg + bufsz seg
      in reloc_walk segment_end img [] chunk m)"

text \<open>
  To state what the walk does: one round of the loop as a function on the pair of the
  cursor and the memory (the chunk is processed, then the cursor moves on by the
  \<open>total_size\<close> read from the chunk), the state after \<open>k\<close> rounds, and the test that ends
  the loop (the cursor has reached or passed the end of the segment, or the chunk under
  it has \<open>total_size\<close> 0).
\<close>

definition next_chunk :: "kimage \<Rightarrow> 64 word \<times> memory \<Rightarrow> 64 word \<times> memory" where
  "next_chunk img s =
     (case s of (chunk, m) \<Rightarrow>
        (let m' = parse_chunk_relocations chunk img m
         in (chunk + ucast (total_size m' chunk), m')))"

fun chunk_state :: "kimage \<Rightarrow> nat \<Rightarrow> 64 word \<times> memory \<Rightarrow> 64 word \<times> memory" where
  "chunk_state img 0 s = s"
| "chunk_state img (Suc k) s = chunk_state img k (next_chunk img s)"


subsection \<open>The global \<open>windows_loaded_image\<close>\<close>

text \<open>
  \<open>EFI_LOADED_IMAGE_PROTOCOL\<close>, field by field; handles and pointers are 64-bit values.
  The addresses of the globals that the code hands out (\<open>&windows_loaded_image\<close>,
  \<open>&windows_load_options\<close>, \<open>windows_boot_device_path\<close>, \<open>&fake_systab\<close>) are fixed by
  the linker: the functions that use them take them as a parameter.
\<close>

record EFI_LOADED_IMAGE_PROTOCOL =
  Revision :: "32 word"
  ParentHandle :: "64 word"
  SystemTable :: "64 word"
  DeviceHandle :: "64 word"
  FilePath :: "64 word"
  Reserved :: "64 word"
  LoadOptionsSize :: "32 word"
  LoadOptions :: "64 word"
  ImageBase :: "64 word"
  ImageSize :: "64 word"
  ImageCodeType :: "32 word"
  ImageDataType :: "32 word"
  Unload :: "64 word"

record global_addresses =
  addr_windows_loaded_image :: "64 word"
  addr_windows_load_options :: "64 word"
  addr_windows_boot_device_path :: "64 word"
  addr_fake_systab :: "64 word"

definition BOOT_DEVICE_HANDLE :: "64 word" where
  "BOOT_DEVICE_HANDLE = 0xDEADBEEF"

text \<open>
  \<open>sizeof(REVERSED_LOAD_OPTIONS)\<close>: 8 bytes of \<open>header1\<close>, three \<open>UINT32\<close>, 49 \<open>CHAR16\<close>,
  one \<open>UINT16\<close> and four \<open>UINT32\<close>, with no padding: 136 bytes.
\<close>

definition sizeof_REVERSED_LOAD_OPTIONS :: "32 word" where
  "sizeof_REVERSED_LOAD_OPTIONS = 136"

text \<open>The initialiser of \<open>windows_loaded_image\<close>.\<close>

definition windows_loaded_image_init :: EFI_LOADED_IMAGE_PROTOCOL where
  "windows_loaded_image_init =
     \<lparr>Revision = 0x1000, ParentHandle = 0x420000, SystemTable = 0,
      DeviceHandle = BOOT_DEVICE_HANDLE, FilePath = 0, Reserved = 0,
      LoadOptionsSize = sizeof_REVERSED_LOAD_OPTIONS, LoadOptions = 0,
      ImageBase = 0, ImageSize = 0,
      ImageCodeType = EfiLoaderCode, ImageDataType = EfiLoaderData,
      Unload = 0x430000\<rparr>"

subsection \<open>\<open>kimage_load_pe_segment\<close>\<close>

text \<open>
  What the loader calls outside kexec.c is a parameter of the model:
  \<^item> \<open>copy_from_user m to from n\<close> returns the number of bytes that could not be copied
    and the memory after the call;
  \<^item> \<open>vmalloc_exec size\<close> returns the address of the new buffer;
  \<^item> \<open>readable a\<close> says whether the kernel can read the byte at \<open>a\<close> through a plain
    pointer, as \<open>DumpBuffer\<close> does with the buffer of a segment.
  \<open>PAGE_MASK\<close> is \<open>~(PAGE_SIZE - 1)\<close>.  The error code is a value of its own.
\<close>

record loader_env =
  copy_from_user :: "memory \<Rightarrow> 64 word \<Rightarrow> 64 word \<Rightarrow> 64 word \<Rightarrow> 64 word \<times> memory"
  vmalloc_exec :: "64 word \<Rightarrow> 64 word"
  readable :: "64 word \<Rightarrow> bool"

text \<open>
  \<open>DumpBuffer( title, buff, size )\<close> prints the bytes \<open>buff[0]\<close> to \<open>buff[size - 1]\<close>.  It
  changes nothing, but it reads every one of them: when one cannot be read the kernel
  faults and the call has no result.
\<close>

definition DumpBuffer :: "loader_env \<Rightarrow> 64 word \<Rightarrow> 64 word \<Rightarrow> unit option" where
  "DumpBuffer E buff sz =
     (if list_all (\<lambda>i. readable E (buff + of_nat i)) [0..<unat sz] then Some () else None)"

definition PAGE_MASK :: "kernel_consts \<Rightarrow> 64 word" where
  "PAGE_MASK K = NOT (PAGE_SIZE K - 1)"

datatype kernel_error = EFAULT

text \<open>
  The \<open>while (mbytes)\<close> loop.  The result of \<open>copy_from_user\<close> is stored in the \<open>int
  result\<close>, that is, cut to 32 bits, before it is tested.  The value returned is \<open>None\<close>
  for 0 and \<open>Some EFAULT\<close> for \<open>-EFAULT\<close>.  A loop that never ends has no value.  The
  pointer \<open>buf\<close> of the source is \<open>ubuf\<close> here.
\<close>

partial_function (option) load_pe_segment_loop ::
  "kernel_consts \<Rightarrow> loader_env \<Rightarrow> 64 word \<Rightarrow> 64 word \<Rightarrow> 64 word \<Rightarrow> 64 word \<Rightarrow> 64 word
     \<Rightarrow> memory \<Rightarrow> (kernel_error option \<times> memory) option" where
  "load_pe_segment_loop K E ubuf ubytes mbytes maddr raw_image_offset m =
     (if mbytes \<noteq> 0
      then (let mchunk = min mbytes (PAGE_SIZE K - (maddr AND NOT (PAGE_MASK K)));
                uchunk = min ubytes mchunk
            in (case copy_from_user E m raw_image_offset ubuf uchunk of
                  (not_copied, m') \<Rightarrow>
                    (let result = (ucast not_copied :: 32 word)
                     in if result \<noteq> 0 then Some (Some EFAULT, m')
                        else load_pe_segment_loop K E (ubuf + mchunk) (ubytes - uchunk)
                               (mbytes - mchunk) (maddr + mchunk)
                               (raw_image_offset + uchunk) m')))
      else Some (None, m))"

text \<open>
  \<open>kimage_load_pe_segment\<close>: the offsets are computed, \<open>DumpBuffer( "Segment start", buf,
  32 )\<close> reads the first 32 bytes of the segment's buffer, then the loop runs.
\<close>

definition kimage_load_pe_segment ::
  "kernel_consts \<Rightarrow> loader_env \<Rightarrow> kimage \<Rightarrow> kexec_segment \<Rightarrow> memory
     \<Rightarrow> (kernel_error option \<times> memory) option" where
  "kimage_load_pe_segment K E img seg m =
     (let ubytes = bufsz seg;
          mbytes = memsz seg;
          maddr = mem seg;
          offset_relative_to_image = maddr - raw_image_mem_base img;
          raw_image_offset = raw_image img + offset_relative_to_image
      in (case DumpBuffer E (buf seg) 32 of
            None \<Rightarrow> None
          | Some u \<Rightarrow>
              load_pe_segment_loop K E (buf seg) ubytes mbytes maddr raw_image_offset m))"

subsection \<open>\<open>kimage_load_pe\<close>\<close>

text \<open>
  The second \<open>for\<close> loop of \<open>kimage_load_pe\<close>: every segment is loaded in turn, and the
  value that \<open>kimage_load_pe_segment\<close> returns is not looked at.
\<close>

fun load_pe_segments ::
  "kernel_consts \<Rightarrow> loader_env \<Rightarrow> kimage \<Rightarrow> kexec_segment list \<Rightarrow> memory \<Rightarrow> memory option"
where
  "load_pe_segments K E img [] m = Some m"
| "load_pe_segments K E img (seg # rest) m =
     (case kimage_load_pe_segment K E img seg m of
        None \<Rightarrow> None
      | Some (result, m') \<Rightarrow> load_pe_segments K E img rest m')"

text \<open>
  \<open>kimage_load_pe\<close> returns nothing (\<open>void\<close>); what it leaves behind is the image, the
  memory and \<open>windows_loaded_image\<close>.  \<open>nr_segments\<close> is the length of the segment list;
  \<open>do_kexec_load\<close> returns before the call when it is 0, and the model has no value
  there.  The first loop sums the \<open>memsz\<close> of the segments on 64 bits.
\<close>

definition kimage_load_pe ::
  "kernel_consts \<Rightarrow> loader_env \<Rightarrow> global_addresses \<Rightarrow> kimage \<Rightarrow> memory
     \<Rightarrow> EFI_LOADED_IMAGE_PROTOCOL
     \<Rightarrow> (kimage \<times> memory \<times> EFI_LOADED_IMAGE_PROTOCOL) option" where
  "kimage_load_pe K E G img m windows_loaded_image =
     (case segment img of
        [] \<Rightarrow> None
      | seg0 # _ \<Rightarrow>
          (let image_size = foldl (\<lambda>sz seg. sz + memsz seg) 0 (segment img);
               raw = vmalloc_exec E image_size;
               raw_image_relative_start = start img - mem seg0;
               img1 = img\<lparr>raw_image := raw, raw_image_mem_base := mem seg0,
                         raw_image_start := raw + raw_image_relative_start\<rparr>
           in (case load_pe_segments K E img1 (segment img1) m of
                 None \<Rightarrow> None
               | Some m1 \<Rightarrow>
                   (let wli = windows_loaded_image\<lparr>ImageBase := raw_image img1,
                                ImageSize := image_size,
                                SystemTable := addr_fake_systab G\<rparr>
                    in (case parse_reloc_table (last (segment img1)) img1 m1 of
                          None \<Rightarrow> None
                        | Some (processed, chunk, m2) \<Rightarrow> Some (img1, m2, wli))))))"

section \<open>The GUID registry and the protocol dispatch of kernel/kexec.c\<close>

subsection \<open>\<open>EFI_GUID\<close> and the table \<open>GuidMappings\<close>\<close>

text \<open>\<open>EFI_GUID\<close>; the array \<open>Data4[8]\<close> is a value of eight bytes.\<close>

datatype Data4_bytes =
  D4 "8 word" "8 word" "8 word" "8 word" "8 word" "8 word" "8 word" "8 word"

record EFI_GUID =
  Data1 :: "32 word"
  Data2 :: "16 word"
  Data3 :: "16 word"
  Data4 :: Data4_bytes

record EFI_GUID_NAME =
  Guid :: EFI_GUID
  Name :: string

text \<open>The initialiser \<open>{{d1, d2, d3, {b0, ..., b7}}, "name"}\<close> of one table entry.\<close>

definition GUID_NAME ::
  "32 word \<Rightarrow> 16 word \<Rightarrow> 16 word \<Rightarrow> 8 word \<Rightarrow> 8 word \<Rightarrow> 8 word \<Rightarrow> 8 word \<Rightarrow>
   8 word \<Rightarrow> 8 word \<Rightarrow> 8 word \<Rightarrow> 8 word \<Rightarrow> string \<Rightarrow> EFI_GUID_NAME" where
  "GUID_NAME d1 d2 d3 b0 b1 b2 b3 b4 b5 b6 b7 name =
     \<lparr>Guid = \<lparr>Data1 = d1, Data2 = d2, Data3 = d3, Data4 = D4 b0 b1 b2 b3 b4 b5 b6 b7\<rparr>,
      Name = name\<rparr>"

definition NUM_GUID_MAPPINGS :: nat where
  "NUM_GUID_MAPPINGS = 441"

text \<open>The 441 entries of \<open>GuidMappings\<close>, in the order of the source, 49 to a block.\<close>

definition GuidMappings_0 :: "EFI_GUID_NAME list" where
  "GuidMappings_0 =
    [GUID_NAME 0x1BA0062E 0xC779 0x4582 0x85 0x66 0x33 0x6A 0xE8 0xF7 0x8F 0x09 ''ResetVector'',
     GUID_NAME 0xDF1CCEF6 0xF301 0x4A63 0x96 0x61 0xFC 0x60 0x30 0xDC 0xC8 0x80 ''SecMain'',
     GUID_NAME 0x52C05B14 0x0B98 0x496C 0xBC 0x3B 0x04 0xB5 0x02 0x11 0xD6 0x80 ''PeiCore'',
     GUID_NAME 0x9B3ADA4F 0xAE56 0x4C24 0x8D 0xEA 0xF0 0x3B 0x75 0x58 0xAE 0x50 ''PcdPeim'',
     GUID_NAME 0xA3610442 0xE69F 0x4DF3 0x82 0xCA 0x23 0x60 0xC4 0x03 0x1A 0x23 ''ReportStatusCodeRouterPei'',
     GUID_NAME 0x9D225237 0xFA01 0x464C 0xA9 0x49 0xBA 0xAB 0xC0 0x2D 0x31 0xD0 ''StatusCodeHandlerPei'',
     GUID_NAME 0x86D70125 0xBAA3 0x4296 0xA6 0x2F 0x60 0x2B 0xEB 0xBB 0x90 0x81 ''DxeIpl'',
     GUID_NAME 0x222C386D 0x5ABC 0x4FB4 0xB1 0x24 0xFB 0xB8 0x24 0x88 0xAC 0xF4 ''PlatformPei'',
     GUID_NAME 0x89E549B0 0x7CFE 0x449D 0x9B 0xA3 0x10 0xD8 0xB2 0x31 0x2D 0x71 ''S3Resume2Pei'',
     GUID_NAME 0xEDADEB9D 0xDDBA 0x48BD 0x9D 0x22 0xC1 0xC1 0x69 0xC8 0xC5 0xC6 ''CpuMpPei'',
     GUID_NAME 0xB1517C78 0xF518 0x42E5 0xB2 0x70 0xF4 0xB1 0xF4 0x02 0xE5 0x3C ''PvUefiPei'',
     GUID_NAME 0x7D9FE32E 0xA6A9 0x4CDF 0xAB 0xFF 0x10 0xCC 0x7F 0x22 0xE1 0xC9 ''TpmCommLib'',
     GUID_NAME 0xEBC43A46 0x34AC 0x4F07 0xA7 0xF5 0xA5 0x39 0x46 0x19 0x36 0x1C ''DxeTcgPhysicalPresenceLib'',
     GUID_NAME 0xC595047C 0x70B3 0x4731 0x99 0xCC 0xA0 0x14 0xE9 0x56 0xD7 0xA7 ''Tpm12CommandLib'',
     GUID_NAME 0xBC2B7672 0xA48B 0x4D58 0xB3 0x9E 0xAE 0xE3 0x70 0x7B 0x5A 0x23 ''Tpm12DeviceLibDTpm'',
     GUID_NAME 0x4D8B77D9 0xE923 0x48F8 0xB0 0x70 0x40 0x53 0xD7 0x8B 0x7E 0x56 ''Tpm12DeviceLibTcg'',
     GUID_NAME 0x778CE4F4 0x36BD 0x4AE7 0xB8 0xF0 0x10 0xB4 0x20 0xB0 0xD1 0x74 ''DxeTpm2MeasureBootLib'',
     GUID_NAME 0x601ECB06 0x7874 0x489E 0xA2 0x80 0x80 0x57 0x80 0xF6 0xC8 0x61 ''DxeTrEEPhysicalPresenceLib'',
     GUID_NAME 0x158DC712 0xF15A 0x44DC 0x93 0xBB 0x16 0x75 0x04 0x5B 0xE0 0x66 ''HashLibBaseCryptoRouterDxe'',
     GUID_NAME 0xDDCBCFBA 0x8EEB 0x488A 0x96 0xD6 0x09 0x78 0x31 0xA6 0xE5 0x0B ''HashLibBaseCryptoRouterPei'',
     GUID_NAME 0x2F572F32 0x8BE5 0x4868 0xBD 0x1D 0x74 0x38 0xAD 0x97 0xDC 0x27 ''Tpm2CommandLib'',
     GUID_NAME 0xBBCB6F85 0x303C 0x4EB9 0x81 0x82 0xAF 0x98 0xD4 0xB3 0x02 0x0C ''Tpm2DeviceLibTrEE'',
     GUID_NAME 0xE54A3327 0xA345 0x4068 0x88 0x42 0x70 0xAC 0x0D 0x51 0x98 0x55 ''Tpm2DeviceLibDTpm'',
     GUID_NAME 0x286BF25A 0xC2C3 0x408C 0xB3 0xB4 0x25 0xE6 0x75 0x8B 0x73 0x17 ''Tpm2InstanceLibDTpm'',
     GUID_NAME 0xC3D69D87 0x5200 0x4AAB 0xA6 0xDB 0x25 0x69 0xBA 0x1A 0x92 0xFC ''Tpm2DeviceLibRouterDxe'',
     GUID_NAME 0x97CDCF04 0x4C8E 0x42FE 0x80 0x15 0x11 0xCC 0x8A 0x6E 0x9D 0x81 ''Tpm2DeviceLibRouterPei'',
     GUID_NAME 0x1317F0D5 0x7842 0x475C 0xB1 0xCA 0x6E 0xDC 0x20 0xDC 0xBE 0x7D ''HashLibTpm2'',
     GUID_NAME 0x0AD6C423 0x4732 0x4CF3 0x9C 0xE3 0x0A 0x54 0x16 0xD6 0x34 0xA5 ''DxeRsa2048Sha256GuidedSectionExtractLib'',
     GUID_NAME 0xFD5F2C91 0x4878 0x4007 0xBB 0xA1 0x1B 0x91 0xDD 0x32 0x54 0x38 ''PeiRsa2048Sha256GuidedSectionExtractLib'',
     GUID_NAME 0x9A7A6AB4 0x9DA6 0x4AA4 0x90 0xCB 0x6D 0x4B 0x79 0xED 0xA7 0xB9 ''HashInstanceLibSha1'',
     GUID_NAME 0x5810798A 0xED30 0x4080 0x8D 0xD7 0xB9 0x66 0x7A 0x74 0x8C 0x02 ''HashInstanceLibSha256'',
     GUID_NAME 0xA5C1EF72 0x9379 0x4370 0xB4 0xC7 0x0F 0x51 0x26 0xCA 0xC3 0x8E ''TrEEConfigPei'',
     GUID_NAME 0xCA5A1928 0x6523 0x409D 0xA9 0xFE 0x5D 0xCC 0x87 0x38 0x72 0x22 ''TrEEPei'',
     GUID_NAME 0x2A7946E3 0x1AB2 0x49A9 0xAC 0xCB 0xC6 0x27 0x51 0x39 0xC1 0xA5 ''TrEEDxe'',
     GUID_NAME 0x3141FD4D 0xEA02 0x4A70 0x9B 0xCE 0x97 0xEE 0x83 0x73 0x19 0xAC ''TrEEConfigDxe'',
     GUID_NAME 0x162E53E0 0x6597 0x40D9 0x96 0xD1 0x8D 0x13 0xF0 0xF6 0x56 0xE4 ''TrEEAcpi'',
     GUID_NAME 0xD6A2CB7F 0x6A18 0x4E2F 0xB4 0x3B 0x99 0x20 0xA7 0x33 0x70 0x0A ''DxeCore'',
     GUID_NAME 0xD93CE3D8 0xA7EB 0x4730 0x8C 0x8E 0xCC 0x46 0x6A 0x9E 0xCC 0x3C ''ReportStatusCodeRouterRuntimeDxe'',
     GUID_NAME 0x6C2004EF 0x4E0E 0x4BE4 0xB1 0x4C 0x34 0x0E 0xB4 0xAA 0x58 0x91 ''StatusCodeHandlerRuntimeDxe'',
     GUID_NAME 0x80CF7257 0x87AB 0x47F9 0xA3 0xFE 0xD5 0x0B 0x76 0xD8 0x95 0x41 ''PcdDxe'',
     GUID_NAME 0xB601F8C4 0x43B7 0x4784 0x95 0xB1 0xF4 0x22 0x6C 0xB4 0x0C 0xEE ''RuntimeDxe'',
     GUID_NAME 0xF80697E9 0x7FD6 0x4665 0x86 0x46 0x88 0xE3 0x3E 0xF7 0x1D 0xFC ''SecurityStubDxe'',
     GUID_NAME 0x13AC6DD0 0x73D0 0x11D4 0xB0 0x6B 0x00 0xAA 0x00 0xBD 0x6D 0xE7 ''EbcDxe'',
     GUID_NAME 0x79CA4208 0xBBA1 0x4A9A 0x84 0x56 0xE1 0xE6 0x6A 0x81 0x48 0x4E ''Legacy8259'',
     GUID_NAME 0xA19B1FE7 0xC1BC 0x49F8 0x87 0x5F 0x54 0xA5 0xD5 0x42 0x44 0x3F ''CpuIo2Dxe'',
     GUID_NAME 0x1A1E4886 0x9517 0x440E 0x9F 0xDE 0x3B 0xE4 0x4C 0xEE 0x21 0x36 ''CpuDxe'',
     GUID_NAME 0xF2765DEC 0x6B41 0x11D5 0x8E 0x71 0x00 0x90 0x27 0x07 0xB3 0x5E ''Timer'',
     GUID_NAME 0xF6697AC4 0xA776 0x4EE1 0xB6 0x43 0x1F 0xEF 0xF2 0xB6 0x15 0xBB ''IncompatiblePciDeviceSupportDxe'',
     GUID_NAME 0x11A6EDF6 0xA9BE 0x426D 0xA6 0xCC 0xB2 0x2F 0xE5 0x1D 0x92 0x24 ''PciHotPlugInitDxe'']"

definition GuidMappings_1 :: "EFI_GUID_NAME list" where
  "GuidMappings_1 =
    [GUID_NAME 0x128FB770 0x5E79 0x4176 0x9E 0x51 0x9B 0xB2 0x68 0xA1 0x7D 0xD1 ''PciHostBridgeDxe'',
     GUID_NAME 0x93B80004 0x9FB3 0x11D4 0x9A 0x3A 0x00 0x90 0x27 0x3F 0xC1 0x4D ''PciBusDxe'',
     GUID_NAME 0x4B28E4C7 0xFF36 0x4E10 0x93 0xCF 0xA8 0x21 0x59 0xE7 0x77 0xC5 ''ResetSystemRuntimeDxe'',
     GUID_NAME 0xC8339973 0xA563 0x4561 0xB8 0x58 0xD8 0x47 0x6F 0x9D 0xEF 0xC4 ''Metronome'',
     GUID_NAME 0x378D7B65 0x8DA9 0x4773 0xB6 0xE4 0xA4 0x78 0x26 0xA8 0x33 0xE1 ''PcRtc'',
     GUID_NAME 0xEBF8ED7C 0x0DD1 0x4787 0x84 0xF1 0xF4 0x8D 0x53 0x7D 0xCA 0xCF ''DriverHealthManagerDxe'',
     GUID_NAME 0x6D33944A 0xEC75 0x4855 0xA5 0x4D 0x80 0x9C 0x75 0x24 0x1F 0x6C ''BdsDxe'',
     GUID_NAME 0xF74D20EE 0x37E7 0x48FC 0x97 0xF7 0x9B 0x10 0x47 0x74 0x9C 0x69 ''LogoDxe'',
     GUID_NAME 0x462CAA21 0x7614 0x4503 0x83 0x6E 0x8A 0xB6 0xF4 0x66 0x23 0x31 ''UiApp'',
     GUID_NAME 0x33CB97AF 0x6C33 0x4C42 0x98 0x6B 0x07 0x58 0x1F 0xA3 0x66 0xD4 ''BlockMmioToBlockIoDxe'',
     GUID_NAME 0x83DD3B39 0x7CAF 0x4FAC 0xA5 0x42 0xE0 0x50 0xB7 0x67 0xE3 0xA7 ''VirtioPciDeviceDxe'',
     GUID_NAME 0x0170F60C 0x1D40 0x4651 0x95 0x6D 0xF0 0xBD 0x98 0x79 0xD5 0x27 ''Virtio10'',
     GUID_NAME 0x11D92DFB 0x3CA9 0x4F93 0xBA 0x2E 0x47 0x80 0xED 0x3E 0x03 0xB5 ''VirtioBlkDxe'',
     GUID_NAME 0xFAB5D4F4 0x83C0 0x4AAF 0x84 0x80 0x44 0x2D 0x11 0xDF 0x6C 0xEA ''VirtioScsiDxe'',
     GUID_NAME 0x58E26F0D 0xCBAC 0x4BBA 0xB7 0x0F 0x18 0x22 0x14 0x15 0x66 0x5A ''VirtioRngDxe'',
     GUID_NAME 0xCF569F50 0xDE44 0x4F54 0xB4 0xD7 0xF4 0xAE 0x25 0xCD 0xA5 0x99 ''XenIoPciDxe'',
     GUID_NAME 0x565EC8BA 0xA484 0x11E3 0x80 0x2B 0xB8 0xAC 0x6F 0x7D 0x65 0xE6 ''XenBusDxe'',
     GUID_NAME 0x8C2487EA 0x9AF3 0x11E3 0xB9 0x66 0xB8 0xAC 0x6F 0x7D 0x65 0xE6 ''XenPvBlkDxe'',
     GUID_NAME 0xF099D67F 0x71AE 0x4C36 0xB2 0xA3 0xDC 0xEB 0x0E 0xB2 0xB7 0xD8 ''WatchdogTimer'',
     GUID_NAME 0xAD608272 0xD07F 0x4964 0x80 0x1E 0x7B 0xD3 0xB7 0x88 0x86 0x52 ''MonotonicCounterRuntimeDxe'',
     GUID_NAME 0x42857F0A 0x13F2 0x4B21 0x8A 0x23 0x53 0xD3 0xF7 0x14 0xB8 0x40 ''CapsuleRuntimeDxe'',
     GUID_NAME 0x51CCF399 0x4FDF 0x4E55 0xA4 0x5B 0xE1 0x23 0xF8 0x4D 0x45 0x6A ''ConPlatformDxe'',
     GUID_NAME 0x408EDCEC 0xCF6D 0x477C 0xA5 0xA8 0xB4 0x84 0x4E 0x3D 0xE2 0x81 ''ConSplitterDxe'',
     GUID_NAME 0xCCCB0C28 0x4B24 0x11D5 0x9A 0x5A 0x00 0x90 0x27 0x3F 0xC1 0x4D ''GraphicsConsoleDxe'',
     GUID_NAME 0x9E863906 0xA40F 0x4875 0x97 0x7F 0x5B 0x93 0xFF 0x23 0x7F 0xC6 ''TerminalDxe'',
     GUID_NAME 0x9B680FCE 0xAD6B 0x4F3A 0xB6 0x0B 0xF5 0x98 0x99 0x00 0x34 0x43 ''DevicePathDxe'',
     GUID_NAME 0x79E4A61C 0xED73 0x4312 0x94 0xFE 0xE3 0xE7 0x56 0x33 0x62 0xA9 ''PrintDxe'',
     GUID_NAME 0x6B38F7B4 0xAD98 0x40E9 0x90 0x93 0xAC 0xA2 0xB5 0xA2 0x53 0xC4 ''DiskIoDxe'',
     GUID_NAME 0x1FA1F39E 0xFEFF 0x4AAE 0xBD 0x7B 0x38 0xA0 0x70 0xA3 0xB6 0x09 ''PartitionDxe'',
     GUID_NAME 0x28A03FF4 0x12B3 0x4305 0xA4 0x17 0xBB 0x1A 0x4F 0x94 0x08 0x1E ''RamDiskDxe'',
     GUID_NAME 0xCD3BAFB6 0x50FB 0x4FE8 0x8E 0x4E 0xAB 0x74 0xD2 0xC1 0xA6 0x00 ''EnglishDxe'',
     GUID_NAME 0x961578FE 0xB6B7 0x44C3 0xAF 0x35 0x6B 0xC7 0x05 0xCD 0x2B 0x1F ''Fat'',
     GUID_NAME 0x0167CCC4 0xD0F7 0x4F21 0xA3 0xEF 0x9E 0x64 0xB7 0xCD 0xCE 0x8B ''ScsiBus'',
     GUID_NAME 0x0A66E322 0x3740 0x4CCE 0xAD 0x62 0xBD 0x17 0x2C 0xEC 0xCA 0x35 ''ScsiDisk'',
     GUID_NAME 0x021722D8 0x522B 0x4079 0x85 0x2A 0xFE 0x44 0xC2 0xC1 0x3F 0x49 ''SataController'',
     GUID_NAME 0x5E523CB4 0xD397 0x4986 0x87 0xBD 0xA6 0xDD 0x8B 0x22 0xF4 0x55 ''AtaAtapiPassThruDxe'',
     GUID_NAME 0x19DF145A 0xB1D4 0x453F 0x85 0x07 0x38 0x81 0x66 0x76 0xD7 0xF6 ''AtaBusDxe'',
     GUID_NAME 0x5BE3BDF4 0x53CF 0x46A3 0xA6 0xA9 0x73 0xC3 0x4A 0x6E 0x5E 0xE3 ''NvmExpressDxe'',
     GUID_NAME 0x348C4D62 0xBFBD 0x4882 0x9E 0xCE 0xC8 0x0B 0xB1 0xC4 0x78 0x3B ''HiiDatabase'',
     GUID_NAME 0xEBF342FE 0xB1D3 0x4EF8 0x95 0x7C 0x80 0x48 0x60 0x6F 0xF6 0x71 ''SetupBrowser'',
     GUID_NAME 0xE660EA85 0x058E 0x4B55 0xA5 0x4B 0xF0 0x2F 0x83 0xA2 0x47 0x07 ''DisplayEngine'',
     GUID_NAME 0x96B5C032 0xDF4C 0x4B6E 0x82 0x32 0x43 0x8D 0xCF 0x44 0x8D 0x0E ''NullMemoryTestDxe'',
     GUID_NAME 0xE3752948 0xB9A1 0x4770 0x90 0xC4 0xDF 0x41 0xC3 0x89 0x86 0xBE ''QemuVideoDxe'',
     GUID_NAME 0xD6099B94 0xCD97 0x4CC5 0x87 0x14 0x7F 0x63 0x12 0x70 0x1A 0x8A ''VirtioGpuDxe'',
     GUID_NAME 0x4CF92BEA 0x7BC3 0x4537 0xAF 0x26 0x16 0xC5 0xD6 0xAC 0x71 0xBB ''PvUefiRuntimeDxe'',
     GUID_NAME 0x38A0EC22 0xFBE7 0x4911 0x8B 0xC1 0x17 0x6E 0x0D 0x6C 0x1D 0xBD ''IsaAcpi'',
     GUID_NAME 0x240612B5 0xA063 0x11D4 0x9A 0x3A 0x00 0x90 0x27 0x3F 0xC1 0x4D ''IsaBusDxe'',
     GUID_NAME 0x93B80003 0x9FB3 0x11D4 0x9A 0x3A 0x00 0x90 0x27 0x3F 0xC1 0x4D ''IsaSerialDxe'',
     GUID_NAME 0x3DC82376 0x637B 0x40A6 0xA8 0xFC 0xA5 0x65 0x41 0x7F 0x2C 0x38 ''Ps2KeyboardDxe'']"

definition GuidMappings_2 :: "EFI_GUID_NAME list" where
  "GuidMappings_2 =
    [GUID_NAME 0x0ABD8284 0x6DA3 0x4616 0x97 0x1A 0x83 0xA5 0x14 0x80 0x67 0xBA ''IsaFloppyDxe'',
     GUID_NAME 0xF9D88642 0x0737 0x49BC 0x81 0xB5 0x68 0x89 0xCD 0x57 0xD9 0xEA ''SmbiosDxe'',
     GUID_NAME 0x4110465D 0x5FF3 0x4F4B 0xB5 0x80 0x24 0xED 0x0D 0x06 0x74 0x7A ''SmbiosPlatformDxe'',
     GUID_NAME 0x9622E42C 0x8E38 0x4A08 0x9E 0x8F 0x54 0xF7 0x84 0x65 0x2F 0x6B ''AcpiTableDxe'',
     GUID_NAME 0x49970331 0xE3FA 0x4637 0x9A 0xBC 0x3B 0x78 0x68 0x67 0x69 0x70 ''AcpiPlatform'',
     GUID_NAME 0x7E374E25 0x8E01 0x4FEE 0x87 0xF2 0x39 0x0C 0x23 0xC6 0x06 0xCD ''PlatformAcpiTables'',
     GUID_NAME 0xBDCE85BB 0xFBAA 0x4F4E 0x92 0x64 0x50 0x1A 0x2C 0x24 0x95 0x81 ''S3SaveStateDxe'',
     GUID_NAME 0xFA20568B 0x548B 0x4B2B 0x81 0xEF 0x1B 0xA0 0x8D 0x4A 0x3C 0xEC ''BootScriptExecutorDxe'',
     GUID_NAME 0xB8E62775 0xBB0A 0x43F0 0xA8 0x43 0x5B 0xE8 0xB1 0x4F 0x8C 0xCD ''BootGraphicsResourceTableDxe'',
     GUID_NAME 0xA2F436EA 0xA127 0x4EF8 0x95 0x7C 0x80 0x48 0x60 0x6F 0xF6 0x70 ''SnpDxe'',
     GUID_NAME 0xA210F973 0x229D 0x4F4D 0xAA 0x37 0x98 0x95 0xE6 0xC9 0xEA 0xBA ''DpcDxe'',
     GUID_NAME 0x025BBFC7 0xE6A9 0x4B8B 0x82 0xAD 0x68 0x15 0xA1 0xAE 0xAF 0x4A ''MnpDxe'',
     GUID_NAME 0xE4F61863 0xFE2C 0x4B56 0xA8 0xF4 0x08 0x51 0x9B 0xC4 0x39 0xDF ''VlanConfigDxe'',
     GUID_NAME 0x529D3F93 0xE8E9 0x4E73 0xB1 0xE1 0xBD 0xF6 0xA9 0xD5 0x01 0x13 ''ArpDxe'',
     GUID_NAME 0x94734718 0x0BBC 0x47FB 0x96 0xA5 0xEE 0x7A 0x5A 0xE6 0xA2 0xAD ''Dhcp4Dxe'',
     GUID_NAME 0x9FB1A1F3 0x3B71 0x4324 0xB3 0x9A 0x74 0x5C 0xBB 0x01 0x5F 0xFF ''Ip4Dxe'',
     GUID_NAME 0xDC3641B8 0x2FA8 0x4ED3 0xBC 0x1F 0xF9 0x96 0x2A 0x03 0x45 0x4B ''Mtftp4Dxe'',
     GUID_NAME 0x6D6963AB 0x906D 0x4A65 0xA7 0xCA 0xBD 0x40 0xE5 0xD6 0xAF 0x2B ''Udp4Dxe'',
     GUID_NAME 0x6D6963AB 0x906D 0x4A65 0xA7 0xCA 0xBD 0x40 0xE5 0xD6 0xAF 0x4D ''Tcp4Dxe'',
     GUID_NAME 0x3B1DEAB5 0xC75D 0x442E 0x92 0x38 0x8E 0x2F 0xFB 0x62 0xB0 0xBB ''UefiPxe4BcDxe'',
     GUID_NAME 0x4579B72D 0x7EC4 0x4DD4 0x84 0x86 0x08 0x3C 0x86 0xB1 0x82 0xA7 ''IScsi4Dxe'',
     GUID_NAME 0xA92CDB4B 0x82F1 0x4E0B 0xA5 0x16 0x8A 0x65 0x5D 0x37 0x15 0x24 ''VirtioNetDxe'',
     GUID_NAME 0x2FB92EFA 0x2EE0 0x4BAE 0x9E 0xB6 0x74 0x64 0x12 0x5E 0x1E 0xF7 ''UhciDxe'',
     GUID_NAME 0xBDFE430E 0x8F2A 0x4DB0 0x99 0x91 0x6F 0x85 0x65 0x94 0x77 0x7E ''EhciDxe'',
     GUID_NAME 0xB7F50E91 0xA759 0x412C 0xAD 0xE4 0xDC 0xD0 0x3E 0x7F 0x7C 0x28 ''XhciDxe'',
     GUID_NAME 0x240612B7 0xA063 0x11D4 0x9A 0x3A 0x00 0x90 0x27 0x3F 0xC1 0x4D ''UsbBusDxe'',
     GUID_NAME 0x2D2E62CF 0x9ECF 0x43B7 0x82 0x19 0x94 0xE7 0xFC 0x71 0x3D 0xFE ''UsbKbDxe'',
     GUID_NAME 0x9FB4B4A7 0x42C0 0x4BCD 0x85 0x40 0x9B 0xCC 0x67 0x11 0xF8 0x3E ''UsbMassStorageDxe'',
     GUID_NAME 0x0B04B2ED 0x861C 0x42CD 0xA2 0x2F 0xC3 0xAA 0xFA 0xCC 0xB8 0x96 ''BiosVideoDxe'',
     GUID_NAME 0xF122A15C 0xC10B 0x4D54 0x8F 0x48 0x60 0xF4 0xF0 0x6D 0xD1 0xAD ''LegacyBiosDxe'',
     GUID_NAME 0x1547B4F3 0x3E8A 0x4FEF 0x81 0xC8 0x32 0x8E 0xD6 0x47 0xAB 0x1A ''Csm16'',
     GUID_NAME 0x7C04A583 0x9E3E 0x4F1C 0xAD 0x65 0xE0 0x52 0x68 0xD0 0xB4 0xD1 ''Shell'',
     GUID_NAME 0xD9DCC5DF 0x4007 0x435E 0x90 0x98 0x89 0x70 0x93 0x55 0x04 0xB2 ''PlatformDxe'',
     GUID_NAME 0x733CBAC2 0xB23F 0x4B92 0xBC 0x8E 0xFB 0x01 0xCE 0x59 0x07 0xB7 ''FvbServicesRuntimeDxe'',
     GUID_NAME 0x22DC2B60 0xFE40 0x42AC 0xB0 0x1F 0x3A 0xB1 0xFA 0xD9 0xAA 0xD8 ''EmuVariableFvbRuntimeDxe'',
     GUID_NAME 0xFE5CEA76 0x4F72 0x49E8 0x98 0x6F 0x2C 0xD8 0x99 0xDF 0xFE 0x5D ''FaultTolerantWriteDxe'',
     GUID_NAME 0x40A7A3BE 0x1E67 0x4B86 0x92 0xC4 0x72 0xE3 0xD3 0x2A 0x20 0x7A ''GSetup'',
     GUID_NAME 0xD3B46F3B 0xD441 0x1244 0x9A 0x12 0x00 0x12 0x27 0x3F 0xC1 0x4D ''gEfiXenInfoGuid'',
     GUID_NAME 0x3E745226 0x9818 0x45B6 0xA2 0xAC 0xD7 0xCD 0x0E 0x8B 0xA2 0xBC ''gEfiUsb2HcProtocolGuid'',
     GUID_NAME 0xEA7CA24B 0xDED5 0x4DAD 0xA3 0x89 0xBF 0x82 0x7E 0x8F 0x9B 0x38 ''gEfiPeiFirmwareVolumeInfo2PpiGuid'',
     GUID_NAME 0x0AE8CE5D 0xE448 0x4437 0xA8 0xD7 0xEB 0xF5 0xF1 0x94 0xF7 0x31 ''gEfiDxeIplPpiGuid'',
     GUID_NAME 0x0C0F3B43 0x44DE 0x4907 0xB4 0x78 0x22 0x5F 0x6F 0x62 0x89 0xDC ''gUsbKeyboardLayoutPackageGuid'',
     GUID_NAME 0x1B45CC0A 0x156A 0x428A 0xAF 0x62 0x49 0x86 0x4D 0xA0 0xE6 0xE6 ''gPeiAprioriFileNameGuid'',
     GUID_NAME 0x783658A3 0x4172 0x4421 0xA2 0x99 0xE0 0x09 0x07 0x9C 0x0C 0xB4 ''gEfiLegacyBiosPlatformProtocolGuid'',
     GUID_NAME 0xDBE23AA9 0xA345 0x4B97 0x85 0xB6 0xB2 0x26 0xF1 0x61 0x73 0x89 ''gEfiTemporaryRamSupportPpiGuid'',
     GUID_NAME 0x0379BE4E 0xD706 0x437D 0xB0 0x37 0xED 0xB8 0x2F 0xB7 0x72 0xA4 ''gEfiDevicePathUtilitiesProtocolGuid'',
     GUID_NAME 0x93039971 0x8545 0x4B04 0xB4 0x5E 0x32 0xEB 0x83 0x26 0x04 0x0E ''gEfiHiiPlatformSetupFormsetGuid'',
     GUID_NAME 0x964E5B21 0x6459 0x11D2 0x8E 0x39 0x00 0xA0 0xC9 0x69 0x72 0x3B ''gEfiBlockIoProtocolGuid'',
     GUID_NAME 0xEF398D58 0x9DFD 0x4103 0xBF 0x94 0x78 0xC6 0xF4 0xFE 0x71 0x2F ''gEfiPeiResetPpiGuid'']"

definition GuidMappings_3 :: "EFI_GUID_NAME list" where
  "GuidMappings_3 =
    [GUID_NAME 0x309DE7F1 0x7F5E 0x4ACE 0xB4 0x9C 0x53 0x1B 0xE5 0xAA 0x95 0xEF ''gEfiGenericMemTestProtocolGuid'',
     GUID_NAME 0x09576E93 0x6D3F 0x11D2 0x8E 0x39 0x00 0xA0 0xC9 0x69 0x72 0x3B ''gEfiFileSystemInfoGuid'',
     GUID_NAME 0xAD61F191 0xAE5F 0x4C0E 0xB9 0xFA 0xE8 0x69 0xD2 0x88 0xC6 0x4F ''gEfiCpuIo2ProtocolGuid'',
     GUID_NAME 0xF36FF770 0xA7E1 0x42CF 0x9E 0xD2 0x56 0xF0 0xF2 0x71 0xF4 0x4C ''gEfiManagedNetworkServiceBindingProtocolGuid'',
     GUID_NAME 0xF894643D 0xC449 0x42D1 0x8E 0xA8 0x85 0xBD 0xD8 0xC6 0x5B 0xDE ''gEfiPeiMemoryDiscoveredPpiGuid'',
     GUID_NAME 0x8A219718 0x4EF5 0x4761 0x91 0xC8 0xC0 0xF0 0x4B 0xDA 0x9E 0x56 ''gEfiDhcp4ProtocolGuid'',
     GUID_NAME 0x5B1B31A1 0x9562 0x11D2 0x8E 0x3F 0x00 0xA0 0xC9 0x69 0x72 0x3B ''gEfiLoadedImageProtocolGuid'',
     GUID_NAME 0x03C4E603 0xAC28 0x11D3 0x9A 0x2D 0x00 0x90 0x27 0x3F 0xC1 0x4D ''gEfiPxeBaseCodeProtocolGuid'',
     GUID_NAME 0xF2FD1544 0x9794 0x4A2C 0x99 0x2E 0xE5 0xBB 0xCF 0x20 0xE3 0x94 ''gEfiSmbios3TableGuid'',
     GUID_NAME 0xDB9A1E3D 0x45CB 0x4ABB 0x85 0x3B 0xE5 0x38 0x7F 0xDB 0x2E 0x2D ''gEfiLegacyBiosProtocolGuid'',
     GUID_NAME 0x5B446ED1 0xE30B 0x4FAA 0x87 0x1A 0x36 0x54 0xEC 0xA3 0x60 0x80 ''gEfiIp4Config2ProtocolGuid'',
     GUID_NAME 0x8F644FA9 0xE850 0x4DB1 0x9C 0xE2 0x0B 0x44 0x69 0x8E 0x8D 0xA4 ''gEfiFirmwareVolumeBlock2ProtocolGuid'',
     GUID_NAME 0xB7DFB4E1 0x052F 0x449F 0x87 0xBE 0x98 0x18 0xFC 0x91 0xB7 0x33 ''gEfiRuntimeArchProtocolGuid'',
     GUID_NAME 0xA59E8FCF 0xBDA0 0x43BB 0x90 0xB1 0xD3 0x73 0x2E 0xCA 0xA8 0x77 ''gEfiScsiPassThruProtocolGuid'',
     GUID_NAME 0xC54B425F 0xAA79 0x48B4 0x98 0x1F 0x99 0x8B 0x3C 0x4B 0x64 0x1C ''gTrEEConfigFormSetGuid'',
     GUID_NAME 0xFA920010 0x6785 0x4941 0xB6 0xEC 0x49 0x8C 0x57 0x9F 0x16 0x0A ''gVirtioDeviceProtocolGuid'',
     GUID_NAME 0x9BBE29E9 0xFDA1 0x41EC 0xAD 0x52 0x45 0x22 0x13 0x74 0x2D 0x2E ''gEdkiiFormDisplayEngineProtocolGuid'',
     GUID_NAME 0x7235C51C 0x0C80 0x4CAB 0x87 0xAC 0x3B 0x08 0x4A 0x63 0x04 0xB1 ''gOvmfPlatformConfigGuid'',
     GUID_NAME 0x2B2F68D6 0x0CD2 0x44CF 0x8E 0x8B 0xBB 0xA2 0x0B 0x1B 0x5B 0x75 ''gEfiUsbIoProtocolGuid'',
     GUID_NAME 0x8868E871 0xE4F1 0x11D3 0xBC 0x22 0x00 0x80 0xC7 0x3C 0x88 0x81 ''gEfiAcpiTableGuid'',
     GUID_NAME 0x158DEF5A 0xF656 0x419C 0xB0 0x27 0x7A 0x31 0x92 0xC0 0x79 0xD2 ''gShellVariableGuid'',
     GUID_NAME 0xEB9D2D30 0x2D88 0x11D3 0x9A 0x16 0x00 0x90 0x27 0x3F 0xC1 0x4D ''gEfiAcpi10TableGuid'',
     GUID_NAME 0x49EDB1C1 0xBF21 0x4761 0xBB 0x12 0xEB 0x00 0x31 0xAA 0xBB 0x39 ''gEfiPeiFirmwareVolumeInfoPpiGuid'',
     GUID_NAME 0x6CC45765 0xCCE4 0x42FD 0xBC 0x56 0x01 0x1A 0xAA 0xC6 0xC9 0xA8 ''gEfiPeiReset2PpiGuid'',
     GUID_NAME 0x0053D9D6 0x2659 0x4599 0xA2 0x6B 0xEF 0x45 0x36 0xE6 0x31 0xA9 ''gShellAliasGuid'',
     GUID_NAME 0x7081E22F 0xCAC6 0x4053 0x94 0x68 0x67 0x57 0x82 0xCF 0x88 0xE5 ''gEfiEventDxeDispatchGuid'',
     GUID_NAME 0x24A2D66F 0xEEDD 0x4086 0x90 0x42 0xF2 0x6E 0x47 0x97 0xEE 0x69 ''gRootBridgesConnectedEventGroupGuid'',
     GUID_NAME 0x3BD2F4EC 0xE524 0x46E4 0xA9 0xD8 0x51 0x01 0x17 0x42 0x55 0x62 ''gEfiHiiStandardFormGuid'',
     GUID_NAME 0x02CE967A 0xDD7E 0x4FFC 0x9E 0xE7 0x81 0x0C 0xF0 0x47 0x08 0x80 ''gEfiEndOfDxeEventGroupGuid'',
     GUID_NAME 0xCF8034BE 0x6768 0x4D8B 0xB7 0x39 0x7C 0xCE 0x68 0x3A 0x9F 0xBE ''gEfiPciHostBridgeResourceAllocationProtocolGuid'',
     GUID_NAME 0x107A772C 0xD5E1 0x11D4 0x9A 0x46 0x00 0x90 0x27 0x3F 0xC1 0x4D ''gEfiComponentNameProtocolGuid'',
     GUID_NAME 0xA77B2472 0xE282 0x4E9F 0xA2 0x45 0xC2 0xC0 0xE2 0x7B 0xBC 0xC1 ''gEfiBlockIo2ProtocolGuid'',
     GUID_NAME 0x5C198761 0x16A8 0x4E69 0x97 0x2C 0x89 0xD6 0x79 0x54 0xF8 0x1D ''gEfiDriverSupportedEfiVersionProtocolGuid'',
     GUID_NAME 0x2FE800BE 0x8F01 0x4AA6 0x94 0x6B 0xD7 0x13 0x88 0xE1 0x83 0x3F ''gEfiMtftp4ServiceBindingProtocolGuid'',
     GUID_NAME 0x8B01E5B6 0x4F19 0x46E8 0xAB 0x93 0x1C 0x53 0x67 0x1B 0x90 0xCC ''gEfiTpmDeviceInstanceTpm12Guid'',
     GUID_NAME 0xCEAB683C 0xEC56 0x4A2D 0xA9 0x06 0x40 0x53 0xFA 0x4E 0x9C 0x16 ''gEfiTemporaryRamDonePpiGuid'',
     GUID_NAME 0x286BF25A 0xC2C3 0x408C 0xB3 0xB4 0x25 0xE6 0x75 0x8B 0x73 0x17 ''gEfiTpmDeviceInstanceTpm20DtpmGuid'',
     GUID_NAME 0xD432A67F 0x14DC 0x484B 0xB3 0xBB 0x3F 0x02 0x91 0x84 0x93 0x27 ''gEfiDiskInfoProtocolGuid'',
     GUID_NAME 0x1A1241E6 0x8F19 0x41A9 0xBC 0x0E 0xE8 0xEF 0x39 0xE0 0x65 0x46 ''gEfiHiiImageExProtocolGuid'',
     GUID_NAME 0x6DCBD5ED 0xE82D 0x4C44 0xBD 0xA1 0x71 0x94 0x19 0x9A 0xD9 0x2A ''gEfiFmpCapsuleGuid'',
     GUID_NAME 0x1E5668E2 0x8481 0x11D4 0xBC 0xF1 0x00 0x80 0xC7 0x3C 0x88 0x81 ''gEfiVariableArchProtocolGuid'',
     GUID_NAME 0x0EF98D3A 0x3E33 0x497A 0xA4 0x01 0x77 0xBE 0x3E 0xB7 0x4F 0x38 ''gEfiAcpiS3ContextGuid'',
     GUID_NAME 0x6441F818 0x6362 0x4E44 0xB5 0x70 0x7D 0xBA 0x31 0xDD 0x24 0x53 ''gEfiVariableWriteArchProtocolGuid'',
     GUID_NAME 0xB9D4C360 0xBCFB 0x4F9B 0x92 0x98 0x53 0xC1 0x36 0x98 0x22 0x58 ''gEfiFormBrowser2ProtocolGuid'',
     GUID_NAME 0x7AB33A91 0xACE5 0x4326 0xB5 0x72 0xE7 0xEE 0x33 0xD3 0x9F 0x16 ''gEfiManagedNetworkProtocolGuid'',
     GUID_NAME 0x2CA88B53 0xD296 0x4080 0xA4 0xA5 0xCA 0xD9 0xBA 0xE2 0x4B 0x09 ''gLoadFixedAddressConfigurationTableGuid'',
     GUID_NAME 0x78BEE926 0x692F 0x48FD 0x9E 0xDB 0x01 0x42 0x2E 0xF0 0xD7 0xAB ''gEfiEventMemoryMapChangeGuid'',
     GUID_NAME 0x0FD96974 0x23AA 0x4CDC 0xB9 0xCB 0x98 0xD1 0x77 0x50 0x32 0x2A ''gEfiHiiStringProtocolGuid'',
     GUID_NAME 0x7EE2BD44 0x3DA0 0x11D4 0x9A 0x38 0x00 0x90 0x27 0x3F 0xC1 0x4D ''gEfiIsaIoProtocolGuid'']"

definition GuidMappings_4 :: "EFI_GUID_NAME list" where
  "GuidMappings_4 =
    [GUID_NAME 0x605EA650 0xC65C 0x42E1 0xBA 0x80 0x91 0xA5 0x2A 0xB6 0x18 0xC6 ''gEfiEndOfPeiSignalPpiGuid'',
     GUID_NAME 0x5CB5C776 0x60D5 0x45EE 0x88 0x3C 0x45 0x27 0x08 0xCD 0x74 0x3F ''gEfiLoadPeImageProtocolGuid'',
     GUID_NAME 0xF541796D 0xA62E 0x4954 0xA7 0x75 0x95 0x84 0xF6 0x1B 0x9C 0xDD ''gEfiTcgProtocolGuid'',
     GUID_NAME 0xC88B0B6D 0x0DFC 0x49A7 0x9C 0xB4 0x49 0x07 0x4B 0x4C 0x3A 0x78 ''gEfiStorageSecurityCommandProtocolGuid'',
     GUID_NAME 0x3C7D193C 0x682C 0x4C14 0xA6 0x8F 0x55 0x2D 0xEA 0x4F 0x43 0x7E ''gPcdDataBaseSignatureGuid'',
     GUID_NAME 0x59324945 0xEC44 0x4C0D 0xB1 0xCD 0x9D 0xB1 0x39 0xDF 0x07 0x0C ''gEfiIScsiInitiatorNameProtocolGuid'',
     GUID_NAME 0x78E4D245 0xCD4D 0x4A05 0xA2 0xBA 0x47 0x43 0xE8 0x6C 0xFC 0xAB ''gEfiSecurityPolicyProtocolGuid'',
     GUID_NAME 0x00720665 0x67EB 0x4A99 0xBA 0xF7 0xD3 0xC3 0x3A 0x1C 0x7C 0xC9 ''gEfiTcp4ServiceBindingProtocolGuid'',
     GUID_NAME 0xA60C6B59 0xE459 0x425D 0x9C 0x69 0x0B 0xCC 0x9C 0xB2 0x7D 0x81 ''gEfiGetPcdInfoPpiGuid'',
     GUID_NAME 0x1F73B18D 0x4630 0x43C1 0xA1 0xDE 0x6F 0x80 0x85 0x5D 0x7D 0xA4 ''gEdkiiFormBrowserExProtocolGuid'',
     GUID_NAME 0xAAEACCFD 0xF27B 0x4C17 0xB6 0x10 0x75 0xCA 0x1F 0x2D 0xFB 0x52 ''gEfiEbcVmTestProtocolGuid'',
     GUID_NAME 0xD719B2CB 0x3D3A 0x4596 0xA3 0xBC 0xDA 0xD0 0x0E 0x67 0x65 0x6F ''gEfiImageSecurityDatabaseGuid'',
     GUID_NAME 0xBC62157E 0x3E33 0x4FEC 0x99 0x20 0x2D 0x3B 0x36 0xD7 0x50 0xDF ''gEfiLoadedImageDevicePathProtocolGuid'',
     GUID_NAME 0x151C8EAE 0x7F2C 0x472C 0x9E 0x54 0x98 0x28 0x19 0x4F 0x6A 0x88 ''gEfiDiskIo2ProtocolGuid'',
     GUID_NAME 0x6EFAC84F 0x0AB0 0x4747 0x81 0xBE 0x85 0x55 0x62 0x59 0x04 0x49 ''gXenIoProtocolGuid'',
     GUID_NAME 0x0A8BADD5 0x03B8 0x4D19 0xB1 0x28 0x7B 0x8F 0x0E 0xDA 0xA5 0x96 ''gEfiConfigKeywordHandlerProtocolGuid'',
     GUID_NAME 0x65530BC7 0xA359 0x410F 0xB0 0x10 0x5A 0xAD 0xC7 0xEC 0x2B 0x62 ''gEfiTcp4ProtocolGuid'',
     GUID_NAME 0x914AEBE7 0x4635 0x459B 0xAA 0x1C 0x11 0xE2 0x19 0xB0 0x3A 0x10 ''gEfiMdePkgTokenSpaceGuid'',
     GUID_NAME 0x9042A9DE 0x23DC 0x4A38 0x96 0xFB 0x7A 0xDE 0xD0 0x80 0x51 0x6A ''gEfiGraphicsOutputProtocolGuid'',
     GUID_NAME 0x05AD34BA 0x6F02 0x4214 0x95 0x2E 0x4D 0xA0 0x39 0x8E 0x2B 0xB9 ''gEfiDxeServicesTableGuid'',
     GUID_NAME 0x26BACCB3 0x6F42 0x11D4 0xBC 0xE7 0x00 0x80 0xC7 0x3C 0x88 0x81 ''gEfiTimerArchProtocolGuid'',
     GUID_NAME 0x6E056FF9 0xC695 0x4364 0x9E 0x2C 0x61 0x26 0xF5 0xCE 0xEA 0xAE ''gEfiPeiFirmwareVolumeInfoMeasurementExcludedPpiGuid'',
     GUID_NAME 0x3152BCA5 0xEADE 0x433D 0x86 0x2E 0xC0 0x1C 0xDC 0x29 0x1F 0x44 ''gEfiRngProtocolGuid'',
     GUID_NAME 0x03583FF6 0xCB36 0x4940 0x94 0x7E 0xB9 0xB3 0x9F 0x4A 0xFA 0xF7 ''gEfiSmbiosProtocolGuid'',
     GUID_NAME 0x88C9D306 0x0900 0x4EB5 0x82 0x60 0x3E 0x2D 0xBE 0xDA 0x1F 0x89 ''gPeiPostScriptTablePpiGuid'',
     GUID_NAME 0xEE16160A 0xE8BE 0x47A6 0x82 0x0A 0xC6 0x90 0x0D 0xB0 0x25 0x0A ''gEfiPeiMpServicesPpiGuid'',
     GUID_NAME 0xE701458C 0x4900 0x4CA5 0xB7 0x72 0x3D 0x37 0x94 0x9F 0x79 0x27 ''gStatusCodeCallbackGuid'',
     GUID_NAME 0xBD445D79 0xB7AD 0x4F04 0x9A 0xD8 0x29 0xBD 0x20 0x40 0xEB 0x3C ''gEfiLockBoxProtocolGuid'',
     GUID_NAME 0x13AC6DD1 0x73D0 0x11D4 0xB0 0x6B 0x00 0xAA 0x00 0xBD 0x6D 0xE7 ''gEfiEbcProtocolGuid'',
     GUID_NAME 0x143B7632 0xB81B 0x4CB7 0xAB 0xD3 0xB6 0x25 0xA5 0xB9 0xBF 0xFE ''gEfiExtScsiPassThruProtocolGuid'',
     GUID_NAME 0x786EC0AC 0x65AE 0x4D1B 0xB1 0x37 0x0D 0x11 0x0A 0x48 0x37 0x97 ''gIScsiCHAPAuthInfoGuid'',
     GUID_NAME 0x9B942747 0x154E 0x4D29 0xA4 0x36 0xBF 0x71 0x00 0xC8 0xB5 0x3B ''gIp4Config2NvDataGuid'',
     GUID_NAME 0x15853D7C 0x3DDF 0x43E0 0xA1 0xCB 0xEB 0xF8 0x5B 0x8F 0x87 0x2C ''gEfiDeferredImageLoadProtocolGuid'',
     GUID_NAME 0x79CB58C4 0xAC51 0x442F 0xAF 0xD7 0x98 0xE4 0x7D 0x2E 0x99 0x08 ''gEfiBootScriptExecutorContextGuid'',
     GUID_NAME 0x31A6406A 0x6BDF 0x4E46 0xB2 0xA2 0xEB 0xAA 0x89 0xC4 0x09 0x20 ''gEfiHiiImageProtocolGuid'',
     GUID_NAME 0x8BE4DF61 0x93CA 0x11D2 0xAA 0x0D 0x00 0xE0 0x98 0x03 0x2B 0x8C ''gEfiGlobalVariableGuid'',
     GUID_NAME 0x5BE40F57 0xFA68 0x4610 0xBB 0xBF 0xE9 0xC5 0xFC 0xDA 0xD3 0x65 ''gGetPcdInfoProtocolGuid'',
     GUID_NAME 0x9D9A39D8 0xBD42 0x4A73 0xA4 0xD5 0x8E 0xE9 0x4B 0xE1 0x13 0x80 ''gEfiDhcp4ServiceBindingProtocolGuid'',
     GUID_NAME 0xFB6D9542 0x612D 0x4F45 0x87 0x2F 0x5C 0xFF 0x52 0xE9 0x3D 0xCF ''gEfiPeiRecoveryModulePpiGuid'',
     GUID_NAME 0x13FA7698 0xC831 0x49C7 0x87 0xEA 0x8F 0x43 0xFC 0xC2 0x51 0x96 ''gEfiEventVirtualAddressChangeGuid'',
     GUID_NAME 0xEA296D92 0x0B69 0x423C 0x8C 0x28 0x33 0xB4 0xE0 0xA9 0x12 0x68 ''gPcdDataBaseHobGuid'',
     GUID_NAME 0xB9E0ABFE 0x5979 0x4914 0x97 0x7F 0x6D 0xEE 0x78 0xC2 0x78 0xA6 ''gEfiPeiLoadFilePpiGuid'',
     GUID_NAME 0x9E9F374B 0x8F16 0x4230 0x98 0x24 0x58 0x46 0xEE 0x76 0x6A 0x97 ''gEfiSecPlatformInformation2PpiGuid'',
     GUID_NAME 0x4C19049F 0x4137 0x4DD3 0x9C 0x10 0x8B 0x97 0xA8 0x3F 0xFD 0xFA ''gEfiMemoryTypeInformationGuid'',
     GUID_NAME 0x83F01464 0x99BD 0x45E5 0xB3 0x83 0xAF 0x63 0x05 0xD8 0xE9 0xE6 ''gEfiUdp4ServiceBindingProtocolGuid'',
     GUID_NAME 0xB5B35764 0x460C 0x4A06 0x99 0xFC 0x77 0xA1 0x7C 0x1B 0x5C 0xEB ''gEfiPciOverrideProtocolGuid'',
     GUID_NAME 0xA030D115 0x54DD 0x447B 0x90 0x64 0xF2 0x06 0x88 0x3D 0x7C 0xCC ''gPeiTpmInitializationDonePpiGuid'',
     GUID_NAME 0x60FF8964 0xE906 0x41D0 0xAF 0xED 0xF2 0x41 0xE9 0x74 0xE0 0x8E ''gEfiDxeSmmReadyToLockProtocolGuid'',
     GUID_NAME 0x1DA97072 0xBDDC 0x4B30 0x99 0xF1 0x72 0xA0 0xB5 0x6F 0xFF 0x2A ''gEfiMonotonicCounterArchProtocolGuid'']"

definition GuidMappings_5 :: "EFI_GUID_NAME list" where
  "GuidMappings_5 =
    [GUID_NAME 0xD79DF6B0 0xEF44 0x43BD 0x97 0x97 0x43 0xE9 0x3B 0xCF 0x5F 0xA8 ''gVlanConfigFormSetGuid'',
     GUID_NAME 0xF4CCBFB7 0xF6E0 0x47FD 0x9D 0xD4 0x10 0xA8 0xF1 0x50 0xC1 0x91 ''gEfiSmmBase2ProtocolGuid'',
     GUID_NAME 0x6F8C2B35 0xFEF4 0x448D 0x82 0x56 0xE1 0x1B 0x19 0xD6 0x10 0x77 ''gEfiSecPlatformInformationPpiGuid'',
     GUID_NAME 0x9E66F251 0x727C 0x418C 0xBF 0xD6 0xC2 0xB4 0x25 0x28 0x18 0xEA ''gEfiHiiImageDecoderProtocolGuid'',
     GUID_NAME 0x3FDDA605 0xA76E 0x4F46 0xAD 0x29 0x12 0xF4 0x53 0x1B 0x3D 0x08 ''gEfiMpServiceProtocolGuid'',
     GUID_NAME 0x01F34D25 0x4DE2 0x23AD 0x3F 0xF3 0x36 0x35 0x3F 0xF3 0x23 0xF1 ''gEfiPeiPcdPpiGuid'',
     GUID_NAME 0x711C703F 0xC285 0x4B10 0xA3 0xB0 0x36 0xEC 0xBD 0x3C 0x8B 0xE2 ''gEfiCapsuleVendorGuid'',
     GUID_NAME 0x171E9188 0x31D3 0x40F5 0xB1 0x0C 0x53 0x9B 0x2D 0xB9 0x40 0xCD ''gEfiShellPkgTokenSpaceGuid'',
     GUID_NAME 0x1D85CD7F 0xF43D 0x11D2 0x9A 0x0C 0x00 0x90 0x27 0x3F 0xC1 0x4D ''gEfiUnicodeCollationProtocolGuid'',
     GUID_NAME 0x3AD9DF29 0x4501 0x478D 0xB1 0xF8 0x7F 0x7F 0xE7 0x0E 0x50 0xF3 ''gEfiUdp4ProtocolGuid'',
     GUID_NAME 0xB3F79D9A 0x436C 0xDC11 0xB0 0x52 0xCD 0x85 0xDF 0x52 0x4C 0xE6 ''gEfiRegularExpressionProtocolGuid'',
     GUID_NAME 0x2F707EBB 0x4A1A 0x11D4 0x9A 0x38 0x00 0x90 0x27 0x3F 0xC1 0x4D ''gEfiPciRootBridgeIoProtocolGuid'',
     GUID_NAME 0x607F766C 0x7455 0x42BE 0x93 0x0B 0xE4 0xD7 0x6D 0xB2 0x72 0x0F ''gEfiTrEEProtocolGuid'',
     GUID_NAME 0xF6EE6DBB 0xD67F 0x4EA0 0x8B 0x96 0x6A 0x71 0xB1 0x9D 0x84 0xAD ''gEdkiiStatusCodeDataTypeVariableGuid'',
     GUID_NAME 0x00000000 0x0000 0x0000 0x00 0x00 0x00 0x00 0x00 0x00 0x00 0x00 ''gZeroGuid'',
     GUID_NAME 0x268F33A9 0xCCCD 0x48BE 0x88 0x17 0x86 0x05 0x3A 0xC3 0x2E 0xD6 ''gPeiSmmAccessPpiGuid'',
     GUID_NAME 0xD8117CFE 0x94A6 0x11D4 0x9A 0x3A 0x00 0x90 0x27 0x3F 0xC1 0x4D ''gEfiDecompressProtocolGuid'',
     GUID_NAME 0x387477C1 0x69C7 0x11D2 0x8E 0x39 0x00 0xA0 0xC9 0x69 0x72 0x3B ''gEfiSimpleTextInProtocolGuid'',
     GUID_NAME 0x7BAEC70B 0x57E0 0x4C76 0x8E 0x87 0x2F 0x9E 0x28 0x08 0x83 0x43 ''gEfiVT100PlusGuid'',
     GUID_NAME 0xE9CA4775 0x8657 0x47FC 0x97 0xE7 0x7E 0xD6 0x5A 0x08 0x43 0x24 ''gEfiHiiFontProtocolGuid'',
     GUID_NAME 0x215FDD18 0xBD50 0x4FEB 0x89 0x0B 0x58 0xCA 0x0B 0x47 0x39 0xE9 ''gEfiSioProtocolGuid'',
     GUID_NAME 0x0065D394 0x9951 0x4144 0x82 0xA3 0x0A 0xFC 0x85 0x79 0xC2 0x51 ''gEfiPeiRscHandlerPpiGuid'',
     GUID_NAME 0xDCD0BE23 0x9586 0x40F4 0xB6 0x43 0x06 0x52 0x2C 0xED 0x4E 0xDE ''gEfiPeiSecurity2PpiGuid'',
     GUID_NAME 0x56EC3091 0x954C 0x11D2 0x8E 0x3F 0x00 0xA0 0xC9 0x69 0x72 0x3B ''gEfiLoadFileProtocolGuid'',
     GUID_NAME 0xE20939BE 0x32D4 0x41BE 0xA1 0x50 0x89 0x7F 0x85 0xD4 0x98 0x29 ''gEfiMemoryOverwriteControlDataGuid'',
     GUID_NAME 0xF24643C2 0xC622 0x494E 0x8A 0x0D 0x46 0x32 0x57 0x9C 0x2D 0x5B ''gEfiTrEEPhysicalPresenceGuid'',
     GUID_NAME 0x5E948FE3 0x26D3 0x42B5 0xAF 0x17 0x61 0x02 0x87 0x18 0x8D 0xEC ''gEfiDiskInfoIdeInterfaceGuid'',
     GUID_NAME 0xF22FC20C 0x8CF4 0x45EB 0x8E 0x06 0xAD 0x4E 0x50 0xB9 0x5D 0xD3 ''gEfiHiiDriverHealthFormsetGuid'',
     GUID_NAME 0x607F766C 0x7455 0x42BE 0x93 0x0B 0xE4 0xD7 0x6D 0xB2 0x72 0x0F ''gEfiTcg2ProtocolGuid'',
     GUID_NAME 0x8868E871 0xE4F1 0x11D3 0xBC 0x22 0x00 0x80 0xC7 0x3C 0x88 0x81 ''gEfiAcpi20TableGuid'',
     GUID_NAME 0x326AE723 0xAE32 0x4589 0x98 0xB8 0xCA 0xC2 0x3C 0xDC 0xC1 0xB1 ''gPcAtChipsetPkgTokenSpaceGuid'',
     GUID_NAME 0x6FD5B00C 0xD426 0x4283 0x98 0x87 0x6C 0xF5 0xCF 0x1C 0xB1 0xFE ''gEfiUserManagerProtocolGuid'',
     GUID_NAME 0x2A72D11E 0x7376 0x40F6 0x9C 0x68 0x23 0xFA 0x2F 0xE3 0x63 0xF1 ''gEfiEbcSimpleDebuggerProtocolGuid'',
     GUID_NAME 0xA4C751FC 0x23AE 0x4C3E 0x92 0xE9 0x49 0x64 0xCF 0x63 0xF3 0x49 ''gEfiUnicodeCollation2ProtocolGuid'',
     GUID_NAME 0x78247C57 0x63DB 0x4708 0x99 0xC2 0xA8 0xB4 0xA9 0xA6 0x1F 0x6B ''gEfiMtftp4ProtocolGuid'',
     GUID_NAME 0x48ECB431 0xFB72 0x45C0 0xA9 0x22 0xF4 0x58 0xFE 0x04 0x0B 0xD5 ''gEfiEdidOverrideProtocolGuid'',
     GUID_NAME 0xEF598499 0xB25E 0x473A 0xBF 0xAF 0xE7 0xE5 0x7D 0xCE 0x82 0xC4 ''gTpmErrorHobGuid'',
     GUID_NAME 0xE58809F8 0xFBC1 0x48E2 0x88 0x3A 0xA3 0x0F 0xDC 0x4B 0x44 0x1E ''gEfiIfrFrontPageGuid'',
     GUID_NAME 0xA3979E64 0xACE8 0x4DDC 0xBC 0x07 0x4D 0x66 0xB8 0xFD 0x09 0x77 ''gEfiIpSec2ProtocolGuid'',
     GUID_NAME 0x26BACCB2 0x6F42 0x11D4 0xBC 0xE7 0x00 0x80 0xC7 0x3C 0x88 0x81 ''gEfiMetronomeArchProtocolGuid'',
     GUID_NAME 0xF44C00EE 0x1F2C 0x4A00 0xAA 0x09 0x1C 0x9F 0x3E 0x08 0x00 0xA3 ''gEfiArpServiceBindingProtocolGuid'',
     GUID_NAME 0xC12A7328 0xF81F 0x11D2 0xBA 0x4B 0x00 0xA0 0xC9 0x3E 0xC9 0x3B ''gEfiPartTypeSystemPartGuid'',
     GUID_NAME 0x7F4158D3 0x074D 0x456D 0x8C 0xB2 0x01 0xF9 0xC8 0xF7 0x9D 0xAA ''gEfiTpmDeviceSelectedGuid'',
     GUID_NAME 0x05C99A21 0xC70F 0x4AD2 0x8A 0x5F 0x35 0xDF 0x33 0x43 0xF5 0x1E ''gEfiDevicePathFromTextProtocolGuid'',
     GUID_NAME 0xAD15A0D6 0x8BEC 0x4ACF 0xA0 0x73 0xD0 0x1D 0xE7 0x7E 0x2D 0x88 ''gEfiVTUTF8Guid'',
     GUID_NAME 0x86212936 0x0E76 0x41C8 0xA0 0x3A 0x2A 0xF2 0xFC 0x1C 0x39 0xE2 ''gEfiRscHandlerProtocolGuid'',
     GUID_NAME 0x26BACCB1 0x6F42 0x11D4 0xBC 0xE7 0x00 0x80 0xC7 0x3C 0x88 0x81 ''gEfiCpuArchProtocolGuid'',
     GUID_NAME 0xA7717414 0xC616 0x4977 0x94 0x20 0x84 0x47 0x12 0xA7 0x35 0xBF ''gEfiCertTypeRsa2048Sha256Guid'',
     GUID_NAME 0x4B3029CC 0x6B98 0x47FB 0xBC 0x96 0x76 0xDC 0xB8 0x04 0x41 0xF0 ''gEfiDiskInfoUfsInterfaceGuid'']"

definition GuidMappings_6 :: "EFI_GUID_NAME list" where
  "GuidMappings_6 =
    [GUID_NAME 0x587E72D7 0xCC50 0x4F79 0x82 0x09 0xCA 0x29 0x1F 0xC1 0xA1 0x0F ''gEfiHiiConfigRoutingProtocolGuid'',
     GUID_NAME 0x665E3FF5 0x46CC 0x11D4 0x9A 0x38 0x00 0x90 0x27 0x3F 0xC1 0x4D ''gEfiWatchdogTimerArchProtocolGuid'',
     GUID_NAME 0x27CFAC87 0x46CC 0x11D4 0x9A 0x38 0x00 0x90 0x27 0x3F 0xC1 0x4D ''gEfiRealTimeClockArchProtocolGuid'',
     GUID_NAME 0x06E81C58 0x4AD7 0x44BC 0x83 0x90 0xF1 0x02 0x65 0xF7 0x24 0x80 ''gPcdPpiGuid'',
     GUID_NAME 0xEB23F55A 0x7863 0x4AC2 0x8D 0x3D 0x95 0x65 0x35 0xDE 0x03 0x75 ''gEfiIncompatiblePciDeviceSupportProtocolGuid'',
     GUID_NAME 0xDD9E7534 0x7762 0x4698 0x8C 0x14 0xF5 0x85 0x17 0xA6 0x25 0xAA ''gEfiSimpleTextInputExProtocolGuid'',
     GUID_NAME 0xD3B36F2C 0xD551 0x11D4 0x9A 0x46 0x00 0x90 0x27 0x3F 0xC1 0x4D ''gEfiConsoleOutDeviceGuid'',
     GUID_NAME 0xCD3D0A05 0x9E24 0x437C 0xA8 0x91 0x1E 0xE0 0x53 0xDB 0x76 0x38 ''gEdkiiVariableLockProtocolGuid'',
     GUID_NAME 0x1259F60D 0xB754 0x468E 0xA7 0x89 0x4D 0xB8 0x5D 0x55 0xE8 0x7E ''gEfiSwapAddressRangeProtocolGuid'',
     GUID_NAME 0x880AACA3 0x4ADC 0x4A04 0x90 0x79 0xB7 0x47 0x34 0x08 0x25 0xE5 ''gEfiPropertiesTableGuid'',
     GUID_NAME 0xF8E21975 0x0899 0x4F58 0xA4 0xBE 0x55 0x25 0xA9 0xC6 0xD7 0x7A ''gEfiHobMemoryAllocModuleGuid'',
     GUID_NAME 0x6456ED61 0x3579 0x41C9 0x8A 0x26 0x0A 0x0B 0xD6 0x2B 0x78 0xFC ''gIp4IScsiConfigGuid'',
     GUID_NAME 0x09576E92 0x6D3F 0x11D2 0x8E 0x39 0x00 0xA0 0xC9 0x69 0x72 0x3B ''gEfiFileInfoGuid'',
     GUID_NAME 0x4D8B155B 0xC059 0x4C8F 0x89 0x26 0x06 0xFD 0x43 0x31 0xDB 0x8A ''gGetPcdInfoPpiGuid'',
     GUID_NAME 0xFC510EE7 0xFFDC 0x11D4 0xBD 0x41 0x00 0x80 0xC7 0x3C 0x88 0x81 ''gAprioriGuid'',
     GUID_NAME 0x4006C0C1 0xFCB3 0x403E 0x99 0x6D 0x4A 0x6C 0x87 0x24 0xE0 0x6D ''gEfiLoadFile2ProtocolGuid'',
     GUID_NAME 0xAF060190 0x5E3A 0x4025 0xAF 0xBD 0xE1 0xF9 0x05 0xBF 0xAA 0x4C ''gEfiHiiImageDecoderNamePngGuid'',
     GUID_NAME 0xAC05BF33 0x995A 0x4ED4 0xAA 0xB8 0xEF 0x7A 0xE8 0x0F 0x5C 0xB0 ''gUefiCpuPkgTokenSpaceGuid'',
     GUID_NAME 0x4DF19259 0xDC71 0x4D46 0xBE 0xF1 0x35 0x7B 0xB5 0x78 0xC4 0x18 ''gEfiPs2PolicyProtocolGuid'',
     GUID_NAME 0xE0C14753 0xF9BE 0x11D2 0x9A 0x0C 0x00 0x90 0x27 0x3F 0xC1 0x4D ''gEfiPcAnsiGuid'',
     GUID_NAME 0x76B6BDFA 0x2ACD 0x4462 0x9E 0x3F 0xCB 0x58 0xC9 0x69 0xD9 0x37 ''gPerformanceProtocolGuid'',
     GUID_NAME 0xCE345171 0xBA0B 0x11D2 0x8E 0x4F 0x00 0xA0 0xC9 0x69 0x72 0x3B ''gEfiDiskIoProtocolGuid'',
     GUID_NAME 0x2755590C 0x6F3C 0x42FA 0x9E 0xA4 0xA3 0xBA 0x54 0x3C 0xDA 0x25 ''gEfiDebugSupportProtocolGuid'',
     GUID_NAME 0x752F3136 0x4E16 0x4FDC 0xA2 0x2A 0xE5 0xF4 0x68 0x12 0xF4 0xCA ''gEfiShellParametersProtocolGuid'',
     GUID_NAME 0xD2B2B828 0x0826 0x48A7 0xB3 0xDF 0x98 0x3C 0x00 0x60 0x24 0xF0 ''gEfiStatusCodeRuntimeProtocolGuid'',
     GUID_NAME 0x996EC11C 0x5397 0x4E73 0xB5 0x8F 0x82 0x7E 0x52 0x90 0x6D 0xEF ''gEfiVectorHandoffTableGuid'',
     GUID_NAME 0x7CE88FB3 0x4BD7 0x4679 0x87 0xA8 0xA8 0xD8 0xDE 0xE5 0x0D 0x2B ''gEfiEventReadyToBootGuid'',
     GUID_NAME 0x0F0B1735 0x87A0 0x4193 0xB2 0x66 0x53 0x8C 0x38 0xAF 0x48 0xCE ''gEfiIfrTianoGuid'',
     GUID_NAME 0xAB38A0DF 0x6873 0x44A9 0x87 0xE6 0xD4 0xEB 0x56 0x14 0x84 0x49 ''gEfiRamDiskProtocolGuid'',
     GUID_NAME 0x7D916D80 0x5BB1 0x458C 0xA4 0x8F 0xE2 0x5F 0xDD 0x51 0xEF 0x94 ''gEfiTtyTermGuid'',
     GUID_NAME 0x51AA59DE 0xFDF2 0x4EA3 0xBC 0x63 0x87 0x5F 0xB7 0x84 0x2E 0xE9 ''gEfiHashAlgorithmSha256Guid'',
     GUID_NAME 0xEF9FC172 0xA1B2 0x4693 0xB3 0x27 0x6D 0x32 0xFC 0x41 0x60 0x42 ''gEfiHiiDatabaseProtocolGuid'',
     GUID_NAME 0x31878C87 0x0B75 0x11D5 0x9A 0x4F 0x00 0x90 0x27 0x3F 0xC1 0x4D ''gEfiSimplePointerProtocolGuid'',
     GUID_NAME 0x19CB87AB 0x2CB9 0x4665 0x83 0x60 0xDD 0xCF 0x60 0x54 0xF7 0x9D ''gEfiPciHotPlugRequestProtocolGuid'',
     GUID_NAME 0x49152E77 0x1ADA 0x4764 0xB7 0xA2 0x7A 0xFE 0xFE 0xD9 0x5E 0x8B ''gEfiDebugImageInfoTableGuid'',
     GUID_NAME 0x7408D748 0xFC8C 0x4EE6 0x92 0x88 0xC4 0xBE 0xC0 0x92 0xA4 0x10 ''gEfiPeiMasterBootModePpiGuid'',
     GUID_NAME 0x3A4D7A7C 0x018A 0x4B42 0x81 0xB3 0xDC 0x10 0xE3 0xB5 0x91 0xBD ''gUsbKeyboardLayoutKeyGuid'',
     GUID_NAME 0xDFA66065 0xB419 0x11D3 0x9A 0x2D 0x00 0x90 0x27 0x3F 0xC1 0x4D ''gEfiVT100Guid'',
     GUID_NAME 0x2B9FFB52 0x1B13 0x416F 0xA8 0x7B 0xBC 0x93 0x0D 0xEF 0x92 0xA8 ''gTcgEventEntryHobGuid'',
     GUID_NAME 0xC51711E7 0xB4BF 0x404A 0xBF 0xB8 0x0A 0x04 0x8E 0xF1 0xFF 0xE4 ''gEfiIp4ServiceBindingProtocolGuid'',
     GUID_NAME 0x37499A9D 0x542F 0x4C89 0xA0 0x26 0x35 0xDA 0x14 0x20 0x94 0xE4 ''gEfiUartDevicePathGuid'',
     GUID_NAME 0x387477C2 0x69C7 0x11D2 0x8E 0x39 0x00 0xA0 0xC9 0x69 0x72 0x3B ''gEfiSimpleTextOutProtocolGuid'',
     GUID_NAME 0x27CFAC88 0x46CC 0x11D4 0x9A 0x38 0x00 0x90 0x27 0x3F 0xC1 0x4D ''gEfiResetArchProtocolGuid'',
     GUID_NAME 0x964E5B22 0x6459 0x11D2 0x8E 0x39 0x00 0xA0 0xC9 0x69 0x72 0x3B ''gEfiSimpleFileSystemProtocolGuid'',
     GUID_NAME 0x982C298B 0xF4FA 0x41CB 0xB8 0x38 0x77 0xAA 0x68 0x8F 0xB8 0x39 ''gEfiUgaDrawProtocolGuid'',
     GUID_NAME 0x229832D3 0x7A30 0x4B36 0xB8 0x27 0xF4 0x0C 0xB7 0xD4 0x54 0x36 ''gEfiPeiStatusCodePpiGuid'',
     GUID_NAME 0x52C78312 0x8EDC 0x4233 0x98 0xF2 0x1A 0x1A 0xA5 0xE3 0x88 0xA5 ''gEfiNvmExpressPassThruProtocolGuid'',
     GUID_NAME 0x3EBD9E82 0x2C78 0x4DE6 0x97 0x86 0x8D 0x4B 0xFC 0xB7 0xC8 0x81 ''gEfiFaultTolerantWriteProtocolGuid'',
     GUID_NAME 0x821C9A09 0x541A 0x40F6 0x9F 0x43 0x0A 0xD1 0x93 0xA1 0x2C 0xFE ''gEdkiiMemoryProfileGuid'']"

definition GuidMappings_7 :: "EFI_GUID_NAME list" where
  "GuidMappings_7 =
    [GUID_NAME 0x665E3FF6 0x46CC 0x11D4 0x9A 0x38 0x00 0x90 0x27 0x3F 0xC1 0x4D ''gEfiBdsArchProtocolGuid'',
     GUID_NAME 0x8F644FA9 0xE850 0x4DB1 0x9C 0xE2 0x0B 0x44 0x69 0x8E 0x8D 0xA4 ''gEfiFirmwareVolumeBlockProtocolGuid'',
     GUID_NAME 0xCDEA2BD3 0xFC25 0x4C1C 0xB9 0x7C 0xB3 0x11 0x86 0x06 0x49 0x90 ''gEfiBootLogoProtocolGuid'',
     GUID_NAME 0x0D3FB176 0x9569 0x4D51 0xA3 0xEF 0x7D 0x61 0xC6 0x4F 0xEA 0xBA ''gEfiSecurityPkgTokenSpaceGuid'',
     GUID_NAME 0xA1E37052 0x80D9 0x4E65 0xA3 0x17 0x3E 0x9A 0x55 0xC4 0x3E 0xC9 ''gEfiIdeControllerInitProtocolGuid'',
     GUID_NAME 0x31CA5D1A 0xD511 0x4931 0xB7 0x82 0xAE 0x6B 0x2B 0x17 0x8C 0xD7 ''gEfiIfrFrameworkGuid'',
     GUID_NAME 0x2A46715F 0x3581 0x4A55 0x8E 0x73 0x2B 0x76 0x9A 0xAA 0x30 0xC5 ''gRamDiskFormSetGuid'',
     GUID_NAME 0x77AB535A 0x45FC 0x624B 0x55 0x60 0xF7 0xB2 0x81 0xD1 0xF9 0x6E ''gEfiVirtualDiskGuid'',
     GUID_NAME 0xB2360B42 0x7173 0x420A 0x86 0x96 0x46 0xCA 0x6B 0xAB 0x10 0x60 ''gMeasuredFvHobGuid'',
     GUID_NAME 0x6A7A5CFF 0xE8D9 0x4F70 0xBA 0xDA 0x75 0xAB 0x30 0x25 0xCE 0x14 ''gEfiComponentName2ProtocolGuid'',
     GUID_NAME 0xE9DB0D58 0xD48D 0x47F6 0x9C 0x6E 0x6F 0x40 0xE8 0x6C 0x7B 0x41 ''gPeiTpmInitializedPpiGuid'',
     GUID_NAME 0xEFEFD093 0x0D9B 0x46EB 0xA8 0x56 0x48 0x35 0x07 0x00 0xC9 0x08 ''gEfiHiiImageDecoderNameJpegGuid'',
     GUID_NAME 0x245DCA21 0xFB7B 0x11D3 0x8F 0x01 0x00 0xA0 0xC9 0x69 0x72 0x3B ''gEfiPxeBaseCodeCallbackProtocolGuid'',
     GUID_NAME 0x3C8D294C 0x5FC3 0x4451 0xBB 0x31 0xC4 0xC0 0x32 0x29 0x5E 0x6C ''gIdleLoopEventGuid'',
     GUID_NAME 0x00000000 0x0000 0x0000 0x00 0x00 0x00 0x00 0x00 0x00 0x00 0x00 ''gEfiTpmDeviceInstanceNoneGuid'',
     GUID_NAME 0x220E73B6 0x6BDB 0x4413 0x84 0x05 0xB9 0x74 0xB1 0x08 0x61 0x9A ''gEfiFirmwareVolume2ProtocolGuid'',
     GUID_NAME 0x480F8AE9 0x0C46 0x4AA9 0xBC 0x89 0xDB 0x9F 0xBA 0x61 0x98 0x06 ''gEfiDpcProtocolGuid'',
     GUID_NAME 0xEB97088E 0xCFDF 0x49C6 0xBE 0x4B 0xD9 0x06 0xA5 0xB2 0x0E 0x86 ''gEfiAcpiSdtProtocolGuid'',
     GUID_NAME 0xDB47D7D3 0xFE81 0x11D3 0x9A 0x35 0x00 0x90 0x27 0x3F 0xC1 0x4D ''gEfiFileSystemVolumeLabelInfoIdGuid'',
     GUID_NAME 0xDCFA911D 0x26EB 0x469F 0xA2 0x20 0x38 0xB7 0xDC 0x46 0x12 0x20 ''gEfiMemoryAttributesTableGuid'',
     GUID_NAME 0x14982A4F 0xB0ED 0x45B8 0xA8 0x11 0x5A 0x7A 0x9B 0xC2 0x32 0xDF ''gEfiHiiKeyBoardLayoutGuid'',
     GUID_NAME 0x09576E91 0x6D3F 0x11D2 0x8E 0x39 0x00 0xA0 0xC9 0x69 0x72 0x3B ''gEfiDevicePathProtocolGuid'',
     GUID_NAME 0x3BC1B285 0x8A15 0x4A82 0xAA 0xBF 0x4D 0x7D 0x13 0xFB 0x32 0x65 ''gEfiBusSpecificDriverOverrideProtocolGuid'',
     GUID_NAME 0x060CC026 0x4C0D 0x4DDA 0x8F 0x41 0x59 0x5F 0xEF 0x00 0xA5 0x02 ''gMemoryStatusCodeRecordGuid'',
     GUID_NAME 0x1D3DE7F0 0x0807 0x424F 0xAA 0x69 0x11 0xA5 0x4E 0x19 0xA4 0x6F ''gEfiAtaPassThruProtocolGuid'',
     GUID_NAME 0x27ABF055 0xB1B8 0x4C26 0x80 0x48 0x74 0x8F 0x37 0xBA 0xA2 0xDF ''gEfiEventExitBootServicesGuid'',
     GUID_NAME 0xFFE06BDD 0x6107 0x46A6 0x7B 0xB2 0x5A 0x9C 0x7E 0xC5 0x27 0x5C ''gEfiAcpiTableProtocolGuid'',
     GUID_NAME 0x41D94CD2 0x35B6 0x455A 0x82 0x58 0xD4 0xE5 0x13 0x34 0xAA 0xDD ''gEfiIp4ProtocolGuid'',
     GUID_NAME 0x93BB96AF 0xB9F2 0x4EB8 0x94 0x62 0xE0 0xBA 0x74 0x56 0x42 0x36 ''gUefiOvmfPkgTokenSpaceGuid'',
     GUID_NAME 0x0CC252D2 0xC106 0x4661 0xB5 0xBD 0x31 0x47 0xA4 0xF8 0x1F 0x92 ''gEfiPrint2SProtocolGuid'',
     GUID_NAME 0x2AB86EF5 0xECB5 0x4134 0xB5 0x56 0x38 0x54 0xCA 0x1F 0xE1 0xB4 ''gEfiPeiReadOnlyVariable2PpiGuid'',
     GUID_NAME 0x0F6499B1 0xE9AD 0x493D 0xB9 0xC2 0x2F 0x90 0x81 0x5C 0x6C 0xBC ''gEfiPhysicalPresenceGuid'',
     GUID_NAME 0x9E23D768 0xD2F3 0x4366 0x9F 0xC3 0x3A 0x7A 0xBA 0x86 0x43 0x74 ''gEfiVlanConfigProtocolGuid'',
     GUID_NAME 0x38321DBA 0x4FE0 0x4E17 0x8A 0xEC 0x41 0x30 0x55 0xEA 0xED 0xC1 ''gEfiLegacy8259ProtocolGuid'',
     GUID_NAME 0x6B558CE3 0x69E5 0x4C67 0xA6 0x34 0xF7 0xFE 0x72 0xAD 0xBE 0x84 ''gBlockMmioProtocolGuid'',
     GUID_NAME 0x6D582DBC 0xDB85 0x4514 0x8F 0xCC 0x5A 0xDF 0x62 0x27 0xB1 0x47 ''gEfiPeiS3Resume2PpiGuid'',
     GUID_NAME 0x6A1EE763 0xD47A 0x43B4 0xAA 0xBE 0xEF 0x1D 0xE2 0xAB 0x56 0xFC ''gEfiHiiPackageListProtocolGuid'',
     GUID_NAME 0x2E3044AC 0x879F 0x490F 0x97 0x60 0xBB 0xDF 0xAF 0x69 0x5F 0x50 ''gEfiLegacyBiosGuid'',
     GUID_NAME 0x30CFE3E7 0x3DE1 0x4586 0xBE 0x20 0xDE 0xAB 0xA1 0xB3 0xB7 0x93 ''gEfiPciEnumerationCompleteProtocolGuid'',
     GUID_NAME 0x3D3CA290 0xB9A5 0x11E3 0xB7 0x5D 0xB8 0xAC 0x6F 0x7D 0x65 0xE6 ''gXenBusProtocolGuid'',
     GUID_NAME 0x8D59D32B 0xC655 0x4AE9 0x9B 0x15 0xF2 0x59 0x04 0x99 0x2A 0x43 ''gEfiAbsolutePointerProtocolGuid'',
     GUID_NAME 0x1A36E4E7 0xFAB6 0x476A 0x8E 0x75 0x69 0x5A 0x05 0x76 0xFD 0xD7 ''gEfiPeiDecompressPpiGuid'',
     GUID_NAME 0xF5089266 0x1AA0 0x4953 0x97 0xD8 0x56 0x2F 0x8A 0x73 0xB5 0x19 ''gEfiUsbHcProtocolGuid'',
     GUID_NAME 0x11B34006 0xD85B 0x4D0A 0xA2 0x90 0xD5 0xA5 0x71 0x31 0x0E 0xF7 ''gPcdProtocolGuid'',
     GUID_NAME 0x1ACED566 0x76ED 0x4218 0xBC 0x81 0x76 0x7F 0x1F 0x97 0x7A 0x89 ''gEfiNetworkInterfaceIdentifierProtocolGuid_31'',
     GUID_NAME 0x8B843E20 0x8132 0x4852 0x90 0xCC 0x55 0x1A 0x4E 0x4A 0x7F 0x1C ''gEfiDevicePathToTextProtocolGuid'',
     GUID_NAME 0x4F6C5507 0x232F 0x4787 0xB9 0x5E 0x72 0xF8 0x62 0x49 0x0C 0xB1 ''gEventExitBootServicesFailedGuid'',
     GUID_NAME 0xBD8C1056 0x9F36 0x44EC 0x92 0xA8 0xA6 0x33 0x7F 0x81 0x79 0x86 ''gEfiEdidActiveProtocolGuid'',
     GUID_NAME 0x00000000 0x0000 0x0000 0x00 0x00 0x00 0x00 0x00 0x00 0x00 0x00 ''gEfiPartTypeUnusedGuid'']"

definition GuidMappings_8 :: "EFI_GUID_NAME list" where
  "GuidMappings_8 =
    [GUID_NAME 0xD3B36F2D 0xD551 0x11D4 0x9A 0x46 0x00 0x90 0x27 0x3F 0xC1 0x4D ''gEfiStandardErrorDeviceGuid'',
     GUID_NAME 0x9E498932 0x4ABC 0x45AF 0xA3 0x4D 0x02 0x47 0x78 0x7B 0xE7 0xC6 ''gEfiDiskInfoAhciInterfaceGuid'',
     GUID_NAME 0x92D11080 0x496F 0x4D95 0xBE 0x7E 0x03 0x74 0x88 0x38 0x2B 0x0A ''gEfiStatusCodeDataTypeStringGuid'',
     GUID_NAME 0x1C0C34F6 0xD380 0x41FA 0xA0 0x49 0x8A 0xD0 0x6C 0x1A 0x66 0xAA ''gEfiEdidDiscoveredProtocolGuid'',
     GUID_NAME 0x9E58292B 0x7C68 0x497D 0xA0 0xCE 0x65 0x00 0xFD 0x9F 0x1B 0x95 ''gEdkiiWorkingBlockSignatureGuid'',
     GUID_NAME 0xA19832B9 0xAC25 0x11D3 0x9A 0x2D 0x00 0x90 0x27 0x3F 0xC1 0x4D ''gEfiSimpleNetworkProtocolGuid'',
     GUID_NAME 0x53CD299F 0x2BC1 0x40C0 0x8C 0x07 0x23 0xF6 0x4F 0xDB 0x30 0xE0 ''gEdkiiPlatformLogoProtocolGuid'',
     GUID_NAME 0xAF9FFD67 0xEC10 0x488A 0x9D 0xFC 0x6C 0xBF 0x5E 0xE2 0x2C 0x2E ''gEfiAcpiVariableGuid'',
     GUID_NAME 0x1E43298F 0x3478 0x41A7 0xB5 0x77 0x86 0x06 0x46 0x35 0xC7 0x28 ''gOptionRomPkgTokenSpaceGuid'',
     GUID_NAME 0x07D75280 0x27D4 0x4D69 0x90 0xD0 0x56 0x43 0xE2 0x38 0xB3 0x41 ''gEfiPciPlatformProtocolGuid'',
     GUID_NAME 0xDB4E8151 0x57ED 0x4BED 0x88 0x33 0x67 0x51 0xB5 0xD1 0xA8 0xD7 ''gConnectConInEventGuid'',
     GUID_NAME 0xE43176D7 0xB6E8 0x4827 0xB7 0x84 0x7F 0xFD 0xC4 0xB6 0x85 0x61 ''gEfiRngAlgorithmRaw'',
     GUID_NAME 0x95A9A93E 0xA86E 0x4926 0xAA 0xEF 0x99 0x18 0xE7 0x72 0xD9 0x87 ''gEfiEraseBlockProtocolGuid'',
     GUID_NAME 0x8C8CE578 0x8A3D 0x4F1C 0x99 0x35 0x89 0x61 0x85 0xC3 0x2D 0xD3 ''gEfiFirmwareFileSystem2Guid'',
     GUID_NAME 0xF4B427BB 0xBA21 0x4F16 0xBC 0x4E 0x43 0xE4 0x16 0xAB 0x61 0x9C ''gEfiArpProtocolGuid'',
     GUID_NAME 0x4CF5B200 0x68B8 0x4CA5 0x9E 0xEC 0xB2 0x3E 0x3F 0x50 0x02 0x9A ''gEfiPciIoProtocolGuid'',
     GUID_NAME 0x5473C07A 0x3DCB 0x4DCA 0xBD 0x6F 0x1E 0x96 0x89 0xE7 0x34 0x9A ''gEfiFirmwareFileSystem3Guid'',
     GUID_NAME 0x6302D008 0x7F9B 0x4F30 0x87 0xAC 0x60 0xC9 0xFE 0xF5 0xDA 0x4E ''gEfiShellProtocolGuid'',
     GUID_NAME 0x3CD652B4 0x6D33 0x4DCE 0x89 0xDB 0x83 0xDF 0x97 0x66 0xFC 0xCA ''gEfiVectorHandoffInfoPpiGuid'',
     GUID_NAME 0x7739F24C 0x93D7 0x11D4 0x9A 0x3A 0x00 0x90 0x27 0x3F 0xC1 0x4D ''gEfiHobListGuid'',
     GUID_NAME 0x932F47E6 0x2362 0x4002 0x80 0x3E 0x3C 0xD5 0x4B 0x13 0x8F 0x85 ''gEfiScsiIoProtocolGuid'',
     GUID_NAME 0x08F74BAA 0xEA36 0x41D9 0x95 0x21 0x21 0xA7 0x0F 0x87 0x80 0xBC ''gEfiDiskInfoScsiInterfaceGuid'',
     GUID_NAME 0x64A892DC 0x5561 0x4536 0x92 0xC7 0x79 0x9B 0xFC 0x18 0x33 0x55 ''gEfiIsaAcpiProtocolGuid'',
     GUID_NAME 0xEB9D2D31 0x2D88 0x11D3 0x9A 0x16 0x00 0x90 0x27 0x3F 0xC1 0x4D ''gEfiSmbiosTableGuid'',
     GUID_NAME 0xBB25CF6F 0xF1D4 0x11D2 0x9A 0x0C 0x00 0x90 0x27 0x3F 0xC1 0xFD ''gEfiSerialIoProtocolGuid'',
     GUID_NAME 0xAA0E8BC1 0xDABC 0x46B0 0xA8 0x44 0x37 0xB8 0x16 0x9B 0x2B 0xEA ''gEfiPciHotPlugInitProtocolGuid'',
     GUID_NAME 0xD3B36F2B 0xD551 0x11D4 0x9A 0x46 0x00 0x90 0x27 0x3F 0xC1 0x4D ''gEfiConsoleInDeviceGuid'',
     GUID_NAME 0xA770C357 0xB693 0x4E6D 0xA6 0xCF 0xD2 0x1C 0x72 0x8E 0x55 0x0B ''gEdkiiFormBrowserEx2ProtocolGuid'',
     GUID_NAME 0x3079818C 0x46D4 0x4A73 0xAE 0xF3 0xE3 0xE4 0x6C 0xF1 0xEE 0xDB ''gEfiBootScriptExecutorVariableGuid'',
     GUID_NAME 0x6B30C738 0xA391 0x11D4 0x9A 0x3B 0x00 0x90 0x27 0x3F 0xC1 0x4D ''gEfiPlatformDriverOverrideProtocolGuid'',
     GUID_NAME 0xFD0F4478 0x0EFD 0x461D 0xBA 0x2D 0xE5 0x8C 0x45 0xFD 0x5F 0x5E ''gEfiGetPcdInfoProtocolGuid'',
     GUID_NAME 0x31CE593D 0x108A 0x485D 0xAD 0xB2 0x78 0xF2 0x1F 0x29 0x66 0xBE ''gEfiLegacyInterruptProtocolGuid'',
     GUID_NAME 0xEB704011 0x1402 0x11D3 0x8E 0x77 0x00 0xA0 0xC9 0x69 0x72 0x3B ''gMtcVendorGuid'',
     GUID_NAME 0x18A031AB 0xB443 0x4D1A 0xA5 0xC0 0x0C 0x09 0x26 0x1E 0x9F 0x71 ''gEfiDriverBindingProtocolGuid'',
     GUID_NAME 0xA1AFF049 0xFDEB 0x442A 0xB3 0x20 0x13 0xAB 0x4C 0xB7 0x2B 0xBC ''gEfiMdeModulePkgTokenSpaceGuid'',
     GUID_NAME 0x13A3F0F6 0x264A 0x3EF0 0xF2 0xE0 0xDE 0xC5 0x12 0x34 0x2F 0x34 ''gEfiPcdProtocolGuid'',
     GUID_NAME 0xF05976EF 0x83F1 0x4F3D 0x86 0x19 0xF7 0x59 0x5D 0x41 0xE5 0x38 ''gEfiPrint2ProtocolGuid'',
     GUID_NAME 0x94AB2F58 0x1438 0x4EF1 0x91 0x52 0x18 0x94 0x1A 0x3A 0x0E 0x68 ''gEfiSecurity2ArchProtocolGuid'',
     GUID_NAME 0xD3705011 0xBC19 0x4AF7 0xBE 0x16 0xF6 0x80 0x30 0x37 0x8C 0x15 ''gEfiIntelFrameworkModulePkgTokenSpaceGuid'',
     GUID_NAME 0xE857CAF6 0xC046 0x45DC 0xBE 0x3F 0xEE 0x07 0x65 0xFB 0xA8 0x87 ''gEfiS3SaveStateProtocolGuid'',
     GUID_NAME 0x70101EAF 0x0085 0x440C 0xB3 0x56 0x8E 0xE3 0x6F 0xEF 0x24 0xF0 ''gEfiLegacyRegion2ProtocolGuid'',
     GUID_NAME 0xC7735A2F 0x88F5 0x4882 0xAE 0x63 0xFA 0xAC 0x8C 0x8B 0x86 0xB3 ''gEfiVgaMiniPortProtocolGuid'',
     GUID_NAME 0x5053697E 0x2CBC 0x4819 0x90 0xD9 0x05 0x80 0xDE 0xEE 0x57 0x54 ''gEfiCapsuleArchProtocolGuid'',
     GUID_NAME 0xB1EE129E 0xDA36 0x4181 0x91 0xF8 0x04 0xA4 0x92 0x37 0x66 0xA7 ''gEfiDriverFamilyOverrideProtocolGuid'',
     GUID_NAME 0xA46423E3 0x4617 0x49F1 0xB9 0xFF 0xD1 0xBF 0xA9 0x11 0x58 0x39 ''gEfiSecurityArchProtocolGuid'',
     GUID_NAME 0x330D4706 0xF2A0 0x4E4F 0xA3 0x69 0xB6 0x6F 0xA8 0xD5 0x43 0x85 ''gEfiHiiConfigAccessProtocolGuid'',
     GUID_NAME 0xFC1BCDB0 0x7D31 0x49AA 0x93 0x6A 0xA4 0x60 0x0D 0x9D 0xD0 0x83 ''CRC32'',
     GUID_NAME 0xA31280AD 0x481E 0x41B6 0x95 0xE8 0x12 0x7F 0x4C 0x98 0x47 0x79 ''TIANO_COMPRESS'',
     GUID_NAME 0xEE4E5898 0x3914 0x4259 0x9D 0x6E 0xDC 0x7B 0xD7 0x94 0x03 0xCF ''LZMA_COMPRESS'']"

definition GuidMappings :: "EFI_GUID_NAME list" where
  "GuidMappings =
     GuidMappings_0 @ GuidMappings_1 @ GuidMappings_2 @ GuidMappings_3 @ GuidMappings_4 @ GuidMappings_5 @ GuidMappings_6 @ GuidMappings_7 @ GuidMappings_8"

subsection \<open>\<open>CompareGuid\<close>\<close>

text \<open>
  \<open>CompareGuid\<close> reads both GUIDs as four \<open>int32_t\<close>: \<open>Data1\<close>; \<open>Data2\<close> in the low
  and \<open>Data3\<close> in the high half; the bytes 0 to 3 of \<open>Data4\<close>; the bytes 4 to 7 (byte
  order of the little-endian machine).  It returns the bitwise or of the four
  differences.
\<close>

definition guid_int32 :: "EFI_GUID \<Rightarrow> 32 word list" where
  "guid_int32 g =
     (case Data4 g of D4 b0 b1 b2 b3 b4 b5 b6 b7 \<Rightarrow>
        [Data1 g,
         word_cat (Data3 g) (Data2 g),
         word_cat (word_cat b3 b2 :: 16 word) (word_cat b1 b0 :: 16 word),
         word_cat (word_cat b7 b6 :: 16 word) (word_cat b5 b4 :: 16 word)])"

definition CompareGuid :: "EFI_GUID \<Rightarrow> EFI_GUID \<Rightarrow> 32 word" where
  "CompareGuid Guid1 Guid2 =
     (let g1 = guid_int32 Guid1; g2 = guid_int32 Guid2;
          r = g1 ! 0 - g2 ! 0;
          r = r OR (g1 ! 1 - g2 ! 1);
          r = r OR (g1 ! 2 - g2 ! 2);
          r = r OR (g1 ! 3 - g2 ! 3)
      in r)"

subsection \<open>\<open>GetGuidName\<close>\<close>

text \<open>
  The loop \<open>for( i = 0; i < NUM_GUID_MAPPINGS; i++ )\<close>.  The result holds the name and the
  value of \<open>i\<close> with which the loop was left.  The argument of \<open>GetGuidName\<close> is a
  pointer: \<open>None\<close> is \<open>NULL\<close>.
\<close>

function GetGuidName_loop :: "EFI_GUID \<Rightarrow> nat \<Rightarrow> string \<times> nat" where
  "GetGuidName_loop Protocol i =
     (if i < NUM_GUID_MAPPINGS
      then (if CompareGuid Protocol (Guid (GuidMappings ! i)) = 0
            then (Name (GuidMappings ! i), i)
            else GetGuidName_loop Protocol (i + 1))
      else (''<Unknown>'', i))"
  by pat_completeness auto
termination
  by (relation "measure (\<lambda>(Protocol, i). NUM_GUID_MAPPINGS - i)") auto

declare GetGuidName_loop.simps [simp del]

definition GetGuidName :: "EFI_GUID option \<Rightarrow> string" where
  "GetGuidName Protocol =
     (case Protocol of
        None \<Rightarrow> ''<NULL protocol pointer>''
      | Some p \<Rightarrow> fst (GetGuidName_loop p 0))"

subsection \<open>The protocol handlers and \<open>efi_hook_HandleProtocol\<close>\<close>

text \<open>
  A handler gets the contents of \<open>*interface\<close> and returns the status, the contents of
  \<open>*interface\<close> after the call and \<open>windows_loaded_image\<close>.  The bytes of the load-option
  and device-path blobs that \<open>efi_handle_protocol_LoadedImage\<close> fills in are not part of
  the model, only the pointers to them.  \<open>device\<close> is what \<open>vmalloc\<close> returned in
  \<open>creat_windows_loader_device\<close>; with \<open>NULL\<close> the function writes through a null pointer
  and the call has no result.
\<close>

definition efi_handle_protocol_LoadedImage ::
  "global_addresses \<Rightarrow> 64 word \<Rightarrow> 64 word \<Rightarrow> 64 word \<Rightarrow> EFI_LOADED_IMAGE_PROTOCOL
     \<Rightarrow> (efi_status \<times> 64 word \<times> EFI_LOADED_IMAGE_PROTOCOL) option" where
  "efi_handle_protocol_LoadedImage G device handle interface windows_loaded_image =
     (if device = 0 then None
      else Some (EFI_SUCCESS, addr_windows_loaded_image G,
                 windows_loaded_image\<lparr>FilePath := device,
                                       LoadOptions := addr_windows_load_options G\<rparr>))"

definition efi_handle_protocol_DevicePath ::
  "global_addresses \<Rightarrow> 64 word \<Rightarrow> 64 word \<Rightarrow> EFI_LOADED_IMAGE_PROTOCOL
     \<Rightarrow> (efi_status \<times> 64 word \<times> EFI_LOADED_IMAGE_PROTOCOL) option" where
  "efi_handle_protocol_DevicePath G handle interface windows_loaded_image =
     (if handle \<noteq> BOOT_DEVICE_HANDLE
      then Some (EFI_UNSUPPORTED, interface, windows_loaded_image)
      else Some (EFI_SUCCESS, addr_windows_boot_device_path G, windows_loaded_image))"

text \<open>
  \<open>get_GUID_str\<close> formats the fields of the GUID it is given into a global buffer; all
  that matters here is that it reads \<open>guid->Data1\<close> and the other fields, so that with a
  null pointer it does not return.
\<close>

definition get_GUID_str :: "EFI_GUID option \<Rightarrow> unit option" where
  "get_GUID_str guid = (case guid of None \<Rightarrow> None | Some g \<Rightarrow> Some ())"

text \<open>
  \<open>efi_hook_HandleProtocol\<close>: the name is looked up first, then the first \<open>DebugMSG\<close>
  evaluates \<open>get_GUID_str( guid )\<close>, then the name is compared.
  \<open>strcmp (protocolName, s) == 0\<close> is equality of the two strings.
\<close>

definition efi_hook_HandleProtocol ::
  "global_addresses \<Rightarrow> 64 word \<Rightarrow> 64 word \<Rightarrow> EFI_GUID option \<Rightarrow> 64 word
     \<Rightarrow> EFI_LOADED_IMAGE_PROTOCOL
     \<Rightarrow> (efi_status \<times> 64 word \<times> EFI_LOADED_IMAGE_PROTOCOL) option" where
  "efi_hook_HandleProtocol G device handle guid interface windows_loaded_image =
     (let protocolName = GetGuidName guid
      in (case get_GUID_str guid of
            None \<Rightarrow> None
          | Some u \<Rightarrow>
              if protocolName = ''gEfiLoadedImageProtocolGuid''
              then efi_handle_protocol_LoadedImage G device handle interface
                     windows_loaded_image
              else if protocolName = ''gEfiDevicePathProtocolGuid''
              then efi_handle_protocol_DevicePath G handle interface windows_loaded_image
              else Some (EFI_UNSUPPORTED, interface, windows_loaded_image)))"

text \<open>The two GUIDs that the table names \<open>gEfiLoadedImageProtocolGuid\<close> (entry 153) and
  \<open>gEfiDevicePathProtocolGuid\<close> (entry 364).\<close>

definition LoadedImageProtocolGuid :: EFI_GUID where
  "LoadedImageProtocolGuid =
     \<lparr>Data1 = 0x5B1B31A1, Data2 = 0x9562, Data3 = 0x11D2,
      Data4 = D4 0x8E 0x3F 0x00 0xA0 0xC9 0x69 0x72 0x3B\<rparr>"

definition DevicePathProtocolGuid :: EFI_GUID where
  "DevicePathProtocolGuid =
     \<lparr>Data1 = 0x09576E91, Data2 = 0x6D3F, Data3 = 0x11D2,
      Data4 = D4 0x8E 0x39 0x00 0xA0 0xC9 0x69 0x72 0x3B\<rparr>"

section \<open>Concrete inputs\<close>

text \<open>A ledger with one active descriptor, and the same ledger after that descriptor
  has been freed.\<close>

definition ledger_one :: efi_globals where
  "ledger_one = \<lparr>efi_memory_mappings =
      [\<lparr>type = EfiLoaderData, pad = 0, phys_addr = 0x100000, virt_addr = 0,
        num_pages = 2, attribute = 15, pad2 = 0\<rparr>], efi_mem_map_epoch = 0\<rparr>"

definition ledger_one_freed :: efi_globals where
  "ledger_one_freed = \<lparr>efi_memory_mappings =
      [\<lparr>type = EfiConventionalMemory, pad = 0, phys_addr = 0x100000, virt_addr = 0,
        num_pages = 2, attribute = 15, pad2 = 0\<rparr>], efi_mem_map_epoch = 0\<rparr>"

text \<open>The ledger after two pages were allocated at \<open>0x1000\<close> and then one page at
  \<open>0x2000\<close>, both at a fixed address.\<close>

definition ledger_overlap :: efi_globals where
  "ledger_overlap = \<lparr>efi_memory_mappings =
      [\<lparr>type = EfiLoaderData, pad = 0, phys_addr = 0x1000, virt_addr = 0,
        num_pages = 2, attribute = 15, pad2 = 0\<rparr>,
       \<lparr>type = EfiLoaderData, pad = 0, phys_addr = 0x2000, virt_addr = 0,
        num_pages = 1, attribute = 15, pad2 = 0\<rparr>], efi_mem_map_epoch = 0\<rparr>"

text \<open>The ledger after the same two pages were allocated twice at the fixed address
  \<open>0x100000\<close>, and the ledger after \<open>ledger_one\<close> received one more page at \<open>0x200000\<close>.\<close>

definition ledger_same_twice :: efi_globals where
  "ledger_same_twice = \<lparr>efi_memory_mappings =
      [\<lparr>type = EfiLoaderData, pad = 0, phys_addr = 0x100000, virt_addr = 0,
        num_pages = 2, attribute = 15, pad2 = 0\<rparr>,
       \<lparr>type = EfiLoaderData, pad = 0, phys_addr = 0x100000, virt_addr = 0,
        num_pages = 2, attribute = 15, pad2 = 0\<rparr>], efi_mem_map_epoch = 0\<rparr>"

definition ledger_two :: efi_globals where
  "ledger_two = \<lparr>efi_memory_mappings =
      [\<lparr>type = EfiLoaderData, pad = 0, phys_addr = 0x100000, virt_addr = 0,
        num_pages = 2, attribute = 15, pad2 = 0\<rparr>,
       \<lparr>type = EfiLoaderCode, pad = 0, phys_addr = 0x200000, virt_addr = 0,
        num_pages = 1, attribute = 15, pad2 = 0\<rparr>], efi_mem_map_epoch = 0\<rparr>"

text \<open>Two queries of the memory map: with no buffer at all, and with 49 bytes of \<open>0xAA\<close>.\<close>

definition empty_query :: getmemmap_vars where
  "empty_query = \<lparr>MemoryMapSize = 0, MemoryMap = [], MapKey = 5, DescriptorSize = 0,
                   DescriptorVersion = 0\<rparr>"

definition query_49 :: getmemmap_vars where
  "query_49 = \<lparr>MemoryMapSize = 49, MemoryMap = replicate 49 0xAA, MapKey = 5,
                DescriptorSize = 0, DescriptorVersion = 0\<rparr>"


text \<open>
  A memory for the relocator.  At \<open>0x5000\<close>: a chunk with \<open>va_offset = 0x1000\<close> and
  \<open>total_size = 10\<close>, its one entry \<open>0xA010\<close> (type 10, offset \<open>0x10\<close>), and then eight
  zero bytes, which read as a chunk of \<open>total_size\<close> 0.  At \<open>0x20001010\<close>: the 64-bit
  value \<open>0x10001234\<close>.  The image was linked for \<open>0x10000000\<close> and lies at \<open>0x20000000\<close>.
\<close>

definition mem_put :: "64 word \<Rightarrow> 8 word list \<Rightarrow> memory \<Rightarrow> memory" where
  "mem_put base bytes m =
     (\<lambda>a. if unat (a - base) < length bytes then bytes ! unat (a - base) else m a)"





text \<open>A GUID that the table holds twice (entries 23 and 183), and one that it does not
  hold.\<close>

definition guid_twice :: EFI_GUID where
  "guid_twice = \<lparr>Data1 = 0x286BF25A, Data2 = 0xC2C3, Data3 = 0x408C,
                  Data4 = D4 0xB3 0xB4 0x25 0xE6 0x75 0x8B 0x73 0x17\<rparr>"

definition guid_absent :: EFI_GUID where
  "guid_absent = \<lparr>Data1 = 0xFFFFFFFF, Data2 = 0xFFFF, Data3 = 0xFFFF,
                   Data4 = D4 0xFF 0xFF 0xFF 0xFF 0xFF 0xFF 0xFF 0xFF\<rparr>"


text \<open>Addresses for the globals that the handlers hand out.\<close>

definition G_example :: global_addresses where
  "G_example = \<lparr>addr_windows_loaded_image = 0xFFFF000008A00000,
                 addr_windows_load_options = 0xFFFF000008A00100,
                 addr_windows_boot_device_path = 0xFFFF000008A00200,
                 addr_fake_systab = 0xFFFF000008A00300\<rparr>"


text \<open>
  An environment for an example.  Of user space the two pages from \<open>0x6000\<close> to \<open>0x7FFF\<close>
  are mapped.  \<open>copy_from_user\<close> copies the bytes of the source up to the end of the
  mapped pages, fills the rest of the destination with zero bytes and reports how many
  bytes it did not copy.  A plain read succeeds on the mapped user pages and on kernel
  addresses (from \<open>0xFFFF000000000000\<close> up).
\<close>

definition copy_from_user_example ::
  "memory \<Rightarrow> 64 word \<Rightarrow> 64 word \<Rightarrow> 64 word \<Rightarrow> 64 word \<times> memory" where
  "copy_from_user_example m to from n =
     (let k = (if 0x6000 \<le> from \<and> from < 0x8000 then min n (0x8000 - from) else 0)
      in (n - k,
          (\<lambda>a. if a - to < k then m (from + (a - to))
               else if a - to < n then 0
               else m a)))"

definition env_example :: loader_env where
  "env_example = \<lparr>copy_from_user = copy_from_user_example,
                   vmalloc_exec = (\<lambda>sz. 0xFFFF000010000000),
                   readable = (\<lambda>a. (0x6000 \<le> a \<and> a < 0x8000) \<or> 0xFFFF000000000000 \<le> a)\<rparr>"

text \<open>
  An image of two segments, both with page-aligned \<open>mem\<close> and \<open>memsz\<close> and with \<open>bufsz\<close>
  not above \<open>memsz\<close>.  The buffer of the first starts on the mapped page at \<open>0x7000\<close> and
  runs on into the page at \<open>0x8000\<close>, which is not mapped: its first 32 bytes can be read,
  its first page can be copied, its second page cannot.  The second segment is the
  relocation segment: the page at \<open>0x6000\<close>, whose first eight bytes are a chunk header
  with \<open>total_size\<close> 0.  \<open>img_loaded\<close> is the image once its buffer is allocated.
\<close>

definition seg_bad :: kexec_segment where
  "seg_bad = \<lparr>buf = 0x7000, bufsz = 0x2000, mem = 0x1000000, memsz = 0x2000\<rparr>"

definition seg_table :: kexec_segment where
  "seg_table = \<lparr>buf = 0x6000, bufsz = 0x1000, mem = 0x1002000, memsz = 0x1000\<rparr>"

definition mem_in :: memory where
  "mem_in = mem_put 0x6000 [1, 2, 3, 4, 0, 0, 0, 0] (mem_put 0x7000 [0x4D, 0x5A] (\<lambda>a. 0))"

definition img_in :: kimage where
  "img_in = \<lparr>start = 0x1000000, segment = [seg_bad, seg_table], raw_image = 0,
              raw_image_mem_base = 0, raw_image_start = 0\<rparr>"

definition img_loaded :: kimage where
  "img_loaded = \<lparr>start = 0x1000000, segment = [seg_bad, seg_table],
                  raw_image = 0xFFFF000010000000, raw_image_mem_base = 0x1000000,
                  raw_image_start = 0xFFFF000010000000\<rparr>"

text \<open>
  The memory after the first page of \<open>seg_bad\<close> has been copied, and the memory after
  both segments of \<open>img_in\<close> have been handled: the failed copy of the second page of
  \<open>seg_bad\<close>, then the copy of \<open>seg_table\<close>.
\<close>

definition mem_first_page :: memory where
  "mem_first_page = snd (copy_from_user_example mem_in 0xFFFF000010000000 0x7000 0x1000)"

definition mem_out :: memory where
  "mem_out = snd (copy_from_user_example
                   (snd (copy_from_user_example mem_first_page 0xFFFF000010001000 0x8000
                           0x1000))
                   0xFFFF000010002000 0x6000 0x1000)"

section \<open>Properties of the memory ledger\<close>

lemma unregister_scan_first_container:
  "unregister_scan K a n ms =
     (let i = length (takeWhile (\<lambda>d. \<not> in_region K a d) ms) in
      if i < length ms \<and> phys_addr (ms ! i) = a \<and> num_pages (ms ! i) = n
      then (EFI_SUCCESS, ms[i := (ms ! i)\<lparr>type := EfiConventionalMemory\<rparr>])
      else (EFI_INVALID_PARAMETER, ms))"
proof (induction ms)
  case Nil
  show ?case by simp
next
  case (Cons d ms)
  show ?case
  proof (cases "in_region K a d")
    case True
    then show ?thesis
      by (auto simp: in_region_def Let_def not_less not_le)
  next
    case False
    then have skip: "a < phys_addr d \<or> phys_addr d + num_pages d * PAGE_SIZE K \<le> a"
      by (auto simp: in_region_def not_less not_le)
    show ?thesis
      using False skip Cons.IH by (simp add: Let_def)
  qed
qed

lemma unregister_scan_twice:
  "unregister_scan K a n ms = (EFI_SUCCESS, ms') \<Longrightarrow>
   unregister_scan K a n ms' = (EFI_SUCCESS, ms')"
proof (induction ms arbitrary: ms')
  case Nil
  then show ?case by simp
next
  case (Cons d ms)
  show ?case
  proof (cases "a < phys_addr d \<or> phys_addr d + num_pages d * PAGE_SIZE K \<le> a")
    case True
    with Cons.prems obtain r where r: "unregister_scan K a n ms = (EFI_SUCCESS, r)" "ms' = d # r"
      by (auto simp: Let_def split: prod.splits)
    from Cons.IH [OF r(1)] True r(2) show ?thesis by (simp add: Let_def)
  next
    case False
    with Cons.prems show ?thesis
      by (auto simp: Let_def split: if_splits)
  qed
qed

lemma first_free_ledger_one:
  "efi_hook_FreePages K_4k 0x100000 2 ledger_one = (EFI_SUCCESS, ledger_one_freed)"
  by (simp add: efi_hook_FreePages_def efi_unregister_allocation_def ledger_one_def
      ledger_one_freed_def K_4k_def Let_def)

text \<open>
  C10.  When \<open>free_pages(address, count)\<close> has succeeded (so that the descriptor it
  located is tagged free), the same call on the resulting ledger succeeds again and
  leaves that ledger as it is: the scan never looks at the type of the descriptor.
\<close>

theorem double_free_accepted:
  "efi_hook_FreePages K a n g = (EFI_SUCCESS, g') \<Longrightarrow>
   efi_hook_FreePages K a n g' = (EFI_SUCCESS, g')"
  by (auto simp: efi_hook_FreePages_def efi_unregister_allocation_def
           split: prod.splits dest: unregister_scan_twice)

theorem double_free_accepted_witness:
  "efi_hook_FreePages K_4k 0x100000 2 ledger_one = (EFI_SUCCESS, ledger_one_freed) \<and>
   efi_hook_FreePages K_4k 0x100000 2 ledger_one_freed = (EFI_SUCCESS, ledger_one_freed)"
  using double_free_accepted [OF first_free_ledger_one] first_free_ledger_one by simp

text \<open>
  C2, as the code has it.  \<open>free_pages(address, count)\<close> is decided by the first
  descriptor in ledger order whose region contains the address: when that descriptor
  starts at the address and has \<open>count\<close> pages, it is tagged free, every other descriptor
  stays as it is and the call succeeds; in every other case (no descriptor contains the
  address, or the first one that does starts elsewhere or has another page count) the
  call returns \<open>EFI_INVALID_PARAMETER\<close> and the ledger is unchanged.
\<close>

theorem free_pages_first_container:
  "efi_hook_FreePages K a n g =
     (let ms = efi_memory_mappings g;
          i = length (takeWhile (\<lambda>d. \<not> in_region K a d) ms) in
      if i < length ms \<and> phys_addr (ms ! i) = a \<and> num_pages (ms ! i) = n
      then (EFI_SUCCESS,
            g\<lparr>efi_memory_mappings := ms[i := (ms ! i)\<lparr>type := EfiConventionalMemory\<rparr>]\<rparr>)
      else (EFI_INVALID_PARAMETER, g))"
  by (simp add: efi_hook_FreePages_def efi_unregister_allocation_def
        unregister_scan_first_container Let_def)

text \<open>
  C2 as stated fails: after two pages are allocated at \<open>0x1000\<close> and one page at
  \<open>0x2000\<close>, the second descriptor is exactly \<open>[0x2000, 0x2000 + 1 * PAGE)\<close>, yet
  \<open>free_pages(0x2000, 1)\<close> is rejected, because the first descriptor contains \<open>0x2000\<close>
  at a nonzero offset.
\<close>

theorem free_pages_exact_match_counterexample:
  "run_calls K_4k
     [Call_AllocatePages (host_at 0x1000) AllocateAddress EfiLoaderData 2 0x1000,
      Call_AllocatePages (host_at 0x2000) AllocateAddress EfiLoaderData 1 0x2000]
     initial_globals = Some ledger_overlap \<and>
   phys_addr (efi_memory_mappings ledger_overlap ! 1) = 0x2000 \<and>
   num_pages (efi_memory_mappings ledger_overlap ! 1) = 1 \<and>
   efi_hook_FreePages K_4k 0x2000 1 ledger_overlap = (EFI_INVALID_PARAMETER, ledger_overlap)"
  by (simp add: efi_hook_FreePages_def efi_unregister_allocation_def ledger_overlap_def
      K_4k_def host_at_def initial_globals_def efi_hook_AllocatePages_def
      efi_register_mem_allocation_def EfiLoaderData_def EfiConventionalMemory_def
      EfiLoaderCode_def Let_def)

subsection \<open>Disjointness of the active descriptors\<close>

lemma active_disjoint_append:
  "active_disjoint K (ms @ [new]) \<longleftrightarrow>
     active_disjoint K ms \<and>
     (is_active new \<longrightarrow> (\<forall>d \<in> set ms. is_active d \<longrightarrow> \<not> ranges_overlap K d new))"
  by (induction ms) auto

lemma ranges_overlap_retag [simp]:
  "ranges_overlap K (d\<lparr>type := t\<rparr>) e = ranges_overlap K d e"
  "ranges_overlap K e (d\<lparr>type := t\<rparr>) = ranges_overlap K e d"
  by (simp_all add: ranges_overlap_def range_lo_def range_hi_def)

lemma not_active_retag [simp]: "\<not> is_active (d\<lparr>type := EfiConventionalMemory\<rparr>)"
  by (simp add: is_active_def)

lemma active_disjoint_update:
  "active_disjoint K ms \<Longrightarrow> i < length ms \<Longrightarrow>
   active_disjoint K (ms[i := (ms ! i)\<lparr>type := EfiConventionalMemory\<rparr>])"
proof (induction ms arbitrary: i)
  case Nil
  then show ?case by simp
next
  case (Cons d ms)
  show ?case
  proof (cases i)
    case 0
    with Cons.prems show ?thesis by simp
  next
    case (Suc j)
    with Cons.prems have j: "j < length ms" and tl: "active_disjoint K ms" by simp_all
    have "\<And>e. e \<in> set (ms[j := (ms ! j)\<lparr>type := EfiConventionalMemory\<rparr>]) \<Longrightarrow> is_active e \<Longrightarrow>
              e \<in> set ms"
      using j by (auto simp: set_conv_nth nth_list_update split: if_splits)
    with Cons.prems Suc Cons.IH [OF tl j] show ?thesis by auto
  qed
qed

lemma free_pages_disjoint:
  "active_disjoint K (efi_memory_mappings g) \<Longrightarrow>
   active_disjoint K (efi_memory_mappings (snd (efi_hook_FreePages K a n g)))"
  by (simp add: efi_hook_FreePages_def efi_unregister_allocation_def
        unregister_scan_first_container Let_def active_disjoint_update)

lemma free_pages_length:
  "length (efi_memory_mappings (snd (efi_hook_FreePages K a n g))) = length (efi_memory_mappings g)"
  by (simp add: efi_hook_FreePages_def efi_unregister_allocation_def
        unregister_scan_first_container Let_def)

lemma register_cases:
  "efi_register_mem_allocation K ok t n p g = g \<or>
   (\<exists>new. efi_memory_mappings (efi_register_mem_allocation K ok t n p g) =
            efi_memory_mappings g @ [new])"
  by (simp add: efi_register_mem_allocation_def)

lemma alloc_pool_cases:
  "efi_hook_AllocatePool K h t sz b g = Some (st, b', g') \<Longrightarrow>
   g' = g \<or> (\<exists>new. efi_memory_mappings g' = efi_memory_mappings g @ [new])"
  using register_cases [of K "node_ok h" t "NUM_PAGES K sz" _ g]
  by (auto simp: efi_hook_AllocatePool_def split: option.splits if_splits)

lemma alloc_pages_cases:
  "efi_hook_AllocatePages K h ty t n m g = Some (st, m', g') \<Longrightarrow>
   g' = g \<or> (\<exists>new. efi_memory_mappings g' = efi_memory_mappings g @ [new])"
  using register_cases [of K "node_ok h" t n "remap_phys h" g]
  by (auto simp: efi_hook_AllocatePages_def split: option.splits if_splits dest: alloc_pool_cases)

lemma run_call_cases:
  "run_call K c g = Some g' \<Longrightarrow>
     (length (efi_memory_mappings g') = length (efi_memory_mappings g) \<and>
      (active_disjoint K (efi_memory_mappings g) \<longrightarrow> active_disjoint K (efi_memory_mappings g'))) \<or>
     (\<exists>new. efi_memory_mappings g' = efi_memory_mappings g @ [new])"
proof (cases c)
  case (Call_AllocatePool h t sz)
  assume "run_call K c g = Some g'"
  with Call_AllocatePool show ?thesis by (auto dest: alloc_pool_cases)
next
  case (Call_AllocatePages h ty t n m)
  assume "run_call K c g = Some g'"
  with Call_AllocatePages show ?thesis by (auto dest: alloc_pages_cases)
next
  case (Call_FreePages a n)
  assume "run_call K c g = Some g'"
  with Call_FreePages show ?thesis
    using free_pages_disjoint [of K g a n] free_pages_length [of K a n g] by auto
next
  case (Call_FreePool b)
  assume "run_call K c g = Some g'"
  with Call_FreePool show ?thesis by (auto simp: efi_hook_FreePool_def)
next
  case (Call_GetMemoryMap v)
  assume "run_call K c g = Some g'"
  with Call_GetMemoryMap show ?thesis by auto
qed

lemmas ledger_eval =
  K_4k_def host_at_def initial_globals_def efi_hook_AllocatePages_def
  efi_hook_AllocatePool_def efi_register_mem_allocation_def NUM_PAGES_def
  efi_hook_FreePages_def efi_unregister_allocation_def efi_hook_FreePool_def
  EfiLoaderData_def EfiConventionalMemory_def EfiLoaderCode_def
  is_active_def ranges_overlap_def range_lo_def range_hi_def Let_def

lemma ledger_two_step:
  "run_call K_4k (Call_AllocatePages (host_at 0x200000) AllocateAddress EfiLoaderCode 1 0x200000)
     ledger_one = Some ledger_two"
  by (simp add: ledger_eval ledger_one_def ledger_two_def)

text \<open>
  C1, as the code has it.  Registration appends a descriptor without looking at the
  ledger, so the pairwise disjointness of the active descriptors is kept by a call only
  on a condition: a call keeps it whenever each descriptor that the call appends is
  either free or overlaps no active descriptor already in the ledger.  Calls that append
  nothing (\<open>free_pages\<close>, \<open>free_pool\<close>, \<open>get_memory_map\<close>, failed allocations) always
  keep it.
\<close>

theorem active_disjoint_preserved:
  assumes "active_disjoint K (efi_memory_mappings g)"
    and "run_call K c g = Some g'"
    and "\<forall>new \<in> set (drop (length (efi_memory_mappings g)) (efi_memory_mappings g')).
           is_active new \<longrightarrow>
           (\<forall>d \<in> set (efi_memory_mappings g). is_active d \<longrightarrow> \<not> ranges_overlap K d new)"
  shows "active_disjoint K (efi_memory_mappings g')"
  using run_call_cases [OF assms(2)] assms(1,3)
  by (auto simp: active_disjoint_append)


theorem active_disjoint_preserved_witness:
  "active_disjoint K_4k (efi_memory_mappings ledger_one) \<and>
   run_call K_4k (Call_AllocatePages (host_at 0x200000) AllocateAddress EfiLoaderCode 1 0x200000)
     ledger_one = Some ledger_two \<and>
   drop (length (efi_memory_mappings ledger_one)) (efi_memory_mappings ledger_two) =
     [\<lparr>type = EfiLoaderCode, pad = 0, phys_addr = 0x200000, virt_addr = 0,
       num_pages = 1, attribute = 15, pad2 = 0\<rparr>] \<and>
   active_disjoint K_4k (efi_memory_mappings ledger_two)"
proof -
  have a: "active_disjoint K_4k (efi_memory_mappings ledger_one)"
    by (simp add: ledger_one_def)
  have b: "\<forall>new \<in> set (drop (length (efi_memory_mappings ledger_one)) (efi_memory_mappings ledger_two)).
           is_active new \<longrightarrow>
           (\<forall>d \<in> set (efi_memory_mappings ledger_one). is_active d \<longrightarrow> \<not> ranges_overlap K_4k d new)"
    by (simp add: ledger_one_def ledger_two_def ledger_eval)
  have c: "drop (length (efi_memory_mappings ledger_one)) (efi_memory_mappings ledger_two) =
     [\<lparr>type = EfiLoaderCode, pad = 0, phys_addr = 0x200000, virt_addr = 0,
       num_pages = 1, attribute = 15, pad2 = 0\<rparr>]"
    by (simp add: ledger_one_def ledger_two_def)
  from active_disjoint_preserved [OF a ledger_two_step b] a c ledger_two_step
  show ?thesis by blast
qed

text \<open>
  C1 as stated fails: allocating the same two pages twice at the fixed address
  \<open>0x100000\<close> leaves two active descriptors with the same range.
\<close>

theorem active_disjoint_counterexample:
  "run_calls K_4k
     [Call_AllocatePages (host_at 0x100000) AllocateAddress EfiLoaderData 2 0x100000,
      Call_AllocatePages (host_at 0x100000) AllocateAddress EfiLoaderData 2 0x100000]
     initial_globals = Some ledger_same_twice \<and>
   \<not> active_disjoint K_4k (efi_memory_mappings ledger_same_twice)"
  by (simp add: ledger_eval ledger_same_twice_def)


subsection \<open>The map key\<close>

lemma run_call_epoch:
  "run_call K c g = Some g' \<Longrightarrow> efi_mem_map_epoch g' = efi_mem_map_epoch g"
  by (cases c)
     (auto simp: efi_hook_AllocatePool_def efi_hook_AllocatePages_def
        efi_register_mem_allocation_def efi_hook_FreePages_def
        efi_unregister_allocation_def efi_hook_FreePool_def
      split: option.splits if_splits prod.splits)

lemma get_memory_map_key:
  "efi_hook_GetMemoryMap g v = (EFI_SUCCESS, v') \<Longrightarrow> MapKey v' = efi_mem_map_epoch g"
  by (auto simp: efi_hook_GetMemoryMap_def Let_def split: if_splits prod.splits)

lemma call_map_keys_epoch:
  "k \<in> set (call_map_keys g c) \<Longrightarrow> k = efi_mem_map_epoch g"
proof (cases c)
  case (Call_GetMemoryMap v)
  assume k: "k \<in> set (call_map_keys g c)"
  obtain st v' where r: "efi_hook_GetMemoryMap g v = (st, v')" by (cases "efi_hook_GetMemoryMap g v")
  with k Call_GetMemoryMap have "st = EFI_SUCCESS" "k = MapKey v'"
    by (cases st; simp add: call_map_keys_def)+
  with r show ?thesis by (simp add: get_memory_map_key)
qed (simp_all add: call_map_keys_def)

lemma session_map_keys_epoch:
  "k \<in> set (session_map_keys K cs g) \<Longrightarrow> k = efi_mem_map_epoch g"
proof (induction cs arbitrary: g)
  case Nil
  then show ?case by simp
next
  case (Cons c cs)
  show ?case
  proof (cases "run_call K c g")
    case None
    with Cons.prems show ?thesis by (auto dest: call_map_keys_epoch)
  next
    case (Some g')
    with Cons.prems Cons.IH [of g'] run_call_epoch [OF Some] show ?thesis
      by (auto dest: call_map_keys_epoch)
  qed
qed

lemma two_queries:
  "session_map_keys K_4k [Call_GetMemoryMap empty_query, Call_GetMemoryMap empty_query]
      initial_globals = [0, 0]"
  by (simp add: call_map_keys_def efi_hook_GetMemoryMap_def efi_get_mem_map_size_def
        initial_globals_def empty_query_def Let_def)

text \<open>
  C8, as the code has it.  Nothing assigns \<open>efi_mem_map_epoch\<close> after its
  initialisation to 0, so every successful \<open>get_memory_map\<close> of a session returns the
  map key 0: the key of a later call equals the key of an earlier one.
\<close>

theorem map_key_constant:
  "\<forall>k \<in> set (session_map_keys K cs initial_globals). k = 0"
  using session_map_keys_epoch [of _ K cs initial_globals]
  by (auto simp: initial_globals_def)

theorem map_key_constant_witness:
  "length (session_map_keys K_4k [Call_GetMemoryMap empty_query, Call_GetMemoryMap empty_query]
      initial_globals) = 2 \<and>
   session_map_keys K_4k [Call_GetMemoryMap empty_query, Call_GetMemoryMap empty_query]
      initial_globals ! 0 = 0 \<and>
   session_map_keys K_4k [Call_GetMemoryMap empty_query, Call_GetMemoryMap empty_query]
      initial_globals ! 1 = 0"
proof -
  let ?ks = "session_map_keys K_4k [Call_GetMemoryMap empty_query, Call_GetMemoryMap empty_query]
      initial_globals"
  have len: "length ?ks = 2" unfolding two_queries by simp
  then have "?ks ! 0 \<in> set ?ks" "?ks ! 1 \<in> set ?ks"
    by (simp_all only: nth_mem)
  with map_key_constant [of K_4k "[Call_GetMemoryMap empty_query, Call_GetMemoryMap empty_query]"]
  have "?ks ! 0 = 0" "?ks ! 1 = 0" by blast+
  with len show ?thesis by blast
qed

text \<open>
  C8 as stated fails: two successful queries in a row return the keys 0 and 0, and the
  later one is not greater.
\<close>

theorem map_key_increasing_counterexample:
  "length (session_map_keys K_4k [Call_GetMemoryMap empty_query, Call_GetMemoryMap empty_query]
      initial_globals) = 2 \<and>
   \<not> (session_map_keys K_4k [Call_GetMemoryMap empty_query, Call_GetMemoryMap empty_query]
        initial_globals ! 0
      < session_map_keys K_4k [Call_GetMemoryMap empty_query, Call_GetMemoryMap empty_query]
        initial_globals ! 1)"
  unfolding two_queries by simp


subsection \<open>The memory map query\<close>

lemma count_loop: "foldl (\<lambda>(n :: 32 word) position. n + 1) k ms = k + of_nat (length ms)"
  by (induction ms arbitrary: k) (simp_all add: algebra_simps)

lemma length_le_bytes [simp]: "length (le_bytes n w) = n"
  by (simp add: le_bytes_def)

lemma length_descriptor_bytes [simp]:
  "length (descriptor_bytes d) = sizeof_EFI_MEMORY_DESCRIPTOR"
  by (simp add: descriptor_bytes_def sizeof_EFI_MEMORY_DESCRIPTOR_def)

lemma copy_loop:
  "length pre = off \<Longrightarrow>
   foldl copy_descriptor (off, pre @ rest) ms =
     (off + length ms * sizeof_EFI_MEMORY_DESCRIPTOR,
      pre @ concat (map descriptor_bytes ms) @
      drop (length ms * sizeof_EFI_MEMORY_DESCRIPTOR) rest)"
proof (induction ms arbitrary: off pre rest)
  case Nil
  then show ?case by simp
next
  case (Cons d ms)
  have step: "copy_descriptor (off, pre @ rest) d =
      (off + sizeof_EFI_MEMORY_DESCRIPTOR,
       (pre @ descriptor_bytes d) @ drop sizeof_EFI_MEMORY_DESCRIPTOR rest)"
    using Cons.prems by (simp add: copy_descriptor_def memcpy_at_def)
  have len: "length (pre @ descriptor_bytes d) = off + sizeof_EFI_MEMORY_DESCRIPTOR"
    using Cons.prems by simp
  show ?case
    using Cons.IH [OF len, of "drop sizeof_EFI_MEMORY_DESCRIPTOR rest"]
    by (simp add: step add.commute add.left_commute del: append_assoc)
qed

lemma mem_map_size:
  assumes "length (efi_memory_mappings g) < 2 ^ 32"
  shows "efi_get_mem_map_size g =
           of_nat (length (efi_memory_mappings g) * sizeof_EFI_MEMORY_DESCRIPTOR)"
    and "unat (efi_get_mem_map_size g) =
           length (efi_memory_mappings g) * sizeof_EFI_MEMORY_DESCRIPTOR"
proof -
  let ?n = "length (efi_memory_mappings g)"
  have u: "ucast (of_nat ?n :: 32 word) = (of_nat ?n :: 64 word)"
  proof -
    have "unat (of_nat ?n :: 32 word) = ?n"
      using assms by (simp add: unat_of_nat)
    then show ?thesis
      by (metis of_nat_unat)
  qed
  show eq: "efi_get_mem_map_size g = of_nat (?n * sizeof_EFI_MEMORY_DESCRIPTOR)"
    by (simp add: efi_get_mem_map_size_def count_loop u)
  have "?n * 48 < 2 ^ 64" using assms by simp
  then show "unat (efi_get_mem_map_size g) = ?n * sizeof_EFI_MEMORY_DESCRIPTOR"
    unfolding eq by (simp add: sizeof_EFI_MEMORY_DESCRIPTOR_def unat_of_nat del: of_nat_mult)
qed

lemma ledger_one_bytes:
  "concat (map descriptor_bytes (efi_memory_mappings ledger_one)) =
     [2, 0, 0, 0,  0, 0, 0, 0,
      0, 0, 0x10, 0, 0, 0, 0, 0,
      0, 0, 0, 0, 0, 0, 0, 0,
      2, 0, 0, 0, 0, 0, 0, 0,
      15, 0, 0, 0, 0, 0, 0, 0,
      0, 0, 0, 0, 0, 0, 0, 0]"
  by (simp add: ledger_one_def descriptor_bytes_def le_bytes_def EfiLoaderData_def upt_rec
        drop_bit_eq_div)

text \<open>
  C3.  For a ledger of \<open>n\<close> descriptors (fewer than \<open>2^32\<close>, the range of the counter
  of \<open>efi_get_mem_map_size\<close>): when the size passed in is below \<open>n * 48\<close>, the call
  returns \<open>EFI_BUFFER_TOO_SMALL\<close>, writes \<open>n * 48\<close> to the size and leaves the buffer
  alone; otherwise it returns \<open>EFI_SUCCESS\<close>, the buffer starts with the bytes of every
  descriptor in ledger order, and the size written back is exactly \<open>n * 48\<close>.
\<close>

theorem get_memory_map_two_call:
  assumes "length (efi_memory_mappings g) < 2 ^ 32"
  shows "efi_hook_GetMemoryMap g v =
     (let n = length (efi_memory_mappings g);
          required = n * sizeof_EFI_MEMORY_DESCRIPTOR in
      if unat (MemoryMapSize v) < required
      then (EFI_BUFFER_TOO_SMALL,
            v\<lparr>DescriptorVersion := 1,
              DescriptorSize := of_nat sizeof_EFI_MEMORY_DESCRIPTOR,
              MemoryMapSize := of_nat required\<rparr>)
      else (EFI_SUCCESS,
            v\<lparr>DescriptorVersion := 1,
              DescriptorSize := of_nat sizeof_EFI_MEMORY_DESCRIPTOR,
              MemoryMap := concat (map descriptor_bytes (efi_memory_mappings g)) @
                           drop required (MemoryMap v),
              MemoryMapSize := of_nat required,
              MapKey := efi_mem_map_epoch g\<rparr>)) \<and>
     unat (of_nat (length (efi_memory_mappings g) * sizeof_EFI_MEMORY_DESCRIPTOR) :: 64 word)
       = length (efi_memory_mappings g) * sizeof_EFI_MEMORY_DESCRIPTOR"
proof -
  let ?n = "length (efi_memory_mappings g)"
  have lt: "(MemoryMapSize v < efi_get_mem_map_size g) =
            (unat (MemoryMapSize v) < ?n * sizeof_EFI_MEMORY_DESCRIPTOR)"
    by (simp add: word_less_nat_alt mem_map_size(2) [OF assms])
  have copy: "foldl copy_descriptor (0, MemoryMap v) (efi_memory_mappings g) =
      (?n * sizeof_EFI_MEMORY_DESCRIPTOR,
       concat (map descriptor_bytes (efi_memory_mappings g)) @
       drop (?n * sizeof_EFI_MEMORY_DESCRIPTOR) (MemoryMap v))"
    using copy_loop [of "[]" 0 "MemoryMap v" "efi_memory_mappings g"] by simp
  have sz: "unat (of_nat (?n * sizeof_EFI_MEMORY_DESCRIPTOR) :: 64 word)
              = ?n * sizeof_EFI_MEMORY_DESCRIPTOR"
    using mem_map_size [OF assms] by simp
  show ?thesis
  proof (cases "MemoryMapSize v < efi_get_mem_map_size g")
    case True
    with lt have "unat (MemoryMapSize v) < ?n * sizeof_EFI_MEMORY_DESCRIPTOR" by simp
    with True show ?thesis
      unfolding efi_hook_GetMemoryMap_def
      by (simp add: Let_def sz mem_map_size(1) [OF assms] del: of_nat_mult)
  next
    case False
    with lt have "\<not> unat (MemoryMapSize v) < ?n * sizeof_EFI_MEMORY_DESCRIPTOR" by simp
    with False show ?thesis
      unfolding efi_hook_GetMemoryMap_def
      by (simp add: Let_def copy sz del: of_nat_mult)
  qed
qed


theorem get_memory_map_two_call_witness:
  "length (efi_memory_mappings ledger_one) < 2 ^ 32 \<and>
   efi_hook_GetMemoryMap ledger_one empty_query =
     (EFI_BUFFER_TOO_SMALL,
      \<lparr>MemoryMapSize = 48, MemoryMap = [], MapKey = 5, DescriptorSize = 48,
       DescriptorVersion = 1\<rparr>) \<and>
   efi_hook_GetMemoryMap ledger_one query_49 =
     (EFI_SUCCESS,
      \<lparr>MemoryMapSize = 48,
       MemoryMap = [2, 0, 0, 0,  0, 0, 0, 0,
                    0, 0, 0x10, 0, 0, 0, 0, 0,
                    0, 0, 0, 0, 0, 0, 0, 0,
                    2, 0, 0, 0, 0, 0, 0, 0,
                    15, 0, 0, 0, 0, 0, 0, 0,
                    0, 0, 0, 0, 0, 0, 0, 0, 0xAA],
       MapKey = 0, DescriptorSize = 48, DescriptorVersion = 1\<rparr>)"
proof -
  have h: "length (efi_memory_mappings ledger_one) < 2 ^ 32"
    by (simp add: ledger_one_def)
  have n: "length (efi_memory_mappings ledger_one) = 1" "efi_mem_map_epoch ledger_one = 0"
    by (simp_all add: ledger_one_def)
  show ?thesis
    using get_memory_map_two_call [OF h, of empty_query]
          get_memory_map_two_call [OF h, of query_49]
    unfolding ledger_one_bytes n
    by (simp add: empty_query_def query_49_def sizeof_EFI_MEMORY_DESCRIPTOR_def Let_def)
qed


section \<open>Properties of the relocator\<close>










lemmas mem_eval = mem_put_def read16_def read32_def read64_def word_cat_eq push_bit_eq_mult
  relocs_at_def va_offset_def total_size_def entry_offset_def entry_type_def
  address_in_image_def drop_bit_eq_div







subsection \<open>The walk over the chunks\<close>

lemma chunk_state_Suc_end:
  "chunk_state img (Suc k) s = next_chunk img (chunk_state img k s)"
  by (induction k arbitrary: s) simp_all










section \<open>Properties of the GUID registry\<close>

lemma word_cat_eq_iff:
  fixes a c :: "'a::len word" and b d :: "'b::len word"
  assumes "LENGTH('a) + LENGTH('b) \<le> LENGTH('c::len)"
  shows "(word_cat a b :: 'c word) = word_cat c d \<longleftrightarrow> a = c \<and> b = d"
proof
  assume eq: "(word_cat a b :: 'c word) = word_cat c d"
  have b: "b = d"
  proof (rule bit_word_eqI)
    fix n assume n: "n < LENGTH('b)"
    from eq have "bit (word_cat a b :: 'c word) n = bit (word_cat c d :: 'c word) n" by simp
    with n assms show "bit b n = bit d n"
      by (simp add: bit_word_cat_iff)
  qed
  have a: "a = c"
  proof (rule bit_word_eqI)
    fix n assume n: "n < LENGTH('a)"
    from eq have "bit (word_cat a b :: 'c word) (n + LENGTH('b)) =
                  bit (word_cat c d :: 'c word) (n + LENGTH('b))" by simp
    with n assms show "bit a n = bit c n"
      by (simp add: bit_word_cat_iff)
  qed
  from a b show "a = c \<and> b = d" ..
qed auto

lemma guid_int32_inj: "guid_int32 g1 = guid_int32 g2 \<longleftrightarrow> g1 = g2"
proof
  assume eq: "guid_int32 g1 = guid_int32 g2"
  obtain a0 a1 a2 a3 a4 a5 a6 a7 where d1: "Data4 g1 = D4 a0 a1 a2 a3 a4 a5 a6 a7"
    by (cases "Data4 g1")
  obtain b0 b1 b2 b3 b4 b5 b6 b7 where d2: "Data4 g2 = D4 b0 b1 b2 b3 b4 b5 b6 b7"
    by (cases "Data4 g2")
  from eq d1 d2 have "Data1 g1 = Data1 g2" "Data2 g1 = Data2 g2" "Data3 g1 = Data3 g2"
    "Data4 g1 = Data4 g2"
    by (simp_all add: guid_int32_def word_cat_eq_iff)
  then show "g1 = g2" by simp
qed simp

lemma CompareGuid_zero_iff: "CompareGuid g1 g2 = 0 \<longleftrightarrow> g1 = g2"
proof -
  obtain a0 a1 a2 a3 a4 a5 a6 a7 where d1: "Data4 g1 = D4 a0 a1 a2 a3 a4 a5 a6 a7"
    by (cases "Data4 g1")
  obtain b0 b1 b2 b3 b4 b5 b6 b7 where d2: "Data4 g2 = D4 b0 b1 b2 b3 b4 b5 b6 b7"
    by (cases "Data4 g2")
  have "CompareGuid g1 g2 = 0 \<longleftrightarrow> guid_int32 g1 = guid_int32 g2"
    by (simp add: CompareGuid_def Let_def guid_int32_def d1 d2 or_eq_0_iff)
  then show ?thesis by (simp add: guid_int32_inj)
qed


lemmas GuidMappings_blocks =
  GuidMappings_0_def GuidMappings_1_def GuidMappings_2_def GuidMappings_3_def
  GuidMappings_4_def GuidMappings_5_def GuidMappings_6_def GuidMappings_7_def
  GuidMappings_8_def

lemma length_blocks:
  "length GuidMappings_0 = 49" "length GuidMappings_1 = 49" "length GuidMappings_2 = 49"
  "length GuidMappings_3 = 49" "length GuidMappings_4 = 49" "length GuidMappings_5 = 49"
  "length GuidMappings_6 = 49" "length GuidMappings_7 = 49" "length GuidMappings_8 = 49"
  by (simp_all add: GuidMappings_blocks)

lemma length_GuidMappings: "length GuidMappings = NUM_GUID_MAPPINGS"
  by (simp add: GuidMappings_def length_blocks NUM_GUID_MAPPINGS_def)

lemma find_append_blocks:
  "find P (xs @ ys) = (case find P xs of None \<Rightarrow> find P ys | Some x \<Rightarrow> Some x)"
  by (induction xs) simp_all

lemma GetGuidName_loop_find:
  "i \<le> length GuidMappings \<Longrightarrow>
   GetGuidName_loop g i =
     (case find (\<lambda>e. Guid e = g) (drop i GuidMappings) of
        Some e \<Rightarrow> (Name e, i + length (takeWhile (\<lambda>e. Guid e \<noteq> g) (drop i GuidMappings)))
      | None \<Rightarrow> (''<Unknown>'', NUM_GUID_MAPPINGS))"
proof (induction g i rule: GetGuidName_loop.induct)
  case (1 g i)
  show ?case
  proof (cases "i < NUM_GUID_MAPPINGS")
    case False
    with "1.prems" have "i = length GuidMappings" "i = NUM_GUID_MAPPINGS"
      by (simp_all add: length_GuidMappings)
    then show ?thesis
      by (subst GetGuidName_loop.simps) simp
  next
    case True
    then have lt: "i < length GuidMappings" by (simp add: length_GuidMappings)
    then have dr: "drop i GuidMappings = GuidMappings ! i # drop (Suc i) GuidMappings"
      by (simp add: Cons_nth_drop_Suc)
    show ?thesis
    proof (cases "Guid (GuidMappings ! i) = g")
      case eq: True
      then have "CompareGuid g (Guid (GuidMappings ! i)) = 0"
        by (simp add: CompareGuid_zero_iff)
      with True eq show ?thesis
        by (subst GetGuidName_loop.simps) (simp add: dr)
    next
      case ne: False
      then have c: "CompareGuid g (Guid (GuidMappings ! i)) \<noteq> 0"
        by (auto simp: CompareGuid_zero_iff)
      from lt have "i + 1 \<le> length GuidMappings" by simp
      from "1.IH" [OF True c this] True c ne show ?thesis
        by (subst GetGuidName_loop.simps) (simp add: dr split: option.splits)
    qed
  qed
qed

lemma find_first_index:
  "i < length xs \<Longrightarrow> P (xs ! i) \<Longrightarrow> \<forall>j<i. \<not> P (xs ! j) \<Longrightarrow> find P xs = Some (xs ! i)"
proof (induction xs arbitrary: i)
  case Nil
  then show ?case by simp
next
  case (Cons x xs)
  show ?case
  proof (cases i)
    case 0
    with Cons.prems show ?thesis by simp
  next
    case (Suc k)
    with Cons.prems have "\<not> P x" by auto
    moreover from Suc Cons.prems have "find P xs = Some (xs ! k)"
      by (intro Cons.IH) auto
    ultimately show ?thesis using Suc by simp
  qed
qed

lemma find_guid_twice:
  "find (\<lambda>e. Guid e = guid_twice) GuidMappings =
     Some (GUID_NAME 0x286BF25A 0xC2C3 0x408C 0xB3 0xB4 0x25 0xE6 0x75 0x8B 0x73 0x17
             ''Tpm2InstanceLibDTpm'')"
proof -
  have "find (\<lambda>e. Guid e = guid_twice) GuidMappings_0 =
     Some (GUID_NAME 0x286BF25A 0xC2C3 0x408C 0xB3 0xB4 0x25 0xE6 0x75 0x8B 0x73 0x17
             ''Tpm2InstanceLibDTpm'')"
    by (simp add: GuidMappings_0_def GUID_NAME_def guid_twice_def)
  then show ?thesis
    by (simp add: GuidMappings_def find_append_blocks)
qed

lemma find_guid_absent_blocks:
  "find (\<lambda>e. Guid e = guid_absent) GuidMappings_0 = None"
  "find (\<lambda>e. Guid e = guid_absent) GuidMappings_1 = None"
  "find (\<lambda>e. Guid e = guid_absent) GuidMappings_2 = None"
  "find (\<lambda>e. Guid e = guid_absent) GuidMappings_3 = None"
  "find (\<lambda>e. Guid e = guid_absent) GuidMappings_4 = None"
  "find (\<lambda>e. Guid e = guid_absent) GuidMappings_5 = None"
  "find (\<lambda>e. Guid e = guid_absent) GuidMappings_6 = None"
  "find (\<lambda>e. Guid e = guid_absent) GuidMappings_7 = None"
  "find (\<lambda>e. Guid e = guid_absent) GuidMappings_8 = None"
  by (simp_all add: GuidMappings_blocks GUID_NAME_def guid_absent_def)

lemma find_guid_absent:
  "find (\<lambda>e. Guid e = guid_absent) GuidMappings = None"
  by (simp add: GuidMappings_def find_append_blocks find_guid_absent_blocks)

lemma GuidMappings_183:
  "GuidMappings ! 183 =
      GUID_NAME 0x286BF25A 0xC2C3 0x408C 0xB3 0xB4 0x25 0xE6 0x75 0x8B 0x73 0x17
        ''gEfiTpmDeviceInstanceTpm20DtpmGuid''"
proof -
  have "GuidMappings ! 183 = GuidMappings_3 ! 36"
    by (simp add: GuidMappings_def nth_append length_blocks)
  also have "\<dots> = GUID_NAME 0x286BF25A 0xC2C3 0x408C 0xB3 0xB4 0x25 0xE6 0x75 0x8B 0x73 0x17
        ''gEfiTpmDeviceInstanceTpm20DtpmGuid''"
    by (simp add: GuidMappings_3_def)
  finally show ?thesis .
qed

text \<open>
  C7.  The table has exactly \<open>NUM_GUID_MAPPINGS\<close> entries.  \<open>GetGuidName\<close> returns the name
  of the first entry, in table order, whose GUID equals the argument (the loop is left at
  the index of that entry); for a GUID that no entry holds it returns \<open>"<Unknown>"\<close>, and
  the loop is left with \<open>i = NUM_GUID_MAPPINGS\<close>, having compared against every entry
  and no index beyond the table.
\<close>

theorem GetGuidName_first_match:
  "NUM_GUID_MAPPINGS = length GuidMappings \<and>
   GetGuidName_loop g 0 =
     (case find (\<lambda>e. Guid e = g) GuidMappings of
        Some e \<Rightarrow> (Name e, length (takeWhile (\<lambda>e. Guid e \<noteq> g) GuidMappings))
      | None \<Rightarrow> (''<Unknown>'', NUM_GUID_MAPPINGS)) \<and>
   GetGuidName (Some g) =
     (case find (\<lambda>e. Guid e = g) GuidMappings of
        Some e \<Rightarrow> Name e
      | None \<Rightarrow> ''<Unknown>'') \<and>
   (\<forall>i<length GuidMappings.
      Guid (GuidMappings ! i) = g \<and> (\<forall>j<i. Guid (GuidMappings ! j) \<noteq> g) \<longrightarrow>
      GetGuidName (Some g) = Name (GuidMappings ! i)) \<and>
   (g \<notin> Guid ` set GuidMappings \<longrightarrow>
      GetGuidName (Some g) = ''<Unknown>'' \<and> snd (GetGuidName_loop g 0) = NUM_GUID_MAPPINGS)"
proof -
  have loop: "GetGuidName_loop g 0 =
     (case find (\<lambda>e. Guid e = g) GuidMappings of
        Some e \<Rightarrow> (Name e, length (takeWhile (\<lambda>e. Guid e \<noteq> g) GuidMappings))
      | None \<Rightarrow> (''<Unknown>'', NUM_GUID_MAPPINGS))"
    using GetGuidName_loop_find [of 0 g] by (simp cong: option.case_cong)
  then have name: "GetGuidName (Some g) =
     (case find (\<lambda>e. Guid e = g) GuidMappings of
        Some e \<Rightarrow> Name e
      | None \<Rightarrow> ''<Unknown>'')"
    by (simp add: GetGuidName_def split: option.splits)
  have first: "\<forall>i<length GuidMappings.
      Guid (GuidMappings ! i) = g \<and> (\<forall>j<i. Guid (GuidMappings ! j) \<noteq> g) \<longrightarrow>
      GetGuidName (Some g) = Name (GuidMappings ! i)"
  proof (intro allI impI)
    fix i assume i: "i < length GuidMappings"
      and h: "Guid (GuidMappings ! i) = g \<and> (\<forall>j<i. Guid (GuidMappings ! j) \<noteq> g)"
    then have "find (\<lambda>e. Guid e = g) GuidMappings = Some (GuidMappings ! i)"
      by (intro find_first_index) auto
    with name show "GetGuidName (Some g) = Name (GuidMappings ! i)" by simp
  qed
  have absent: "g \<notin> Guid ` set GuidMappings \<longrightarrow>
      GetGuidName (Some g) = ''<Unknown>'' \<and> snd (GetGuidName_loop g 0) = NUM_GUID_MAPPINGS"
  proof
    assume "g \<notin> Guid ` set GuidMappings"
    then have "find (\<lambda>e. Guid e = g) GuidMappings = None"
      by (auto simp: find_None_iff)
    with loop name show "GetGuidName (Some g) = ''<Unknown>'' \<and>
        snd (GetGuidName_loop g 0) = NUM_GUID_MAPPINGS" by simp
  qed
  from length_GuidMappings loop name first absent show ?thesis by simp
qed

theorem GetGuidName_first_match_witness:
  "GetGuidName (Some guid_twice) = ''Tpm2InstanceLibDTpm'' \<and>
   Guid (GuidMappings ! 183) = guid_twice \<and>
   Name (GuidMappings ! 183) = ''gEfiTpmDeviceInstanceTpm20DtpmGuid'' \<and>
   GetGuidName (Some guid_absent) = ''<Unknown>'' \<and>
   GetGuidName_loop guid_absent 0 = (''<Unknown>'', 441) \<and>
   length GuidMappings = 441"
proof -
  have a: "GetGuidName (Some guid_twice) = ''Tpm2InstanceLibDTpm''"
    using GetGuidName_first_match [of guid_twice]
    by (simp add: find_guid_twice) (simp add: GUID_NAME_def)
  have b: "GetGuidName (Some guid_absent) = ''<Unknown>''"
      "GetGuidName_loop guid_absent 0 = (''<Unknown>'', 441)"
      "length GuidMappings = 441"
    using GetGuidName_first_match [of guid_absent]
    by (simp_all add: find_guid_absent NUM_GUID_MAPPINGS_def)
  note c = GuidMappings_183
  from a b c show ?thesis
    by (simp add: GUID_NAME_def guid_twice_def)
qed


subsection \<open>The protocol dispatch\<close>

lemma handled_names_blocks:
  "\<forall>e \<in> set GuidMappings_0.
     (Name e = ''gEfiLoadedImageProtocolGuid'' \<longrightarrow> Guid e = LoadedImageProtocolGuid) \<and>
     (Name e = ''gEfiDevicePathProtocolGuid'' \<longrightarrow> Guid e = DevicePathProtocolGuid)"
  "\<forall>e \<in> set GuidMappings_1.
     (Name e = ''gEfiLoadedImageProtocolGuid'' \<longrightarrow> Guid e = LoadedImageProtocolGuid) \<and>
     (Name e = ''gEfiDevicePathProtocolGuid'' \<longrightarrow> Guid e = DevicePathProtocolGuid)"
  "\<forall>e \<in> set GuidMappings_2.
     (Name e = ''gEfiLoadedImageProtocolGuid'' \<longrightarrow> Guid e = LoadedImageProtocolGuid) \<and>
     (Name e = ''gEfiDevicePathProtocolGuid'' \<longrightarrow> Guid e = DevicePathProtocolGuid)"
  "\<forall>e \<in> set GuidMappings_3.
     (Name e = ''gEfiLoadedImageProtocolGuid'' \<longrightarrow> Guid e = LoadedImageProtocolGuid) \<and>
     (Name e = ''gEfiDevicePathProtocolGuid'' \<longrightarrow> Guid e = DevicePathProtocolGuid)"
  "\<forall>e \<in> set GuidMappings_4.
     (Name e = ''gEfiLoadedImageProtocolGuid'' \<longrightarrow> Guid e = LoadedImageProtocolGuid) \<and>
     (Name e = ''gEfiDevicePathProtocolGuid'' \<longrightarrow> Guid e = DevicePathProtocolGuid)"
  "\<forall>e \<in> set GuidMappings_5.
     (Name e = ''gEfiLoadedImageProtocolGuid'' \<longrightarrow> Guid e = LoadedImageProtocolGuid) \<and>
     (Name e = ''gEfiDevicePathProtocolGuid'' \<longrightarrow> Guid e = DevicePathProtocolGuid)"
  "\<forall>e \<in> set GuidMappings_6.
     (Name e = ''gEfiLoadedImageProtocolGuid'' \<longrightarrow> Guid e = LoadedImageProtocolGuid) \<and>
     (Name e = ''gEfiDevicePathProtocolGuid'' \<longrightarrow> Guid e = DevicePathProtocolGuid)"
  "\<forall>e \<in> set GuidMappings_7.
     (Name e = ''gEfiLoadedImageProtocolGuid'' \<longrightarrow> Guid e = LoadedImageProtocolGuid) \<and>
     (Name e = ''gEfiDevicePathProtocolGuid'' \<longrightarrow> Guid e = DevicePathProtocolGuid)"
  "\<forall>e \<in> set GuidMappings_8.
     (Name e = ''gEfiLoadedImageProtocolGuid'' \<longrightarrow> Guid e = LoadedImageProtocolGuid) \<and>
     (Name e = ''gEfiDevicePathProtocolGuid'' \<longrightarrow> Guid e = DevicePathProtocolGuid)"
  by (simp_all add: GuidMappings_blocks GUID_NAME_def LoadedImageProtocolGuid_def
        DevicePathProtocolGuid_def)

lemma handled_names:
  assumes "e \<in> set GuidMappings"
  shows "Name e = ''gEfiLoadedImageProtocolGuid'' \<Longrightarrow> Guid e = LoadedImageProtocolGuid"
    and "Name e = ''gEfiDevicePathProtocolGuid'' \<Longrightarrow> Guid e = DevicePathProtocolGuid"
  using assms handled_names_blocks unfolding GuidMappings_def by auto

lemma GetGuidName_Some:
  "GetGuidName (Some g) =
     (case find (\<lambda>e. Guid e = g) GuidMappings of
        Some e \<Rightarrow> Name e
      | None \<Rightarrow> ''<Unknown>'')"
  using GetGuidName_loop_find [of 0 g]
  by (simp add: GetGuidName_def split: option.splits)

lemma GetGuidName_handled:
  "GetGuidName guid = ''gEfiLoadedImageProtocolGuid'' \<Longrightarrow> guid = Some LoadedImageProtocolGuid"
  "GetGuidName guid = ''gEfiDevicePathProtocolGuid'' \<Longrightarrow> guid = Some DevicePathProtocolGuid"
proof -
  { fix N G
    assume N: "N \<noteq> ''<Unknown>''" "N \<noteq> ''<NULL protocol pointer>''"
      and T: "\<And>e. e \<in> set GuidMappings \<Longrightarrow> Name e = N \<Longrightarrow> Guid e = G"
      and eq: "GetGuidName guid = N"
    have "guid = Some G"
    proof (cases guid)
      case None
      with eq N show ?thesis by (simp add: GetGuidName_def)
    next
      case (Some g)
      with eq N obtain e where e: "find (\<lambda>e. Guid e = g) GuidMappings = Some e" "Name e = N"
        by (auto simp: GetGuidName_Some split: option.splits)
      then have "e \<in> set GuidMappings" "Guid e = g"
        by (auto simp: find_Some_iff)
      with T e Some show ?thesis by auto
    qed }
  note gen = this
  show "GetGuidName guid = ''gEfiLoadedImageProtocolGuid'' \<Longrightarrow> guid = Some LoadedImageProtocolGuid"
    by (rule gen [of "''gEfiLoadedImageProtocolGuid''"]) (simp_all add: handled_names)
  show "GetGuidName guid = ''gEfiDevicePathProtocolGuid'' \<Longrightarrow> guid = Some DevicePathProtocolGuid"
    by (rule gen [of "''gEfiDevicePathProtocolGuid''"]) (simp_all add: handled_names)
qed

lemma absent_name: "GetGuidName (Some guid_absent) = ''<Unknown>''"
  by (simp add: GetGuidName_Some find_guid_absent)

text \<open>
  C6, as the code has it.  For every GUID that is neither the GUID of the LoadedImage
  protocol nor that of the device-path protocol, passed by a non-null pointer,
  \<open>efi_hook_HandleProtocol\<close> returns \<open>EFI_UNSUPPORTED\<close> and writes nothing: \<open>*interface\<close>
  keeps the value the caller had put there, and \<open>windows_loaded_image\<close> is unchanged.
\<close>

theorem HandleProtocol_unhandled:
  assumes "g \<noteq> LoadedImageProtocolGuid" and "g \<noteq> DevicePathProtocolGuid"
  shows "efi_hook_HandleProtocol G device handle (Some g) interface wli =
           Some (EFI_UNSUPPORTED, interface, wli)"
  using assms GetGuidName_handled [of "Some g"]
  by (auto simp: efi_hook_HandleProtocol_def get_GUID_str_def Let_def)

theorem HandleProtocol_unhandled_witness:
  "guid_absent \<noteq> LoadedImageProtocolGuid \<and>
   guid_absent \<noteq> DevicePathProtocolGuid \<and>
   efi_hook_HandleProtocol G_example 0xFFFF00000A000000 BOOT_DEVICE_HANDLE (Some guid_absent)
       0 windows_loaded_image_init =
     Some (EFI_UNSUPPORTED, 0, windows_loaded_image_init)"
proof -
  have a: "guid_absent \<noteq> LoadedImageProtocolGuid"
    and b: "guid_absent \<noteq> DevicePathProtocolGuid"
    by (simp_all add: guid_absent_def LoadedImageProtocolGuid_def DevicePathProtocolGuid_def)
  from HandleProtocol_unhandled [OF a b] a b show ?thesis by blast
qed

text \<open>
  C6 as stated fails: a caller whose interface variable holds \<open>0x1234\<close> and who asks for
  a GUID that is not in the table gets \<open>EFI_UNSUPPORTED\<close>, and the variable still holds
  \<open>0x1234\<close>, not a null pointer.
\<close>

theorem HandleProtocol_null_interface_counterexample:
  "guid_absent \<noteq> LoadedImageProtocolGuid \<and>
   guid_absent \<noteq> DevicePathProtocolGuid \<and>
   efi_hook_HandleProtocol G_example 0xFFFF00000A000000 BOOT_DEVICE_HANDLE (Some guid_absent)
       0x1234 windows_loaded_image_init =
     Some (EFI_UNSUPPORTED, 0x1234, windows_loaded_image_init) \<and>
   (0x1234 :: 64 word) \<noteq> 0"
proof -
  have a: "guid_absent \<noteq> LoadedImageProtocolGuid"
    and b: "guid_absent \<noteq> DevicePathProtocolGuid"
    by (simp_all add: guid_absent_def LoadedImageProtocolGuid_def DevicePathProtocolGuid_def)
  have c: "efi_hook_HandleProtocol G_example 0xFFFF00000A000000 BOOT_DEVICE_HANDLE
       (Some guid_absent) 0x1234 windows_loaded_image_init =
     Some (EFI_UNSUPPORTED, 0x1234, windows_loaded_image_init)"
    by (simp add: efi_hook_HandleProtocol_def get_GUID_str_def absent_name Let_def)
  from a b c show ?thesis by simp
qed

section \<open>Properties of the PE loader\<close>

lemma readable_example_interval:
  assumes "unat sz \<le> 0x1000" and "0x6000 \<le> b" and "b \<le> 0x7000"
  shows "DumpBuffer env_example b sz = Some ()"
proof -
  have "readable env_example (b + of_nat i)" if "i < unat sz" for i
  proof -
    from that assms(1) have i: "i < 0x1000" by simp
    then have ui: "unat (of_nat i :: 64 word) = i"
      by (simp add: unat_of_nat)
    from assms(3) have ub: "unat b \<le> 0x7000" by (simp add: word_le_nat_alt)
    from assms(2) have lb: "0x6000 \<le> unat b" by (simp add: word_le_nat_alt)
    have s: "unat (b + of_nat i) = unat b + i"
      using ub i ui by (simp add: unat_word_ariths)
    have "0x6000 \<le> b + of_nat i" "b + of_nat i < 0x8000"
      using s lb ub i by (simp_all add: word_le_nat_alt word_less_nat_alt)
    then show ?thesis by (simp add: env_example_def)
  qed
  then show ?thesis
    by (simp add: DumpBuffer_def list_all_iff)
qed

lemma dump_example:
  "DumpBuffer env_example (buf seg_bad) 32 = Some ()"
  "DumpBuffer env_example (buf seg_table) 32 = Some ()"
  by (rule readable_example_interval; simp add: seg_bad_def seg_table_def)+

lemma copy_example_results:
  "fst (copy_from_user_example m to 0x7000 0x1000) = 0"
  "fst (copy_from_user_example m to 0x8000 0x1000) = 0x1000"
  "fst (copy_from_user_example m to 0x6000 0x1000) = 0"
  by (simp_all add: copy_from_user_example_def Let_def)

lemma load_bad_segment:
  "kimage_load_pe_segment K_4k env_example img_loaded seg_bad mem_in =
     Some (Some EFAULT,
           snd (copy_from_user_example mem_first_page 0xFFFF000010001000 0x8000 0x1000))"
proof -
  have "kimage_load_pe_segment K_4k env_example img_loaded seg_bad mem_in =
        load_pe_segment_loop K_4k env_example 0x7000 0x2000 0x2000 0x1000000
          0xFFFF000010000000 mem_in"
    by (simp add: kimage_load_pe_segment_def Let_def dump_example)
       (simp add: seg_bad_def img_loaded_def)
  also have "\<dots> = load_pe_segment_loop K_4k env_example 0x8000 0x1000 0x1000 0x1001000
          0xFFFF000010001000 mem_first_page"
    by (subst load_pe_segment_loop.simps)
       (simp add: K_4k_def PAGE_MASK_def env_example_def Let_def split_beta
          copy_example_results mem_first_page_def)
  also have "\<dots> = Some (Some EFAULT,
           snd (copy_from_user_example mem_first_page 0xFFFF000010001000 0x8000 0x1000))"
    by (subst load_pe_segment_loop.simps)
       (simp add: K_4k_def PAGE_MASK_def env_example_def Let_def split_beta
          copy_example_results)
  finally show ?thesis .
qed

lemma load_table_segment:
  "kimage_load_pe_segment K_4k env_example img_loaded seg_table m =
     Some (None, snd (copy_from_user_example m 0xFFFF000010002000 0x6000 0x1000))"
proof -
  have "kimage_load_pe_segment K_4k env_example img_loaded seg_table m =
        load_pe_segment_loop K_4k env_example 0x6000 0x1000 0x1000 0x1002000
          0xFFFF000010002000 m"
    by (simp add: kimage_load_pe_segment_def Let_def dump_example)
       (simp add: seg_table_def img_loaded_def)
  also have "\<dots> = load_pe_segment_loop K_4k env_example 0x7000 0 0 0x1003000
          0xFFFF000010003000 (snd (copy_from_user_example m 0xFFFF000010002000 0x6000 0x1000))"
    by (subst load_pe_segment_loop.simps)
       (simp add: K_4k_def PAGE_MASK_def env_example_def Let_def split_beta
          copy_example_results)
  also have "\<dots> = Some (None, snd (copy_from_user_example m 0xFFFF000010002000 0x6000 0x1000))"
    by (subst load_pe_segment_loop.simps) simp
  finally show ?thesis .
qed

lemma mem_out_table: "total_size mem_out 0x6000 = 0"
  by (simp add: mem_out_def mem_first_page_def copy_from_user_example_def mem_in_def mem_eval
        Let_def)

lemma mem_out_copied:
  "read16 mem_out 0xFFFF000010000000 = 0x5A4D"
  "read32 mem_out 0xFFFF000010002000 = 0x04030201"
  by (simp_all add: mem_out_def mem_first_page_def copy_from_user_example_def mem_in_def
        mem_eval Let_def)

lemma load_example_segments:
  "load_pe_segments K_4k env_example img_loaded [seg_bad, seg_table] mem_in = Some mem_out"
  by (simp add: load_bad_segment load_table_segment mem_out_def)

lemma table_example:
  "parse_reloc_table seg_table img_loaded mem_out = Some ([], 0x6000, mem_out)"
  unfolding parse_reloc_table_def Let_def
  by (subst reloc_walk.simps) (simp add: seg_table_def mem_out_table)

text \<open>
  C5 does not hold of the code.  On the image \<open>img_in\<close> the first 32 bytes of the first
  segment can be read and its first page is copied, the copy of its second page fails,
  and \<open>kimage_load_pe_segment\<close> returns \<open>-EFAULT\<close> for it.  \<open>kimage_load_pe\<close> does not
  look at that value: the first page stays in the image buffer, the second segment is
  copied after it (its first four bytes are found there), the image base and size are
  recorded in \<open>windows_loaded_image\<close>, the relocation table is walked, and the function
  returns as after a successful load.
\<close>

theorem kimage_load_pe_ignores_fault:
  "DumpBuffer env_example (buf seg_bad) 32 = Some () \<and>
   map_option fst (kimage_load_pe_segment K_4k env_example img_loaded seg_bad mem_in) =
     Some (Some EFAULT) \<and>
   kimage_load_pe K_4k env_example G_example img_in mem_in windows_loaded_image_init =
     Some (img_loaded, mem_out,
           windows_loaded_image_init\<lparr>ImageBase := 0xFFFF000010000000, ImageSize := 0x3000,
                                       SystemTable := 0xFFFF000008A00300\<rparr>) \<and>
   read16 mem_out 0xFFFF000010000000 = 0x5A4D \<and>
   read32 mem_out 0xFFFF000010002000 = 0x04030201"
proof -
  have a: "map_option fst (kimage_load_pe_segment K_4k env_example img_loaded seg_bad mem_in) =
     Some (Some EFAULT)"
    by (simp add: load_bad_segment)
  have segs: "segment img_in = [seg_bad, seg_table]" "segment img_loaded = [seg_bad, seg_table]"
    by (simp_all add: img_in_def img_loaded_def)
  have sz: "foldl (\<lambda>sz seg. sz + memsz seg) 0 [seg_bad, seg_table] = (0x3000 :: 64 word)"
    by (simp add: seg_bad_def seg_table_def)
  have img1: "img_in\<lparr>raw_image := vmalloc_exec env_example 0x3000,
                     raw_image_mem_base := mem seg_bad,
                     raw_image_start := vmalloc_exec env_example 0x3000 +
                                        (start img_in - mem seg_bad)\<rparr> = img_loaded"
    by (simp add: img_in_def img_loaded_def env_example_def seg_bad_def)
  have lst: "last [seg_bad, seg_table] = seg_table" by simp
  have fin: "windows_loaded_image_init\<lparr>ImageBase := raw_image img_loaded, ImageSize := 0x3000,
                SystemTable := addr_fake_systab G_example\<rparr> =
             windows_loaded_image_init\<lparr>ImageBase := 0xFFFF000010000000, ImageSize := 0x3000,
                SystemTable := 0xFFFF000008A00300\<rparr>"
    by (simp add: img_loaded_def G_example_def)
  have b: "kimage_load_pe K_4k env_example G_example img_in mem_in
       windows_loaded_image_init =
     Some (img_loaded, mem_out,
           windows_loaded_image_init\<lparr>ImageBase := 0xFFFF000010000000, ImageSize := 0x3000,
                                       SystemTable := 0xFFFF000008A00300\<rparr>)"
    by (simp only: kimage_load_pe_def segs list.case Let_def sz img1 lst
          load_example_segments option.case table_example prod.case fin)
  from a b mem_out_copied dump_example(1) show ?thesis by simp
qed


end
